theory Spec2Isabelle
  imports Main
begin

section \<open>JavaScript values, thrown values and the outcome of an awaitable\<close>

text \<open>
  Arguments, results and thrown values of instrumented callables are JavaScript values:
  primitives, Symbols (\<open>JSymbol\<close> with the description), arrays and plain objects. Values
  are finite trees and there is no \<^verbatim>\<open>BigInt\<close>, so \<^verbatim>\<open>JSON.stringify\<close>, which the \<^verbatim>\<open>info\<close> log
  lines apply to arguments, options, payloads and metadata, returns on every value of the model.
  Numbers are the integral doubles of token counts and millisecond clocks.
\<close>

datatype jsval =
    JUndefined
  | JNull
  | JBool bool
  | JNum int
  | JStr string
  | JSymbol string
  | JArr "jsval list"
  | JObj "(string \<times> jsval) list"

text \<open>
  Addition and subtraction of numbers are those of IEEE doubles. On integral operands the
  exact result is rounded to the nearest double, ties to the even significand; every integer
  of magnitude up to \<open>2 ^ 53\<close> is a double, so the result is exact there. (The operands are
  taken to be doubles themselves and the result to stay finite.)
\<close>

fun bitlen :: "nat \<Rightarrow> nat" where
  "bitlen n = (if n = 0 then 0 else Suc (bitlen (n div 2)))"

declare bitlen.simps [simp del]

definition roundDouble :: "int \<Rightarrow> int" where
  "roundDouble n =
     (if \<bar>n\<bar> \<le> 2 ^ 53 then n
      else (let a = nat \<bar>n\<bar>;
                s = bitlen a - 53;
                q = a div 2 ^ s;
                r = a mod 2 ^ s;
                h = 2 ^ (s - 1);
                q' = (if h < r \<or> (r = h \<and> odd q) then q + 1 else q)
            in sgn n * int (q' * 2 ^ s)))"

definition js_add :: "int \<Rightarrow> int \<Rightarrow> int" where
  "js_add a b = roundDouble (a + b)"

definition js_sub :: "int \<Rightarrow> int \<Rightarrow> int" where
  "js_sub a b = roundDouble (a - b)"

text \<open>JavaScript truthiness, as tested by \<^verbatim>\<open>||\<close>, \<^verbatim>\<open>!\<close> and \<^verbatim>\<open>if\<close>.\<close>

fun truthy :: "jsval \<Rightarrow> bool" where
  "truthy JUndefined = False"
| "truthy JNull = False"
| "truthy (JBool b) = b"
| "truthy (JNum n) = (n \<noteq> 0)"
| "truthy (JStr s) = (s \<noteq> [])"
| "truthy (JSymbol d) = True"
| "truthy (JArr vs) = True"
| "truthy (JObj fs) = True"

text \<open>\<^verbatim>\<open>s || d\<close> on an optional string: \<^verbatim>\<open>undefined\<close> and \<^verbatim>\<open>""\<close> are falsy.\<close>

definition str_or :: "string option \<Rightarrow> string \<Rightarrow> string" where
  "str_or s d = (case s of None \<Rightarrow> d | Some v \<Rightarrow> if v = [] then d else v)"

record ControlDetails =
  detectedSensitivity :: "string list"
  isAllowedPersona :: bool

text \<open>
  What a \<^verbatim>\<open>throw\<close> can carry: any value that is not an error object (\<open>Thrown\<close>), an
  \<^verbatim>\<open>Error\<close> with its message (\<^verbatim>\<open>new Error(message)\<close>, and the error objects of the delivery
  client and of the configuration), the language's \<^verbatim>\<open>TypeError\<close>, or the SDK's
  \<^verbatim>\<open>OlakaiBlockedError(message, details)\<close>.
\<close>

datatype exn =
    Thrown jsval
  | Error string
  | TypeError string
  | OlakaiBlockedError string ControlDetails

text \<open>The settled state of the promise an async wrapper returns.\<close>

datatype 'a outcome = Resolved 'a | Rejected exn

section \<open>Types of \<^verbatim>\<open>types.ts\<close>\<close>

record ControlAPIResponse =
  allowed :: bool
  details :: ControlDetails
  message :: "string option"

record MonitoringAPIResponse =
  success :: bool
  totalRequests :: nat
  successCount :: nat
  failureCount :: nat

datatype api_response =
    ControlResponse ControlAPIResponse
  | MonitoringResponse MonitoringAPIResponse

record ControlPayload =
  cp_prompt :: jsval
  cp_email :: "string option"
  cp_chatId :: "string option"
  cp_task :: "string option"
  cp_subTask :: "string option"
  cp_tokens :: "int option"
  cp_overrideControlCriteria :: "string list option"

datatype LLMProvider = openai | anthropic | google | custom

record TokenCounts =
  tk_prompt :: "int option"
  tk_completion :: "int option"
  tk_total :: "int option"

record Timing =
  startTime :: int
  endTime :: int
  duration :: int

record LLMMetadata =
  md_provider :: LLMProvider
  md_model :: string
  md_apiKey :: "string option"
  md_tokens :: "TokenCounts option"
  md_parameters :: "(string \<times> jsval) list option"
  md_timing :: "Timing option"
  md_functionCalls :: "jsval list option"
  md_streamMode :: "bool option"
  md_finishReason :: "string option"

record MonitorPayload =
  mp_prompt :: jsval
  mp_response :: jsval
  mp_email :: "string option"
  mp_chatId :: "string option"
  mp_taskExecutionId :: "string option"
  mp_task :: "string option"
  mp_subTask :: "string option"
  mp_tokens :: "int option"
  mp_requestTime :: "int option"
  mp_errorMessage :: "jsval option"
  mp_blocked :: "bool option"
  mp_sensitivity :: "string list option"
  mp_shouldScore :: "bool option"
  mp_customData :: "(string \<times> jsval) list option"
  mp_llmMetadata :: "LLMMetadata option"

text \<open>A payload with every optional field absent; object literals set the fields they name.\<close>

definition emptyMonitorPayload :: MonitorPayload where
  "emptyMonitorPayload =
     \<lparr> mp_prompt = JUndefined, mp_response = JUndefined, mp_email = None, mp_chatId = None,
       mp_taskExecutionId = None, mp_task = None, mp_subTask = None, mp_tokens = None,
       mp_requestTime = None, mp_errorMessage = None, mp_blocked = None,
       mp_sensitivity = None, mp_shouldScore = None, mp_customData = None,
       mp_llmMetadata = None \<rparr>"

datatype payload = CtlPayload ControlPayload | MonPayload MonitorPayload

datatype endpointKind = monitoring | control

record SDKConfig =
  apiKey :: string
  monitorEndpoint :: string
  controlEndpoint :: string
  version :: string
  retries :: nat
  timeout :: nat
  debug :: bool
  verbose :: bool

text \<open>
  \<^verbatim>\<open>chatId\<close> and \<^verbatim>\<open>email\<close> of \<^verbatim>\<open>MonitorOptions\<close> are
  \<^verbatim>\<open>string | ((args) => string)\<close>; a resolver function may throw.
\<close>

datatype dynamicId = Static string | Resolver "jsval list \<Rightarrow> exn + string"

record MonitorOptions =
  onMonitoredFunctionError :: "bool option"
  chatId :: "dynamicId option"
  email :: "dynamicId option"
  taskExecutionId :: "string option"
  task :: "string option"
  subTask :: "string option"
  sanitize :: "bool option"
  askOverride :: "string list option"

section \<open>The environment and the observable effects\<close>

datatype level = info | warn | error

text \<open>
  The effects of a call are recorded in a world: the requests handed to \<^verbatim>\<open>sendToAPI\<close>
  in dispatch order, the argument lists the wrapped callable was invoked with, the
  \<^verbatim>\<open>warn\<close>/\<^verbatim>\<open>error\<close> log lines (message text without the interpolated error; \<^verbatim>\<open>info\<close>
  lines are not recorded), the number of \<^verbatim>\<open>Date.now()\<close> readings taken, and the calls a
  provider adapter made to its \<^verbatim>\<open>onLLMCall\<close> and \<^verbatim>\<open>onLLMError\<close> callbacks.
\<close>

record world =
  sent :: "(payload \<times> endpointKind) list"
  invoked :: "jsval list list"
  logged :: "(level \<times> string) list"
  clock :: nat
  llmCalls :: "(jsval \<times> string \<times> LLMMetadata) list"
  llmErrors :: "(jsval \<times> exn \<times> LLMMetadata) list"

definition world0 :: world where
  "world0 = \<lparr> sent = [], invoked = [], logged = [], clock = 0, llmCalls = [], llmErrors = [] \<rparr>"

text \<open>
  \<^verbatim>\<open>client.ts\<close>, \<^verbatim>\<open>utils.ts\<close> and \<^verbatim>\<open>exceptions.ts\<close> are not among the sources, so their
  functions are parameters of the model. \<open>sendToAPI p k n\<close> is how the delivery client
  settles the request \<open>p\<close> to endpoint \<open>k\<close> when \<open>n\<close> requests were dispatched before it: it
  resolves with the endpoint's response, or rejects with an error object (an HTTP error, a
  network error, the open breaker's error), \<open>Inl m\<close> giving its message. \<open>getConfig\<close> throws
  such an error before initialisation and \<open>initClient\<close> sets the configuration up. \<open>now n\<close> is
  the \<open>n\<close>-th reading of \<^verbatim>\<open>Date.now()\<close>. \<open>toJsonValue\<close>, \<open>createErrorInfo\<close> and \<open>createId\<close> are
  those of \<^verbatim>\<open>utils.ts\<close>. \<open>ToString v\<close> is the language's conversion to a string of a value
  that is neither an error object nor a Symbol: it returns the text or throws (an object
  without a usable \<^verbatim>\<open>toString\<close>, an array holding a Symbol). \<open>blockedErrorName\<close> is the
  \<^verbatim>\<open>name\<close> of an \<^verbatim>\<open>OlakaiBlockedError\<close>, \<open>jsonStringify\<close> is \<^verbatim>\<open>JSON.stringify\<close> and
  \<open>packageVersion\<close> the version read from \<^verbatim>\<open>package.json\<close>.
\<close>

record ErrorInfo =
  errorMessage :: string
  stackTrace :: "string option"

record env =
  sendToAPI :: "payload \<Rightarrow> endpointKind \<Rightarrow> nat \<Rightarrow> string + api_response"
  getConfig :: "string + SDKConfig"
  initClient :: "string + unit"
  now :: "nat \<Rightarrow> int"
  toJsonValue :: "jsval \<Rightarrow> bool option \<Rightarrow> jsval"
  createErrorInfo :: "exn \<Rightarrow> ErrorInfo"
  ToString :: "jsval \<Rightarrow> exn + string"
  blockedErrorName :: string
  jsonStringify :: "jsval \<Rightarrow> string"
  createId :: string
  packageVersion :: string

definition olakaiLogger :: "string \<Rightarrow> level \<Rightarrow> world \<Rightarrow> world" where
  "olakaiLogger msg lvl w = (if lvl = info then w else w\<lparr>logged := logged w @ [(lvl, msg)]\<rparr>)"

definition date_now :: "env \<Rightarrow> world \<Rightarrow> int \<times> world" where
  "date_now e w = (now e (clock w), w\<lparr>clock := Suc (clock w)\<rparr>)"

text \<open>Calling \<^verbatim>\<open>sendToAPI(payload, kind)\<close>: the request is dispatched and later settles.\<close>

definition send :: "env \<Rightarrow> payload \<Rightarrow> endpointKind \<Rightarrow> world \<Rightarrow> (exn + api_response) \<times> world" where
  "send e p k w =
     ((case sendToAPI e p k (length (sent w)) of Inl m \<Rightarrow> Inl (Error m) | Inr resp \<Rightarrow> Inr resp),
      w\<lparr>sent := sent w @ [(p, k)]\<rparr>)"

text \<open>
  \<^verbatim>\<open>Error.prototype.toString\<close>, and the two conversions of a thrown value to a string the
  code uses. \<open>stringOf\<close> is the call \<^verbatim>\<open>String(error)\<close>, which describes a Symbol.
  \<open>interpolate\<close> is \<^verbatim>\<open>${error}\<close> in a template literal, which throws a \<^verbatim>\<open>TypeError\<close> on a
  Symbol. The arguments of a log call are evaluated before the call, so a log line with
  \<^verbatim>\<open>${error}\<close> throws where the conversion does.
\<close>

definition errorString :: "string \<Rightarrow> string \<Rightarrow> string" where
  "errorString name msg =
     (if msg = [] then name else if name = [] then msg else name @ '': '' @ msg)"

definition stringOf :: "env \<Rightarrow> exn \<Rightarrow> exn + string" where
  "stringOf e x =
     (case x of
        Thrown v \<Rightarrow> (case v of JSymbol d \<Rightarrow> Inr (''Symbol('' @ d @ '')'') | _ \<Rightarrow> ToString e v)
      | Error m \<Rightarrow> Inr (errorString ''Error'' m)
      | TypeError m \<Rightarrow> Inr (errorString ''TypeError'' m)
      | OlakaiBlockedError m d \<Rightarrow> Inr (errorString (blockedErrorName e) m))"

definition symbolToString :: exn where
  "symbolToString = TypeError ''Cannot convert a Symbol value to a string''"

definition interpolate :: "env \<Rightarrow> exn \<Rightarrow> exn + string" where
  "interpolate e x =
     (case x of
        Thrown (JSymbol d) \<Rightarrow> Inl symbolToString
      | _ \<Rightarrow> stringOf e x)"

text \<open>Invoking the wrapped callable \<^verbatim>\<open>fn(...args)\<close> and awaiting what it returns.\<close>

definition invoke :: "(jsval list \<Rightarrow> exn + jsval) \<Rightarrow> jsval list \<Rightarrow> world \<Rightarrow> (exn + jsval) \<times> world" where
  "invoke fn args w = (fn args, w\<lparr>invoked := invoked w @ [args]\<rparr>)"

section \<open>\<^verbatim>\<open>monitor.ts\<close>: the generic call-interception wrapper\<close>

record identifiers =
  id_chatId :: string
  id_email :: string

text \<open>
  \<^verbatim>\<open>resolveIdentifiers\<close>. The \<^verbatim>\<open>catch\<close> block of each resolver composes its log line from
  \<^verbatim>\<open>${error}\<close>: when that conversion throws, the exception leaves \<^verbatim>\<open>resolveIdentifiers\<close>
  (\<open>Inl\<close>), and the \<^verbatim>\<open>email\<close> option is not looked at when it happens for \<^verbatim>\<open>chatId\<close>.
\<close>

definition resolveIdentifiers ::
  "env \<Rightarrow> MonitorOptions \<Rightarrow> jsval list \<Rightarrow> world \<Rightarrow> (exn + identifiers) \<times> world" where
  "resolveIdentifiers e options args w =
     (let (c, w1) =
            (case chatId options of
               Some (Resolver f) \<Rightarrow>
                 (case f args of
                    Inr v \<Rightarrow> (Inr v, w)
                  | Inl err \<Rightarrow>
                      (case interpolate e err of
                         Inl t \<Rightarrow> (Inl t, w)
                       | Inr s \<Rightarrow> (Inr ''123'', olakaiLogger ''Error during chatId resolution'' error w)))
             | Some (Static s) \<Rightarrow> (Inr (str_or (Some s) ''123''), w)
             | None \<Rightarrow> (Inr (str_or None ''123''), w))
      in case c of
           Inl t \<Rightarrow> (Inl t, w1)
         | Inr cid \<Rightarrow>
             (let (m, w2) =
                    (case email options of
                       Some (Resolver f) \<Rightarrow>
                         (case f args of
                            Inr v \<Rightarrow> (Inr v, w1)
                          | Inl err \<Rightarrow>
                              (case interpolate e err of
                                 Inl t \<Rightarrow> (Inl t, w1)
                               | Inr s \<Rightarrow>
                                   (Inr ''anonymous@olakai.ai'',
                                    olakaiLogger ''Error during userId resolution'' error w1)))
                     | Some (Static s) \<Rightarrow> (Inr (str_or (Some s) ''anonymous@olakai.ai''), w1)
                     | None \<Rightarrow> (Inr (str_or None ''anonymous@olakai.ai''), w1))
              in case m of
                   Inl t \<Rightarrow> (Inl t, w2)
                 | Inr mail \<Rightarrow> (Inr \<lparr> id_chatId = cid, id_email = mail \<rparr>, w2)))"

text \<open>\<^verbatim>\<open>args.length === 1 ? args[0] : args\<close>\<close>

definition promptOf :: "jsval list \<Rightarrow> jsval" where
  "promptOf args = (case args of [a] \<Rightarrow> a | _ \<Rightarrow> JArr args)"

text \<open>The object literal \<^verbatim>\<open>payload\<close> of \<^verbatim>\<open>shouldAllowCall\<close>.\<close>

definition controlPayloadOf :: "env \<Rightarrow> MonitorOptions \<Rightarrow> jsval list \<Rightarrow> identifiers \<Rightarrow> ControlPayload" where
  "controlPayloadOf e options args ids =
     \<lparr> cp_prompt = toJsonValue e (promptOf args) None,
       cp_email = Some (id_email ids),
       cp_chatId = Some (id_chatId ids),
       cp_task = task options,
       cp_subTask = subTask options,
       cp_tokens = Some 0,
       cp_overrideControlCriteria = askOverride options \<rparr>"

text \<open>
  The \<^verbatim>\<open>catch\<close> block of \<^verbatim>\<open>shouldAllowCall\<close>, which receives whatever the \<^verbatim>\<open>try\<close> block
  threw: the exception of \<^verbatim>\<open>resolveIdentifiers\<close> or the rejection of \<^verbatim>\<open>sendToAPI\<close>.
\<close>

definition shouldAllowCall_catch :: "env \<Rightarrow> exn \<Rightarrow> world \<Rightarrow> ControlAPIResponse outcome \<times> world" where
  "shouldAllowCall_catch e err w =
     (case interpolate e err of
        Inl t \<Rightarrow> (Rejected t, w)
      | Inr s \<Rightarrow>
          (Resolved \<lparr> allowed = False,
                      details = \<lparr> detectedSensitivity = [], isAllowedPersona = False \<rparr>,
                      message = None \<rparr>,
           olakaiLogger ''Control call failed, disallowing execution'' error w))"

definition shouldAllowCall ::
  "env \<Rightarrow> MonitorOptions \<Rightarrow> jsval list \<Rightarrow> world \<Rightarrow> ControlAPIResponse outcome \<times> world" where
  "shouldAllowCall e options args w =
     (let (ri, w1) = resolveIdentifiers e options args w
      in case ri of
           Inl t \<Rightarrow> shouldAllowCall_catch e t w1
         | Inr ids \<Rightarrow>
             (let payload = controlPayloadOf e options args ids;
                  (r, w2) = send e (CtlPayload payload) control w1
              in case r of
                   Inr resp \<Rightarrow>
                     (Resolved \<lparr> allowed = True,
                                 details = \<lparr> detectedSensitivity = [], isAllowedPersona = True \<rparr>,
                                 message = None \<rparr>, w2)
                 | Inl err \<Rightarrow> shouldAllowCall_catch e err w2))"

text \<open>
  \<^verbatim>\<open>makeMonitoringCall\<close> and \<^verbatim>\<open>reportError\<close> are async functions the wrapper calls
  without awaiting: their body runs up to the \<^verbatim>\<open>sendToAPI\<close> call before the wrapper goes
  on. They return how their own promise settles and the world after the reporting task has
  settled; the wrapper drops that promise (\<open>rep\<close> below is never read).
  \<^verbatim>\<open>makeMonitoringCall\<close> resolves the identifiers outside its \<^verbatim>\<open>try\<close>, \<^verbatim>\<open>reportError\<close>
  inside.
\<close>

definition makeMonitoringCall ::
  "env \<Rightarrow> jsval \<Rightarrow> jsval list \<Rightarrow> jsval list \<Rightarrow> MonitorOptions \<Rightarrow> string list \<Rightarrow> SDKConfig \<Rightarrow> int \<Rightarrow>
   world \<Rightarrow> unit outcome \<times> world" where
  "makeMonitoringCall e result processedArgs args options sens config start w =
     (let (ri, w1) = resolveIdentifiers e options args w
      in case ri of
           Inl t \<Rightarrow> (Rejected t, w1)
         | Inr ids \<Rightarrow>
             (let (t, w2) = date_now e w1;
                  payload = emptyMonitorPayload
                            \<lparr> mp_prompt := toJsonValue e (JArr processedArgs) (sanitize options),
                              mp_response := toJsonValue e result (sanitize options),
                              mp_chatId := Some (id_chatId ids),
                              mp_email := Some (id_email ids),
                              mp_taskExecutionId := taskExecutionId options,
                              mp_tokens := Some 0,
                              mp_requestTime := Some (js_sub t start),
                              mp_task := (if task options \<noteq> None \<and> task options \<noteq> Some []
                                          then task options else None),
                              mp_subTask := (if subTask options \<noteq> None \<and> subTask options \<noteq> Some []
                                             then subTask options else None),
                              mp_blocked := Some False,
                              mp_sensitivity := Some sens \<rparr>;
                  (r, w3) = send e (MonPayload payload) monitoring w2
              in case r of
                   Inr resp \<Rightarrow> (Resolved (), w3)
                 | Inl err \<Rightarrow>
                     (case interpolate e err of
                        Inl t \<Rightarrow> (Rejected t, w3)
                      | Inr s \<Rightarrow> (Resolved (), olakaiLogger ''Error during api call'' error w3))))"

definition reportError_catch :: "env \<Rightarrow> exn \<Rightarrow> world \<Rightarrow> unit outcome \<times> world" where
  "reportError_catch e err w =
     (case interpolate e err of
        Inl t \<Rightarrow> (Rejected t, w)
      | Inr s \<Rightarrow> (Resolved (), olakaiLogger ''Error during error monitoring'' error w))"

definition reportError ::
  "env \<Rightarrow> exn \<Rightarrow> jsval list \<Rightarrow> MonitorOptions \<Rightarrow> SDKConfig \<Rightarrow> string list \<Rightarrow> world \<Rightarrow>
   unit outcome \<times> world" where
  "reportError e functionError args options config sens w =
     (if (case onMonitoredFunctionError options of None \<Rightarrow> True | Some b \<Rightarrow> b) then
        (let errorInfo = createErrorInfo e functionError;
             (ri, w1) = resolveIdentifiers e options args w
         in case ri of
              Inl t \<Rightarrow> reportError_catch e t w1
            | Inr ids \<Rightarrow>
                (let payload = emptyMonitorPayload
                               \<lparr> mp_prompt := JStr [],
                                 mp_response := JStr [],
                                 mp_errorMessage :=
                                   Some (JStr (errorMessage errorInfo @
                                               (case stackTrace errorInfo of
                                                  None \<Rightarrow> []
                                                | Some st \<Rightarrow> if st = [] then [] else CHR 0x0A # st))),
                                 mp_chatId := Some (id_chatId ids),
                                 mp_email := Some (id_email ids),
                                 mp_taskExecutionId := taskExecutionId options,
                                 mp_sensitivity := Some sens \<rparr>;
                     (r, w2) = send e (MonPayload payload) monitoring w1
                 in case r of
                      Inr resp \<Rightarrow> (Resolved (), w2)
                    | Inl err \<Rightarrow> reportError_catch e err w2))
      else (Resolved (), w))"

text \<open>
  \<^verbatim>\<open>monitor(options)(fn)\<close>, to which the direct form \<^verbatim>\<open>monitor(fn, options)\<close> reduces,
  applied to the arguments of one call. A synchronous and an asynchronous callable are
  treated alike: \<open>fn args\<close> is what awaiting \<^verbatim>\<open>fn(...args)\<close> gives, a value or a thrown value.
  The error \<^verbatim>\<open>getConfig\<close> throws is an error object, which \<^verbatim>\<open>${error}\<close> converts. The
  call of \<^verbatim>\<open>shouldAllowCall\<close> is awaited outside any \<^verbatim>\<open>try\<close>, the blocked branch resolves the
  identifiers outside any \<^verbatim>\<open>try\<close>, and the \<^verbatim>\<open>catch\<close> block around the callable composes its
  log line from \<^verbatim>\<open>${error}\<close> before it calls \<^verbatim>\<open>reportError\<close> and re-throws.
\<close>

definition blockedMessage :: string where
  "blockedMessage = ''Function execution blocked by Olakai's Control API''"

definition monitor ::
  "env \<Rightarrow> MonitorOptions \<Rightarrow> (jsval list \<Rightarrow> exn + jsval) \<Rightarrow> jsval list \<Rightarrow> world \<Rightarrow>
   jsval outcome \<times> world" where
  "monitor e options fn args w =
     (case getConfig e of
        Inl m \<Rightarrow>
          (let w1 = olakaiLogger ''Monitoring initialization failed'' error w;
               (r, w2) = invoke fn args w1
           in case r of Inr result \<Rightarrow> (Resolved result, w2) | Inl x \<Rightarrow> (Rejected x, w2))
      | Inr config \<Rightarrow>
          (let (start, w1) = date_now e w;
               (sa, w2) = shouldAllowCall e options args w1
           in case sa of
                Rejected t \<Rightarrow> (Rejected t, w2)
              | Resolved shouldAllow \<Rightarrow>
                  if \<not> allowed shouldAllow then
                    (let w3 = olakaiLogger blockedMessage error w2;
                         (ri, w4) = resolveIdentifiers e options args w3
                     in case ri of
                          Inl t \<Rightarrow> (Rejected t, w4)
                        | Inr ids \<Rightarrow>
                            (let payload = emptyMonitorPayload
                                           \<lparr> mp_prompt := toJsonValue e (promptOf args) (Some False),
                                             mp_response := JStr [],
                                             mp_chatId := Some (id_chatId ids),
                                             mp_email := Some (id_email ids),
                                             mp_taskExecutionId := taskExecutionId options,
                                             mp_task := task options,
                                             mp_subTask := subTask options,
                                             mp_blocked := Some True,
                                             mp_tokens := Some 0,
                                             mp_sensitivity :=
                                               Some (detectedSensitivity (details shouldAllow)) \<rparr>;
                                 (r, w5) = send e (MonPayload payload) monitoring w4
                             in (Rejected (OlakaiBlockedError blockedMessage (details shouldAllow)), w5)))
                  else
                    (let (r, w3) = invoke fn args w2
                     in case r of
                          Inl x \<Rightarrow>
                            (case interpolate e x of
                               Inl t \<Rightarrow> (Rejected t, w3)
                             | Inr s \<Rightarrow>
                                 (let w4 = olakaiLogger ''Original function failed'' error w3;
                                      (rep, w5) = reportError e x args options config
                                                    (detectedSensitivity (details shouldAllow)) w4
                                  in (Rejected x, w5)))
                        | Inr result \<Rightarrow>
                            (let (rep, w4) = makeMonitoringCall e result args args options
                                               (detectedSensitivity (details shouldAllow)) config start w3
                             in (Resolved result, w4)))))"

section \<open>The \<^verbatim>\<open>OlakaiSDK\<close> class\<close>

record DefaultContext =
  userEmail :: "string option"
  userId :: "string option"
  dc_chatId :: "string option"
  dc_task :: "string option"
  dc_subTask :: "string option"
  dc_customData :: "(string \<times> jsval) list option"

record LLMWrapperConfig =
  provider :: LLMProvider
  defaultContext :: "DefaultContext option"
  wc_enableControl :: "bool option"
  wc_sanitize :: "bool option"

text \<open>\<^verbatim>\<open>config.defaultContext?.field\<close>\<close>

definition ctx :: "(DefaultContext \<Rightarrow> 'a option) \<Rightarrow> LLMWrapperConfig \<Rightarrow> 'a option" where
  "ctx field cfg = (case defaultContext cfg of None \<Rightarrow> None | Some d \<Rightarrow> field d)"

record EnhancedSDKConfig = SDKConfig +
  enableControl :: bool

record OlakaiSDK =
  sdk_config :: EnhancedSDKConfig
  initialized :: bool
  sessionId :: string

record SDKOptions =
  so_apiKey :: string
  so_monitoringEndpoint :: "string option"
  so_controlEndpoint :: "string option"
  so_enableControl :: "bool option"
  so_retries :: "nat option"
  so_timeout :: "nat option"
  so_debug :: "bool option"
  so_verbose :: "bool option"

text \<open>\<^verbatim>\<open>s.replace(pattern, replacement)\<close> with a string pattern: the first occurrence only.\<close>

fun replace :: "string \<Rightarrow> string \<Rightarrow> string \<Rightarrow> string" where
  "replace pat rep [] = (if pat = [] then rep else [])"
| "replace pat rep (c # cs) =
     (if take (length pat) (c # cs) = pat then rep @ drop (length pat) (c # cs)
      else c # replace pat rep cs)"

text \<open>\<^verbatim>\<open>a ?? b\<close>\<close>

definition nullish :: "'a option \<Rightarrow> 'a \<Rightarrow> 'a" where
  "nullish a b = (case a of None \<Rightarrow> b | Some v \<Rightarrow> v)"

definition DEFAULT_ENDPOINT :: string where
  "DEFAULT_ENDPOINT = ''https://app.olakai.ai''"

text \<open>
  The constructor. The Vercel AI integration object it also creates takes no part in the
  operations modelled here.
\<close>

definition newOlakaiSDK :: "env \<Rightarrow> SDKOptions \<Rightarrow> OlakaiSDK" where
  "newOlakaiSDK e opts =
     (let domainUrl = (case so_monitoringEndpoint opts of
                         None \<Rightarrow> DEFAULT_ENDPOINT
                       | Some m \<Rightarrow> if m = [] then DEFAULT_ENDPOINT
                                   else replace ''/api/monitoring/prompt'' [] m)
      in \<lparr> sdk_config = \<lparr> apiKey = so_apiKey opts,
                       monitorEndpoint = str_or (so_monitoringEndpoint opts)
                                           (domainUrl @ ''/api/monitoring/prompt''),
                       controlEndpoint = str_or (so_controlEndpoint opts)
                                           (domainUrl @ ''/api/control/prompt''),
                       version = packageVersion e,
                       retries = nullish (so_retries opts) 4,
                       timeout = nullish (so_timeout opts) 30000,
                       debug = nullish (so_debug opts) False,
                       verbose = nullish (so_verbose opts) False,
                       enableControl = nullish (so_enableControl opts) False \<rparr>,
           initialized = False,
           sessionId = createId e \<rparr>)"

definition init :: "env \<Rightarrow> OlakaiSDK \<Rightarrow> unit outcome \<times> OlakaiSDK" where
  "init e sdk =
     (case initClient e of
        Inl m \<Rightarrow> (Rejected (Error m), sdk)
      | Inr u \<Rightarrow> (Resolved (), sdk\<lparr>initialized := True\<rparr>))"

definition sendMonitoring ::
  "env \<Rightarrow> OlakaiSDK \<Rightarrow> jsval \<Rightarrow> string \<Rightarrow> LLMMetadata \<Rightarrow> LLMWrapperConfig \<Rightarrow> bool \<Rightarrow> jsval option \<Rightarrow>
   world \<Rightarrow> unit outcome \<times> world" where
  "sendMonitoring e sdk prompt response metadata cfg blocked errMsg w =
     (let payload = emptyMonitorPayload
                    \<lparr> mp_prompt := toJsonValue e prompt None,
                      mp_response := toJsonValue e (JStr response) None,
                      mp_email := ctx userEmail cfg,
                      mp_chatId := Some (sessionId sdk),
                      mp_task := ctx dc_task cfg,
                      mp_subTask := ctx dc_subTask cfg,
                      mp_tokens := (case md_tokens metadata of None \<Rightarrow> None | Some t \<Rightarrow> tk_total t),
                      mp_requestTime := (case md_timing metadata of None \<Rightarrow> None
                                         | Some t \<Rightarrow> Some (duration t)),
                      mp_blocked := Some blocked,
                      mp_errorMessage := errMsg,
                      mp_llmMetadata := Some metadata \<rparr>;
          (r, w1) = send e (MonPayload payload) monitoring w
      in case r of
           Inr resp \<Rightarrow> (Resolved (), w1)
         | Inl err \<Rightarrow>
             (case interpolate e err of
                Inl t \<Rightarrow> (Rejected t, w1)
              | Inr s \<Rightarrow> (Resolved (), olakaiLogger ''Failed to send monitoring data'' error w1)))"

definition llmBlockedMessage :: string where
  "llmBlockedMessage = ''LLM call blocked by Olakai Control API''"

text \<open>
  \<^verbatim>\<open>checkControlAPI\<close> reads the resolved value as a \<^verbatim>\<open>ControlAPIResponse\<close>. On a value of
  the other response shape \<^verbatim>\<open>response.allowed\<close> is \<^verbatim>\<open>undefined\<close>, so the blocked report is
  sent, and reading \<^verbatim>\<open>response.details.detectedSensitivity\<close> then throws a
  \<^verbatim>\<open>TypeError\<close> inside the \<^verbatim>\<open>try\<close>. The \<^verbatim>\<open>catch\<close> block re-throws a blocking error and
  logs any other, the log line again composed from \<^verbatim>\<open>${error}\<close>.
\<close>

definition checkControlAPI_catch :: "env \<Rightarrow> exn \<Rightarrow> world \<Rightarrow> unit outcome \<times> world" where
  "checkControlAPI_catch e x w =
     (case x of
        OlakaiBlockedError m d \<Rightarrow> (Rejected x, w)
      | _ \<Rightarrow>
          (case interpolate e x of
             Inl t \<Rightarrow> (Rejected t, w)
           | Inr s \<Rightarrow> (Resolved (), olakaiLogger ''Control API error (allowing execution)'' warn w)))"

definition checkControlAPI ::
  "env \<Rightarrow> OlakaiSDK \<Rightarrow> jsval \<Rightarrow> LLMMetadata \<Rightarrow> LLMWrapperConfig \<Rightarrow> world \<Rightarrow> unit outcome \<times> world" where
  "checkControlAPI e sdk prompt metadata cfg w =
     (let controlPayload =
            \<lparr> cp_prompt = toJsonValue e prompt None,
              cp_email = ctx userEmail cfg,
              cp_chatId = Some (sessionId sdk),
              cp_task = ctx dc_task cfg,
              cp_subTask = ctx dc_subTask cfg,
              cp_tokens = (case md_tokens metadata of None \<Rightarrow> None | Some t \<Rightarrow> tk_total t),
              cp_overrideControlCriteria = None \<rparr>;
          (r, w1) = send e (CtlPayload controlPayload) control w
      in case r of
           Inl err \<Rightarrow> checkControlAPI_catch e err w1
         | Inr (ControlResponse response) \<Rightarrow>
             if \<not> allowed response then
               (let (r2, w2) = sendMonitoring e sdk prompt [] metadata cfg True None w1
                in case r2 of
                     Rejected x \<Rightarrow> checkControlAPI_catch e x w2
                   | Resolved u \<Rightarrow>
                       checkControlAPI_catch e
                         (OlakaiBlockedError llmBlockedMessage
                            \<lparr> detectedSensitivity = detectedSensitivity (details response),
                              isAllowedPersona = isAllowedPersona (details response) \<rparr>) w2)
             else (Resolved (), w1)
         | Inr (MonitoringResponse other) \<Rightarrow>
             (let (r2, w2) = sendMonitoring e sdk prompt [] metadata cfg True None w1
              in case r2 of
                   Rejected x \<Rightarrow> checkControlAPI_catch e x w2
                 | Resolved u \<Rightarrow>
                     checkControlAPI_catch e
                       (TypeError ''Cannot read properties of undefined (reading 'detectedSensitivity')'')
                       w2))"

text \<open>The \<^verbatim>\<open>catch\<close> of \<^verbatim>\<open>handleLLMCall\<close>: blocking errors are re-thrown, others logged.\<close>

definition handleLLMCall_catch :: "env \<Rightarrow> exn \<Rightarrow> world \<Rightarrow> unit outcome \<times> world" where
  "handleLLMCall_catch e x w =
     (case x of
        OlakaiBlockedError m d \<Rightarrow> (Rejected x, w)
      | _ \<Rightarrow>
          (case interpolate e x of
             Inl t \<Rightarrow> (Rejected t, w)
           | Inr s \<Rightarrow> (Resolved (), olakaiLogger ''Error in monitoring'' error w)))"

definition handleLLMCall ::
  "env \<Rightarrow> OlakaiSDK \<Rightarrow> jsval \<Rightarrow> string \<Rightarrow> LLMMetadata \<Rightarrow> LLMWrapperConfig \<Rightarrow> world \<Rightarrow> unit outcome \<times> world" where
  "handleLLMCall e sdk prompt response metadata wrapperConfig w =
     (let enable = nullish (wc_enableControl wrapperConfig) (enableControl (sdk_config sdk));
          (r1, w1) = (if enable then checkControlAPI e sdk prompt metadata wrapperConfig w
                      else (Resolved (), w))
      in case r1 of
           Rejected x \<Rightarrow> handleLLMCall_catch e x w1
         | Resolved u \<Rightarrow>
             (let (r2, w2) = sendMonitoring e sdk prompt response metadata wrapperConfig False None w1
              in case r2 of
                   Rejected x \<Rightarrow> handleLLMCall_catch e x w2
                 | Resolved u \<Rightarrow> (Resolved (), w2)))"

text \<open>\<^verbatim>\<open>error?.message\<close>\<close>

fun messageOf :: "exn \<Rightarrow> jsval" where
  "messageOf (Thrown (JObj fs)) = (case map_of fs ''message'' of Some v \<Rightarrow> v | None \<Rightarrow> JUndefined)"
| "messageOf (Thrown v) = JUndefined"
| "messageOf (Error m) = JStr m"
| "messageOf (TypeError m) = JStr m"
| "messageOf (OlakaiBlockedError m d) = JStr m"

text \<open>
  \<^verbatim>\<open>handleLLMError\<close>: \<^verbatim>\<open>error?.message || String(error)\<close> is evaluated inside the \<^verbatim>\<open>try\<close>,
  so an exception of \<^verbatim>\<open>String(error)\<close> reaches the \<^verbatim>\<open>catch\<close> block and no report is sent.
\<close>

definition handleLLMError_catch :: "env \<Rightarrow> exn \<Rightarrow> world \<Rightarrow> unit outcome \<times> world" where
  "handleLLMError_catch e x w =
     (case interpolate e x of
        Inl t \<Rightarrow> (Rejected t, w)
      | Inr s \<Rightarrow> (Resolved (), olakaiLogger ''Error in error monitoring'' error w))"

definition handleLLMError ::
  "env \<Rightarrow> OlakaiSDK \<Rightarrow> jsval \<Rightarrow> exn \<Rightarrow> LLMMetadata \<Rightarrow> LLMWrapperConfig \<Rightarrow> world \<Rightarrow> unit outcome \<times> world" where
  "handleLLMError e sdk prompt err metadata wrapperConfig w =
     (case (if truthy (messageOf err) then Inr (messageOf err)
            else (case stringOf e err of Inl t \<Rightarrow> Inl t | Inr s \<Rightarrow> Inr (JStr s))) of
        Inl t \<Rightarrow> handleLLMError_catch e t w
      | Inr errMsg \<Rightarrow>
          (let (r, w1) = sendMonitoring e sdk prompt [] metadata wrapperConfig False (Some errMsg) w
           in case r of
                Rejected x \<Rightarrow> handleLLMError_catch e x w1
              | Resolved u \<Rightarrow> (Resolved (), w1)))"

text \<open>
  A provider adapter as \<^verbatim>\<open>wrap\<close> sets it up: its wrapper configuration and, when it was
  created by \<^verbatim>\<open>OlakaiSDK.wrap\<close>, the SDK instance whose \<^verbatim>\<open>handleLLMCall\<close> and
  \<^verbatim>\<open>handleLLMError\<close> were injected as \<^verbatim>\<open>onLLMCall\<close> and \<^verbatim>\<open>onLLMError\<close>. With \<open>pv_sdk = None\<close>
  the two properties are not functions and the adapter makes no callback.
\<close>

record providerInstance =
  pv_kind :: LLMProvider
  pv_config :: LLMWrapperConfig
  pv_sdk :: "OlakaiSDK option"

definition notInitializedMessage :: string where
  "notInitializedMessage = ''[Olakai SDK] SDK not initialized. Call init() first.''"

text \<open>
  \<^verbatim>\<open>wrap(client, config)\<close>: the result stands for the proxy \<^verbatim>\<open>provider.wrap(client)\<close>, the
  adapter together with the client it wraps.
\<close>

definition wrap :: "OlakaiSDK \<Rightarrow> 'c \<Rightarrow> LLMWrapperConfig \<Rightarrow> exn + (providerInstance \<times> 'c)" where
  "wrap sdk client cfg =
     (if \<not> initialized sdk then Inl (Error notInitializedMessage)
      else case provider cfg of
             openai \<Rightarrow> Inr (\<lparr> pv_kind = openai, pv_config = cfg, pv_sdk = Some sdk \<rparr>, client)
           | google \<Rightarrow> Inr (\<lparr> pv_kind = google, pv_config = cfg, pv_sdk = Some sdk \<rparr>, client)
           | anthropic \<Rightarrow> Inr (\<lparr> pv_kind = anthropic, pv_config = cfg, pv_sdk = Some sdk \<rparr>, client)
           | custom \<Rightarrow> Inl (Error ''[Olakai SDK] Custom provider requires implementation''))"

record OlakaiEventParams =
  ev_prompt :: string
  ev_response :: string
  ev_userEmail :: "string option"
  ev_userId :: "string option"
  ev_chatId :: "string option"
  ev_task :: "string option"
  ev_subTask :: "string option"
  ev_tokens :: "int option"
  ev_requestTime :: "int option"
  ev_shouldScore :: "bool option"
  ev_customData :: "(string \<times> jsval) list option"

record ReportOptions =
  ro_email :: "string option"
  ro_task :: "string option"
  ro_subTask :: "string option"
  ro_tokens :: "int option"
  ro_requestTime :: "int option"
  ro_shouldScore :: "bool option"
  ro_sanitize :: "bool option"
  ro_customData :: "(string \<times> jsval) list option"

text \<open>\<^verbatim>\<open>n || 0\<close> on an optional number\<close>

definition num_or0 :: "int option \<Rightarrow> int" where
  "num_or0 n = (case n of None \<Rightarrow> 0 | Some v \<Rightarrow> v)"

definition report ::
  "env \<Rightarrow> OlakaiSDK \<Rightarrow> jsval \<Rightarrow> jsval \<Rightarrow> ReportOptions \<Rightarrow> world \<Rightarrow> unit outcome \<times> world" where
  "report e sdk prompt response options w =
     (let payload = emptyMonitorPayload
                    \<lparr> mp_prompt := toJsonValue e prompt (ro_sanitize options),
                      mp_response := toJsonValue e response (ro_sanitize options),
                      mp_email := Some (str_or (ro_email options) ''anonymous@olakai.ai''),
                      mp_chatId := Some (sessionId sdk),
                      mp_task := ro_task options,
                      mp_subTask := ro_subTask options,
                      mp_tokens := Some (num_or0 (ro_tokens options)),
                      mp_requestTime := Some (num_or0 (ro_requestTime options)),
                      mp_blocked := Some False,
                      mp_sensitivity := Some [],
                      mp_shouldScore := ro_shouldScore options,
                      mp_customData := ro_customData options \<rparr>;
          (r, w1) = send e (MonPayload payload) monitoring w
      in case r of
           Inr resp \<Rightarrow> (Resolved (), w1)
         | Inl err \<Rightarrow> (Resolved (), olakaiLogger ''[Olakai SDK] Failed to report event:'' warn w1))"

text \<open>
  \<^verbatim>\<open>event(params)\<close> is synchronous and returns \<^verbatim>\<open>void\<close>; the report it starts is not
  awaited, and a rejection of it is logged by the \<^verbatim>\<open>.catch\<close> handler (whose own failure
  would reject a promise nobody holds).
\<close>

definition event :: "env \<Rightarrow> OlakaiSDK \<Rightarrow> OlakaiEventParams \<Rightarrow> world \<Rightarrow> (exn + unit) \<times> world" where
  "event e sdk params w =
     (if \<not> initialized sdk then
        (Inr (), olakaiLogger ''SDK not initialized. Call init() first.'' warn w)
      else
        (let (r, w1) = report e sdk (JStr (ev_prompt params)) (JStr (ev_response params))
                         \<lparr> ro_email = ev_userEmail params,
                           ro_task = ev_task params,
                           ro_subTask = ev_subTask params,
                           ro_tokens = ev_tokens params,
                           ro_requestTime = ev_requestTime params,
                           ro_shouldScore = ev_shouldScore params,
                           ro_sanitize = Some False,
                           ro_customData = ev_customData params \<rparr> w
         in case r of
              Resolved u \<Rightarrow> (Inr (), w1)
            | Rejected x \<Rightarrow>
                (case interpolate e x of
                   Inl t \<Rightarrow> (Inr (), w1)
                 | Inr s \<Rightarrow> (Inr (), olakaiLogger ''Failed to track event'' error w1))))"

text \<open>
  The adapters call \<^verbatim>\<open>onLLMCall\<close> and \<^verbatim>\<open>onLLMError\<close> without awaiting them, guarded by
  \<^verbatim>\<open>typeof ... === "function"\<close>. The call is recorded and the injected handler runs; the
  promise it returns is dropped.
\<close>

definition onLLMCall :: "env \<Rightarrow> providerInstance \<Rightarrow> jsval \<Rightarrow> string \<Rightarrow> LLMMetadata \<Rightarrow> world \<Rightarrow> world" where
  "onLLMCall e pv prompt response metadata w =
     (case pv_sdk pv of
        None \<Rightarrow> w
      | Some sdk \<Rightarrow>
          snd (handleLLMCall e sdk prompt response metadata (pv_config pv)
                 (w\<lparr>llmCalls := llmCalls w @ [(prompt, response, metadata)]\<rparr>)))"

definition onLLMError :: "env \<Rightarrow> providerInstance \<Rightarrow> jsval \<Rightarrow> exn \<Rightarrow> LLMMetadata \<Rightarrow> world \<Rightarrow> world" where
  "onLLMError e pv prompt err metadata w =
     (case pv_sdk pv of
        None \<Rightarrow> w
      | Some sdk \<Rightarrow>
          snd (handleLLMError e sdk prompt err metadata (pv_config pv)
                 (w\<lparr>llmErrors := llmErrors w @ [(prompt, err, metadata)]\<rparr>)))"

section \<open>Provider adapters: shared shapes\<close>

text \<open>
  \<^verbatim>\<open>Partial<LLMMetadata>\<close>, as the extractors return it: a field is \<open>None\<close> when the key is
  absent or \<^verbatim>\<open>undefined\<close>. Spreading a partial into an object literal overrides the keys
  it defines (the keys the extractors leave \<^verbatim>\<open>undefined\<close> are never set by an earlier part
  of the literals below).
\<close>

record PartialMetadata =
  pm_model :: "string option"
  pm_tokens :: "TokenCounts option"
  pm_parameters :: "(string \<times> jsval) list option"
  pm_functionCalls :: "jsval list option"
  pm_streamMode :: "bool option"
  pm_finishReason :: "string option"

definition emptyPartial :: PartialMetadata where
  "emptyPartial = \<lparr> pm_model = None, pm_tokens = None, pm_parameters = None,
                     pm_functionCalls = None, pm_streamMode = None, pm_finishReason = None \<rparr>"

definition override :: "'a option \<Rightarrow> 'a option \<Rightarrow> 'a option" where
  "override new old = (case new of None \<Rightarrow> old | Some v \<Rightarrow> Some v)"

definition spread :: "PartialMetadata \<Rightarrow> LLMMetadata \<Rightarrow> LLMMetadata" where
  "spread p m =
     m \<lparr> md_model := nullish (pm_model p) (md_model m),
         md_tokens := override (pm_tokens p) (md_tokens m),
         md_parameters := override (pm_parameters p) (md_parameters m),
         md_functionCalls := override (pm_functionCalls p) (md_functionCalls m),
         md_streamMode := override (pm_streamMode p) (md_streamMode m),
         md_finishReason := override (pm_finishReason p) (md_finishReason m) \<rparr>"

text \<open>The literal \<^verbatim>\<open>{ provider, model, apiKey }\<close> every metadata object starts with.\<close>

definition baseMetadata :: "LLMProvider \<Rightarrow> string \<Rightarrow> string option \<Rightarrow> LLMMetadata" where
  "baseMetadata p m k =
     \<lparr> md_provider = p, md_model = m, md_apiKey = k, md_tokens = None, md_parameters = None,
       md_timing = None, md_functionCalls = None, md_streamMode = None, md_finishReason = None \<rparr>"

definition timingOf :: "int \<Rightarrow> int \<Rightarrow> Timing" where
  "timingOf s t = \<lparr> startTime = s, endTime = t, duration = js_sub t s \<rparr>"

text \<open>\<^verbatim>\<open>x !== undefined\<close> on a property that may be missing\<close>

definition defined :: "jsval option \<Rightarrow> bool" where
  "defined x = (x \<noteq> None \<and> x \<noteq> Some JUndefined)"

definition truthyOpt :: "jsval option \<Rightarrow> bool" where
  "truthyOpt x = (case x of None \<Rightarrow> False | Some v \<Rightarrow> truthy v)"

definition orUndefined :: "jsval option \<Rightarrow> jsval" where
  "orUndefined x = (case x of None \<Rightarrow> JUndefined | Some v \<Rightarrow> v)"

text \<open>Copy \<^verbatim>\<open>request[key]\<close> into \<^verbatim>\<open>parameters[name]\<close> when it is defined.\<close>

definition param :: "string \<Rightarrow> jsval option \<Rightarrow> (string \<times> jsval) list" where
  "param name x = (if defined x then [(name, orUndefined x)] else [])"

text \<open>\<^verbatim>\<open>xs.join(sep)\<close>\<close>

fun join :: "string \<Rightarrow> string list \<Rightarrow> string" where
  "join sep [] = []"
| "join sep [x] = x"
| "join sep (x # y # ys) = x @ sep @ join sep (y # ys)"

text \<open>The API-key properties the adapters probe on a client; a key is used when truthy.\<close>

record Client =
  cl_apiKey :: "string option"
  cl__apiKey :: "string option"
  cl_auth :: "string option"
  cl__options_apiKey :: "string option"
  cl_authToken :: "string option"

definition present :: "string option \<Rightarrow> bool" where
  "present s = (s \<noteq> None \<and> s \<noteq> Some [])"

section \<open>\<^verbatim>\<open>providers/openai.ts\<close>\<close>

record ChatMessage =
  role :: "string option"
  content :: "string option"

record OpenAIRequest =
  rq_model :: "string option"
  rq_messages :: "ChatMessage list option"
  rq_prompt :: "string option"
  rq_temperature :: "jsval option"
  rq_max_tokens :: "jsval option"
  rq_top_p :: "jsval option"
  rq_frequency_penalty :: "jsval option"
  rq_presence_penalty :: "jsval option"
  rq_n :: "jsval option"
  rq_stream :: "jsval option"
  rq_functions :: "jsval option"
  rq_tools :: "jsval option"

text \<open>\<^verbatim>\<open>args[0] || {}\<close>\<close>

definition emptyOpenAIRequest :: OpenAIRequest where
  "emptyOpenAIRequest =
     \<lparr> rq_model = None, rq_messages = None, rq_prompt = None, rq_temperature = None,
       rq_max_tokens = None, rq_top_p = None, rq_frequency_penalty = None,
       rq_presence_penalty = None, rq_n = None, rq_stream = None, rq_functions = None,
       rq_tools = None \<rparr>"

record OpenAIUsage =
  prompt_tokens :: "int option"
  completion_tokens :: "int option"
  total_tokens :: "int option"

record OpenAIChoice =
  finish_reason :: "string option"
  message_content :: "string option"
  choice_text :: "string option"

record OpenAIResponse =
  usage :: "OpenAIUsage option"
  choices :: "OpenAIChoice list option"
  rs_model :: "string option"

definition openai_extractRequestMetadata :: "OpenAIRequest \<Rightarrow> PartialMetadata" where
  "openai_extractRequestMetadata request =
     (let parameters = param ''temperature'' (rq_temperature request)
                     @ param ''max_tokens'' (rq_max_tokens request)
                     @ param ''top_p'' (rq_top_p request)
                     @ param ''frequency_penalty'' (rq_frequency_penalty request)
                     @ param ''presence_penalty'' (rq_presence_penalty request)
                     @ param ''n'' (rq_n request);
          streamMode = (rq_stream request = Some (JBool True));
          functionCalls =
            (if truthyOpt (rq_functions request) \<or> truthyOpt (rq_tools request)
             then Some (JObj [(''functions'', orUndefined (rq_functions request)),
                              (''tools'', orUndefined (rq_tools request))])
             else None)
      in emptyPartial
         \<lparr> pm_parameters := Some parameters,
           pm_streamMode := Some streamMode,
           pm_functionCalls := (case functionCalls of None \<Rightarrow> None | Some f \<Rightarrow> Some [f]) \<rparr>)"

definition openai_extractResponseMetadata :: "OpenAIResponse \<Rightarrow> PartialMetadata" where
  "openai_extractResponseMetadata response =
     emptyPartial
     \<lparr> pm_tokens := (case usage response of
                       None \<Rightarrow> None
                     | Some u \<Rightarrow> Some \<lparr> tk_prompt = prompt_tokens u,
                                        tk_completion = completion_tokens u,
                                        tk_total = total_tokens u \<rparr>),
       pm_finishReason := (case choices response of
                             Some (c # cs) \<Rightarrow> if present (finish_reason c) then finish_reason c else None
                           | _ \<Rightarrow> None),
       pm_model := (if present (rs_model response) then rs_model response else None) \<rparr>"

definition openai_extractApiKey :: "Client \<Rightarrow> world \<Rightarrow> string option \<times> world" where
  "openai_extractApiKey client w =
     (if present (cl_apiKey client) then (cl_apiKey client, w)
      else if present (cl__apiKey client) then (cl__apiKey client, w)
      else if present (cl_auth client) then (cl_auth client, w)
      else if present (cl__options_apiKey client) then (cl__options_apiKey client, w)
      else (None, olakaiLogger ''[OpenAI Wrapper] Could not extract API key from client'' warn w))"

definition openai_extractPrompt :: "OpenAIRequest \<Rightarrow> string" where
  "openai_extractPrompt request =
     (case rq_messages request of
        Some msgs \<Rightarrow>
          join [CHR 0x0A] (map (\<lambda>msg. str_or (role msg) ''user'' @ '': '' @ str_or (content msg) []) msgs)
      | None \<Rightarrow> str_or (rq_prompt request) ''Unable to extract prompt'')"

definition openai_extractResponse :: "OpenAIResponse \<Rightarrow> string" where
  "openai_extractResponse response =
     (case choices response of
        Some (c # cs) \<Rightarrow>
          str_or (message_content c) (str_or (choice_text c) ''Unable to extract response'')
      | _ \<Rightarrow> ''Unable to extract response'')"

text \<open>
  The function \<^verbatim>\<open>wrapCreateMethod\<close> returns, applied to the first argument of the call
  (\<open>None\<close> when the call has no argument or a falsy one). \<open>originalMethod\<close> is the client's own
  \<^verbatim>\<open>create\<close>, awaited. The \<^verbatim>\<open>catch\<close> block composes its log line from \<^verbatim>\<open>${error}\<close> before it
  calls \<^verbatim>\<open>onLLMError\<close> and re-throws.
\<close>

definition openai_wrapCreateMethod ::
  "env \<Rightarrow> providerInstance \<Rightarrow> (OpenAIRequest option \<Rightarrow> exn + OpenAIResponse) \<Rightarrow> Client \<Rightarrow>
   OpenAIRequest option \<Rightarrow> world \<Rightarrow> OpenAIResponse outcome \<times> world" where
  "openai_wrapCreateMethod e pv originalMethod client arg w =
     (let (t0, w1) = date_now e w;
          request = nullish arg emptyOpenAIRequest;
          requestMetadata = openai_extractRequestMetadata request;
          (key, w2) = openai_extractApiKey client w1
      in case originalMethod arg of
           Inr response \<Rightarrow>
             (let (t1, w3) = date_now e w2;
                  responseMetadata = openai_extractResponseMetadata response;
                  metadata = (spread responseMetadata
                                (spread requestMetadata
                                   (baseMetadata openai (str_or (rq_model request) ''unknown'') key)))
                             \<lparr> md_timing := Some (timingOf t0 t1) \<rparr>;
                  w4 = onLLMCall e pv (JStr (openai_extractPrompt request))
                         (openai_extractResponse response) metadata w3
              in (Resolved response, w4))
         | Inl err \<Rightarrow>
             (let (t1, w3) = date_now e w2;
                  errorMetadata = (spread requestMetadata
                                     (baseMetadata openai (str_or (rq_model request) ''unknown'') key))
                                  \<lparr> md_timing := Some (timingOf t0 t1) \<rparr>
              in case interpolate e err of
                   Inl t \<Rightarrow> (Rejected t, w3)
                 | Inr s \<Rightarrow>
                     (let w4 = olakaiLogger ''[OpenAI Wrapper] Error during call'' error w3;
                          w5 = onLLMError e pv (JStr (openai_extractPrompt request)) err errorMetadata w4
                      in (Rejected err, w5))))"

section \<open>Streaming: shared shapes\<close>

text \<open>
  What \<^verbatim>\<open>originalIterator.next()\<close> resolves to: \<^verbatim>\<open>done\<close> as tested for truthiness, and
  \<^verbatim>\<open>value\<close>, \<open>None\<close> when it is falsy.
\<close>

datatype 'a IteratorResult = IteratorResult (ir_done: bool) (ir_value: "'a option")

text \<open>
  The closure variables of one wrapped stream. They live as long as the stream's proxy
  and are shared by every iterator, promise handler and event handler created from it.
\<close>

record StreamState =
  accumulatedText :: string
  callbackFired :: bool

section \<open>\<^verbatim>\<open>providers/anthropic.ts\<close>\<close>

record AnthropicUsage =
  input_tokens :: "int option"
  output_tokens :: "int option"

record ContentBlock =
  cb_type :: string
  cb_text :: "string option"
  cb_name :: "string option"
  cb_input :: "jsval option"

record AnthropicMessage =
  am_usage :: "AnthropicUsage option"
  stop_reason :: "string option"
  am_model :: "string option"
  am_content :: "ContentBlock list option"
  am_text :: "string option"

datatype MessageContent = ContentString string | ContentBlocks "ContentBlock list" | ContentOther

record AnthropicInputMessage =
  im_role :: string
  im_content :: MessageContent

record AnthropicRequest =
  aq_model :: "string option"
  aq_messages :: "AnthropicInputMessage list option"

record Delta =
  dl_type :: string
  dl_text :: "string option"

record AnthropicEvent =
  ae_type :: string
  ae_delta :: "Delta option"
  ae_text :: "string option"
  ae_message :: "AnthropicMessage option"

record AnthropicStreamState = StreamState +
  finalMessage :: "AnthropicMessage option"

definition anthropic_extractTextFromEvent :: "AnthropicEvent \<Rightarrow> string" where
  "anthropic_extractTextFromEvent ev =
     (if ae_type ev = ''content_block_delta'' \<and>
         (case ae_delta ev of None \<Rightarrow> False | Some d \<Rightarrow> dl_type d = ''text_delta'')
      then (case ae_delta ev of None \<Rightarrow> [] | Some d \<Rightarrow> str_or (dl_text d) [])
      else if ae_type ev = ''text'' \<and> ae_text ev \<noteq> None
      then (case ae_text ev of None \<Rightarrow> [] | Some t \<Rightarrow> t)
      else [])"

definition anthropic_extractResponseMetadata :: "AnthropicMessage \<Rightarrow> PartialMetadata" where
  "anthropic_extractResponseMetadata response =
     emptyPartial
     \<lparr> pm_tokens := (case am_usage response of
                       None \<Rightarrow> None
                     | Some u \<Rightarrow> Some \<lparr> tk_prompt = input_tokens u,
                                        tk_completion = output_tokens u,
                                        tk_total = Some (js_add (num_or0 (input_tokens u))
                                                                (num_or0 (output_tokens u))) \<rparr>),
       pm_finishReason := (if present (stop_reason response) then stop_reason response else None),
       pm_model := (if present (am_model response) then am_model response else None) \<rparr>"

text \<open>\<^verbatim>\<open>.filter(Boolean)\<close> on strings\<close>

definition nonEmpty :: "string list \<Rightarrow> string list" where
  "nonEmpty xs = filter (\<lambda>x. x \<noteq> []) xs"

definition anthropic_extractPrompt :: "AnthropicRequest \<Rightarrow> string" where
  "anthropic_extractPrompt request =
     (case aq_messages request of
        None \<Rightarrow> []
      | Some msgs \<Rightarrow>
          join [CHR 0x0A]
            (concat (map (\<lambda>msg.
               if im_role msg \<noteq> ''user'' then []
               else case im_content msg of
                      ContentString s \<Rightarrow> [s]
                    | ContentBlocks bs \<Rightarrow>
                        (let t = join '' '' (nonEmpty (map (\<lambda>b. if cb_type b = ''text''
                                                              then str_or (cb_text b) [] else []) bs))
                         in if t \<noteq> [] then [t] else [])
                    | ContentOther \<Rightarrow> []) msgs)))"

definition anthropic_extractResponse :: "env \<Rightarrow> AnthropicMessage \<Rightarrow> string" where
  "anthropic_extractResponse e response =
     (case am_content response of
        Some blocks \<Rightarrow>
          join [CHR 0x0A]
            (nonEmpty (map (\<lambda>b.
               if cb_type b = ''text'' then str_or (cb_text b) []
               else if cb_type b = ''tool_use''
               then ''[tool_use: '' @ nullish (cb_name b) ''undefined'' @ ''('' @
                    jsonStringify e (orUndefined (cb_input b)) @ '')]''
               else []) blocks))
      | None \<Rightarrow>
          (case am_text response of
             Some t \<Rightarrow> t
           | None \<Rightarrow> ''Unable to extract response''))"

text \<open>
  \<^verbatim>\<open>wrapStream(stream, request, apiKey, requestMetadata, startTime)\<close>. Its arguments other
  than the stream are collected in a record; the proxy it returns is modelled by the
  operations a consumer can perform on it, each carrying what the underlying stream did.
\<close>

record AnthropicStreamArgs =
  sa_request :: AnthropicRequest
  sa_apiKey :: "string option"
  sa_requestMetadata :: PartialMetadata
  sa_startTime :: int

definition anthropic_fireCallback ::
  "env \<Rightarrow> providerInstance \<Rightarrow> AnthropicStreamArgs \<Rightarrow> AnthropicStreamState \<times> world \<Rightarrow>
   AnthropicStreamState \<times> world" where
  "anthropic_fireCallback e pv a sw =
     (let (st, w) = sw
      in if callbackFired st then (st, w)
         else
           (let st1 = st\<lparr>callbackFired := True\<rparr>;
                (t1, w1) = date_now e w;
                responseMetadata = (case finalMessage st1 of
                                      None \<Rightarrow> emptyPartial
                                    | Some m \<Rightarrow> anthropic_extractResponseMetadata m);
                metadata = (spread responseMetadata
                              (spread (sa_requestMetadata a)
                                 (baseMetadata anthropic
                                    (str_or (case finalMessage st1 of None \<Rightarrow> None | Some m \<Rightarrow> am_model m)
                                       (str_or (aq_model (sa_request a)) ''unknown''))
                                    (sa_apiKey a))))
                           \<lparr> md_streamMode := Some True,
                             md_timing := Some (timingOf (sa_startTime a) t1) \<rparr>;
                w2 = onLLMCall e pv (JStr (anthropic_extractPrompt (sa_request a)))
                       (accumulatedText st1) metadata w1
            in (st1, w2)))"

datatype AnthropicOp =
    Next "exn + AnthropicEvent IteratorResult"
  | Return
  | Throw
  | FinalMessage "exn + AnthropicMessage option"
  | GetFinalMessage "exn + AnthropicMessage option"
  | Text "exn + string"
  | OnText string
  | OnTerminal "AnthropicMessage option"
  | OnOther

text \<open>
  \<open>Next r\<close>, \<open>Return\<close> and \<open>Throw\<close> are calls of \<^verbatim>\<open>next\<close>, \<^verbatim>\<open>return\<close> and \<^verbatim>\<open>throw\<close> on an
  iterator made by \<^verbatim>\<open>createWrappedIterator\<close>, \<open>r\<close> being how the original \<^verbatim>\<open>next()\<close>
  settles. \<open>FinalMessage r\<close> is the \<^verbatim>\<open>finalMessage\<close> promise, \<open>GetFinalMessage r\<close> a call of
  \<^verbatim>\<open>getFinalMessage()\<close> and \<open>Text r\<close> a call of \<^verbatim>\<open>text()\<close>, settling to \<open>r\<close>. \<open>OnText t\<close>,
  \<open>OnTerminal m\<close> and \<open>OnOther\<close> are events delivered to a handler registered through
  \<^verbatim>\<open>on\<close>: a \<^verbatim>\<open>text\<close> event, one of \<^verbatim>\<open>message\<close>, \<^verbatim>\<open>end\<close>, \<^verbatim>\<open>finalMessage\<close> with first
  argument \<open>m\<close>, and any other event. The value each operation hands back to the consumer
  is the underlying stream's own; the step gives the effect on the closure variables and
  the world.
\<close>

definition takeFinal ::
  "env \<Rightarrow> AnthropicMessage option \<Rightarrow> AnthropicStreamState \<Rightarrow> AnthropicStreamState" where
  "takeFinal e msg st =
     (let st1 = st\<lparr>finalMessage := msg\<rparr>
      in case msg of
           None \<Rightarrow> st1
         | Some m \<Rightarrow>
             (let t = anthropic_extractResponse e m
              in if t \<noteq> [] \<and> accumulatedText st1 = [] then st1\<lparr>accumulatedText := t\<rparr> else st1))"

fun anthropic_step ::
  "env \<Rightarrow> providerInstance \<Rightarrow> AnthropicStreamArgs \<Rightarrow> AnthropicOp \<Rightarrow> AnthropicStreamState \<times> world \<Rightarrow>
   AnthropicStreamState \<times> world" where
  "anthropic_step e pv a (Next (Inl err)) (st, w) = (st, w)"
| "anthropic_step e pv a (Next (Inr (IteratorResult d v))) (st, w) =
     (if d then anthropic_fireCallback e pv a (st, w)
      else case v of
             None \<Rightarrow> (st, w)
           | Some ev \<Rightarrow>
               (let t = anthropic_extractTextFromEvent ev;
                    st1 = (if t \<noteq> [] then st\<lparr>accumulatedText := accumulatedText st @ t\<rparr> else st);
                    st2 = (if ae_type ev = ''message_stop'' \<and> ae_message ev \<noteq> None
                           then st1\<lparr>finalMessage := ae_message ev\<rparr>
                           else if ae_type ev = ''message'' \<and> ae_message ev \<noteq> None
                           then st1\<lparr>finalMessage := ae_message ev\<rparr>
                           else st1)
                in (st2, w)))"
| "anthropic_step e pv a Return (st, w) = anthropic_fireCallback e pv a (st, w)"
| "anthropic_step e pv a Throw (st, w) = (st, w)"
| "anthropic_step e pv a (FinalMessage (Inl err)) (st, w) = (st, w)"
| "anthropic_step e pv a (FinalMessage (Inr msg)) (st, w) =
     anthropic_fireCallback e pv a (takeFinal e msg st, w)"
| "anthropic_step e pv a (GetFinalMessage (Inl err)) (st, w) = (st, w)"
| "anthropic_step e pv a (GetFinalMessage (Inr msg)) (st, w) =
     anthropic_fireCallback e pv a (takeFinal e msg st, w)"
| "anthropic_step e pv a (Text (Inl err)) (st, w) = (st, w)"
| "anthropic_step e pv a (Text (Inr t)) (st, w) =
     anthropic_fireCallback e pv a (st\<lparr>accumulatedText := t\<rparr>, w)"
| "anthropic_step e pv a (OnText t) (st, w) = (st\<lparr>accumulatedText := accumulatedText st @ t\<rparr>, w)"
| "anthropic_step e pv a (OnTerminal m) (st, w) =
     anthropic_fireCallback e pv a
       ((case m of None \<Rightarrow> st | Some msg \<Rightarrow> st\<lparr>finalMessage := Some msg\<rparr>), w)"
| "anthropic_step e pv a OnOther (st, w) = (st, w)"

text \<open>The closure variables when \<^verbatim>\<open>wrapStream\<close> returns.\<close>

definition anthropic_wrapStream :: AnthropicStreamState where
  "anthropic_wrapStream = \<lparr> accumulatedText = [], callbackFired = False, finalMessage = None \<rparr>"

text \<open>A consumer is a sequence of operations on the proxy.\<close>

definition anthropic_consume ::
  "env \<Rightarrow> providerInstance \<Rightarrow> AnthropicStreamArgs \<Rightarrow> AnthropicOp list \<Rightarrow> AnthropicStreamState \<times> world \<Rightarrow>
   AnthropicStreamState \<times> world" where
  "anthropic_consume e pv a ops sw = foldl (\<lambda>s op. anthropic_step e pv a op s) sw ops"

section \<open>\<^verbatim>\<open>providers/google.ts\<close>\<close>

record Part =
  part_text :: "string option"

record Candidate =
  finishReason :: "string option"
  parts :: "Part list option"

text \<open>The \<^verbatim>\<open>text\<close> property of a chunk or response: a method (which may throw), a string, or neither.\<close>

datatype TextAccessor = TextFunction "exn + string" | TextString string | NoText

record GoogleChunk =
  gc_candidates :: "Candidate list option"
  gc_text :: TextAccessor

record UsageMetadata =
  promptTokenCount :: "int option"
  candidatesTokenCount :: "int option"
  totalTokenCount :: "int option"

record GoogleInner =
  in_usageMetadata :: "UsageMetadata option"
  in_candidates :: "Candidate list option"

record GoogleResponse =
  gr_response :: "GoogleInner option"
  gr_usageMetadata :: "UsageMetadata option"
  gr_candidates :: "Candidate list option"
  gr_text :: TextAccessor

record GoogleRequest =
  gq_model :: "string option"
  gq_contents :: jsval

text \<open>\<^verbatim>\<open>x?.candidates?.[0]?.content?.parts\<close>\<close>

definition firstParts :: "Candidate list option \<Rightarrow> Part list option" where
  "firstParts cs = (case cs of Some (c # rest) \<Rightarrow> parts c | _ \<Rightarrow> None)"

definition partsText :: "Part list \<Rightarrow> string" where
  "partsText ps = concat (map (\<lambda>p. str_or (part_text p) []) ps)"

definition google_extractTextFromChunk :: "GoogleChunk \<Rightarrow> string" where
  "google_extractTextFromChunk chunk =
     (case firstParts (gc_candidates chunk) of
        Some ps \<Rightarrow> partsText ps
      | None \<Rightarrow>
          (case gc_text chunk of
             TextFunction r \<Rightarrow> (case r of Inr t \<Rightarrow> t | Inl err \<Rightarrow> [])
           | TextString t \<Rightarrow> t
           | NoText \<Rightarrow> []))"

definition google_extractTextFromResponse :: "GoogleResponse \<Rightarrow> string" where
  "google_extractTextFromResponse response =
     (case gr_text response of
        TextFunction r \<Rightarrow> (case r of Inr t \<Rightarrow> t | Inl err \<Rightarrow> [])
      | TextString t \<Rightarrow> t
      | NoText \<Rightarrow>
          (case firstParts (gr_candidates response) of
             Some ps \<Rightarrow> partsText ps
           | None \<Rightarrow> []))"

definition google_extractResponseMetadata :: "GoogleResponse \<Rightarrow> PartialMetadata" where
  "google_extractResponseMetadata response =
     (let usage = override (case gr_response response of None \<Rightarrow> None | Some r \<Rightarrow> in_usageMetadata r)
                    (gr_usageMetadata response);
          candidates = nullish
                         (override (case gr_response response of None \<Rightarrow> None | Some r \<Rightarrow> in_candidates r)
                            (gr_candidates response)) []
      in emptyPartial
         \<lparr> pm_tokens := (case usage of
                           None \<Rightarrow> None
                         | Some u \<Rightarrow> Some \<lparr> tk_prompt = promptTokenCount u,
                                            tk_completion = candidatesTokenCount u,
                                            tk_total = totalTokenCount u \<rparr>),
           pm_finishReason := (case candidates of
                                 c # rest \<Rightarrow> if present (finishReason c) then finishReason c else None
                               | [] \<Rightarrow> None) \<rparr>)"

record GoogleStreamArgs =
  ga_request :: GoogleRequest
  ga_apiKey :: "string option"
  ga_requestMetadata :: PartialMetadata
  ga_startTime :: int

definition google_fireCallback ::
  "env \<Rightarrow> providerInstance \<Rightarrow> GoogleStreamArgs \<Rightarrow> GoogleResponse option \<Rightarrow> StreamState \<times> world \<Rightarrow>
   StreamState \<times> world" where
  "google_fireCallback e pv a finalResponse sw =
     (let (st, w) = sw
      in if callbackFired st then (st, w)
         else
           (let st1 = st\<lparr>callbackFired := True\<rparr>;
                (t1, w1) = date_now e w;
                responseMetadata = (case finalResponse of
                                      None \<Rightarrow> emptyPartial
                                    | Some r \<Rightarrow> google_extractResponseMetadata r);
                metadata = (spread responseMetadata
                              (spread (ga_requestMetadata a)
                                 (baseMetadata google (str_or (gq_model (ga_request a)) ''unknown'')
                                    (ga_apiKey a))))
                           \<lparr> md_streamMode := Some True,
                             md_timing := Some (timingOf (ga_startTime a) t1) \<rparr>;
                w2 = onLLMCall e pv (gq_contents (ga_request a)) (accumulatedText st1) metadata w1
            in (st1, w2)))"

datatype GoogleOp =
    GNext "exn + GoogleChunk IteratorResult"
  | GReturn
  | GThrow
  | GResponse "exn + GoogleResponse option"

text \<open>
  \<open>GNext r\<close>, \<open>GReturn\<close> and \<open>GThrow\<close> are calls on an iterator made by
  \<^verbatim>\<open>createWrappedIterator\<close> (from the \<^verbatim>\<open>stream\<close> property or from the response itself);
  \<open>GResponse r\<close> is the \<^verbatim>\<open>response\<close> promise settling to \<open>r\<close>.
\<close>

fun google_step ::
  "env \<Rightarrow> providerInstance \<Rightarrow> GoogleStreamArgs \<Rightarrow> GoogleOp \<Rightarrow> StreamState \<times> world \<Rightarrow> StreamState \<times> world" where
  "google_step e pv a (GNext (Inl err)) (st, w) = (st, w)"
| "google_step e pv a (GNext (Inr (IteratorResult d v))) (st, w) =
     (if d then google_fireCallback e pv a None (st, w)
      else case v of
             None \<Rightarrow> (st, w)
           | Some chunk \<Rightarrow>
               (let t = google_extractTextFromChunk chunk
                in if t \<noteq> [] then (st\<lparr>accumulatedText := accumulatedText st @ t\<rparr>, w) else (st, w)))"
| "google_step e pv a GReturn (st, w) = google_fireCallback e pv a None (st, w)"
| "google_step e pv a GThrow (st, w) = (st, w)"
| "google_step e pv a (GResponse (Inl err)) (st, w) = (st, w)"
| "google_step e pv a (GResponse (Inr finalResponse)) (st, w) =
     (let st1 = (case finalResponse of
                   None \<Rightarrow> st
                 | Some r \<Rightarrow>
                     if \<not> callbackFired st then
                       (let t = google_extractTextFromResponse r
                        in if t \<noteq> [] \<and> accumulatedText st = [] then st\<lparr>accumulatedText := t\<rparr> else st)
                     else st)
      in google_fireCallback e pv a finalResponse (st1, w))"

definition google_wrapStreamResponse :: StreamState where
  "google_wrapStreamResponse = \<lparr> accumulatedText = [], callbackFired = False \<rparr>"

definition google_consume ::
  "env \<Rightarrow> providerInstance \<Rightarrow> GoogleStreamArgs \<Rightarrow> GoogleOp list \<Rightarrow> StreamState \<times> world \<Rightarrow>
   StreamState \<times> world" where
  "google_consume e pv a ops sw = foldl (\<lambda>s op. google_step e pv a op s) sw ops"

section \<open>Observations used in the statements\<close>

text \<open>
  The identifiers a payload carries, the requests an invocation dispatched (those appended
  to \<open>sent\<close>), what \<^verbatim>\<open>resolveIdentifiers\<close> computes (it does not depend on the world), and
  the control request \<^verbatim>\<open>shouldAllowCall\<close> sends for resolved identifiers.
\<close>

definition payload_chatId :: "payload \<Rightarrow> string option" where
  "payload_chatId p = (case p of CtlPayload c \<Rightarrow> cp_chatId c | MonPayload m \<Rightarrow> mp_chatId m)"

definition payload_email :: "payload \<Rightarrow> string option" where
  "payload_email p = (case p of CtlPayload c \<Rightarrow> cp_email c | MonPayload m \<Rightarrow> mp_email m)"

definition payload_blocked :: "payload \<Rightarrow> bool option" where
  "payload_blocked p = (case p of CtlPayload c \<Rightarrow> None | MonPayload m \<Rightarrow> mp_blocked m)"

definition dispatched :: "world \<Rightarrow> world \<Rightarrow> (payload \<times> endpointKind) list" where
  "dispatched w w' = drop (length (sent w)) (sent w')"

definition identifiersOf :: "env \<Rightarrow> MonitorOptions \<Rightarrow> jsval list \<Rightarrow> exn + identifiers" where
  "identifiersOf e options args = fst (resolveIdentifiers e options args world0)"

definition controlRequest :: "env \<Rightarrow> MonitorOptions \<Rightarrow> jsval list \<Rightarrow> identifiers \<Rightarrow> payload" where
  "controlRequest e options args ids = CtlPayload (controlPayloadOf e options args ids)"

text \<open>
  The control request \<^verbatim>\<open>monitor\<close> dispatches is \<open>controlRequest\<close> at the identifiers
  resolved; it is sent when \<open>length (sent w)\<close> requests were dispatched before.
\<close>

text \<open>
  Sample environments: the delivery client delivers every request and the control endpoint
  answers \<^verbatim>\<open>allowed: true\<close> (\<open>envUp\<close>); every request is rejected, as with the endpoint
  unreachable or the breaker open (\<open>envDown\<close>); the control endpoint answers
  \<^verbatim>\<open>allowed: false\<close> (\<open>envDeny\<close>); only the monitoring endpoint fails (\<open>envNoMonitoring\<close>).
  In all of them a string converts to itself, an object has no usable \<^verbatim>\<open>toString\<close> and any
  other value converts to some text.
\<close>

definition exConfig :: SDKConfig where
  "exConfig = \<lparr> apiKey = ''key'', monitorEndpoint = ''https://app.olakai.ai/api/monitoring/prompt'',
                 controlEndpoint = ''https://app.olakai.ai/api/control/prompt'', version = ''1'',
                 retries = 4, timeout = 30000, debug = False, verbose = False \<rparr>"

definition exAllow :: api_response where
  "exAllow = ControlResponse \<lparr> allowed = True,
       details = \<lparr> detectedSensitivity = [], isAllowedPersona = True \<rparr>, message = None \<rparr>"

definition exDeny :: api_response where
  "exDeny = ControlResponse \<lparr> allowed = False,
       details = \<lparr> detectedSensitivity = [''PII''], isAllowedPersona = False \<rparr>, message = None \<rparr>"

definition exAccepted :: api_response where
  "exAccepted = MonitoringResponse \<lparr> success = True, totalRequests = 1, successCount = 1, failureCount = 0 \<rparr>"

definition envUp :: env where
  "envUp = \<lparr> sendToAPI = (\<lambda>p k n. if k = control then Inr exAllow else Inr exAccepted),
              getConfig = Inr exConfig, initClient = Inr (),
              now = (\<lambda>n. 1000 + int n),
              toJsonValue = (\<lambda>v s. v),
              createErrorInfo = (\<lambda>x. \<lparr> errorMessage = ''failure'', stackTrace = None \<rparr>),
              ToString = (\<lambda>v. case v of
                                   JStr s \<Rightarrow> Inr s
                                 | JObj fs \<Rightarrow> Inl (TypeError ''Cannot convert object to primitive value'')
                                 | _ \<Rightarrow> Inr ''value''),
              blockedErrorName = ''OlakaiBlockedError'',
              jsonStringify = (\<lambda>v. ''{}''),
              createId = ''session-1'',
              packageVersion = ''1'' \<rparr>"

definition envDown :: env where
  "envDown = envUp \<lparr> sendToAPI := (\<lambda>p k n. Inl ''network error'') \<rparr>"

definition envDeny :: env where
  "envDeny = envUp \<lparr> sendToAPI := (\<lambda>p k n. if k = control then Inr exDeny else Inr exAccepted) \<rparr>"

definition envNoMonitoring :: env where
  "envNoMonitoring =
     envUp \<lparr> sendToAPI := (\<lambda>p k n. if k = control then Inr exAllow else Inl ''network error'') \<rparr>"

definition exOptions :: MonitorOptions where
  "exOptions = \<lparr> onMonitoredFunctionError = None, chatId = None, email = None,
                  taskExecutionId = None, task = Some ''demo'', subTask = None,
                  sanitize = None, askOverride = None \<rparr>"

definition exThrowingIds :: MonitorOptions where
  "exThrowingIds = exOptions \<lparr> chatId := Some (Resolver (\<lambda>args. Inl (Error ''no chat''))),
                               email := Some (Resolver (\<lambda>args. Inl (Thrown (JStr ''no user'')))) \<rparr>"

text \<open>\<^verbatim>\<open>chatId: (args) => { throw Symbol("no chat") }\<close>\<close>

definition exSymbolIds :: MonitorOptions where
  "exSymbolIds = exOptions \<lparr> chatId := Some (Resolver (\<lambda>args. Inl (Thrown (JSymbol ''no chat'')))) \<rparr>"

definition exEmptyIds :: MonitorOptions where
  "exEmptyIds = exOptions \<lparr> chatId := Some (Static []), email := Some (Static []) \<rparr>"

definition exFnOk :: "jsval list \<Rightarrow> exn + jsval" where
  "exFnOk args = Inr (JStr ''done'')"

definition exFnThrows :: "jsval list \<Rightarrow> exn + jsval" where
  "exFnThrows args = Inl (Thrown (JNum 7))"

text \<open>\<^verbatim>\<open>() => { throw Symbol("stop") }\<close>\<close>

definition exFnThrowsSymbol :: "jsval list \<Rightarrow> exn + jsval" where
  "exFnThrowsSymbol args = Inl (Thrown (JSymbol ''stop''))"

definition exSilent :: MonitorOptions where
  "exSilent = exOptions \<lparr> onMonitoredFunctionError := Some False \<rparr>"

definition exSdkOptions :: SDKOptions where
  "exSdkOptions = \<lparr> so_apiKey = ''key'', so_monitoringEndpoint = None, so_controlEndpoint = None,
                     so_enableControl = Some True, so_retries = None, so_timeout = None,
                     so_debug = None, so_verbose = None \<rparr>"

definition exSdk :: OlakaiSDK where
  "exSdk = snd (init envUp (newOlakaiSDK envUp exSdkOptions))"

definition exWrapperConfig :: LLMWrapperConfig where
  "exWrapperConfig = \<lparr> provider = openai, defaultContext = None, wc_enableControl = None,
                        wc_sanitize = None \<rparr>"

definition exProvider :: providerInstance where
  "exProvider = \<lparr> pv_kind = openai, pv_config = exWrapperConfig, pv_sdk = Some exSdk \<rparr>"

definition exClient :: Client where
  "exClient = \<lparr> cl_apiKey = Some ''sk-1'', cl__apiKey = None, cl_auth = None,
                 cl__options_apiKey = None, cl_authToken = None \<rparr>"

definition exRequest :: OpenAIRequest where
  "exRequest = emptyOpenAIRequest \<lparr> rq_model := Some ''gpt-4'', rq_prompt := Some ''hello'' \<rparr>"

definition exResponse :: OpenAIResponse where
  "exResponse = \<lparr> usage = Some \<lparr> prompt_tokens = Some 10, completion_tokens = Some 5,
                                   total_tokens = None \<rparr>,
                   choices = Some [\<lparr> finish_reason = Some ''stop'', message_content = Some ''hi'',
                                     choice_text = None \<rparr>],
                   rs_model = Some ''gpt-4'' \<rparr>"

definition exCreate :: "OpenAIRequest option \<Rightarrow> exn + OpenAIResponse" where
  "exCreate arg = Inr exResponse"

definition exCreateThrows :: "OpenAIRequest option \<Rightarrow> exn + OpenAIResponse" where
  "exCreateThrows arg = Inl (Thrown (JStr ''rate limited''))"

definition exMetadata :: LLMMetadata where
  "exMetadata = baseMetadata openai ''gpt-4'' None"

definition exUninitialized :: OlakaiSDK where
  "exUninitialized = newOlakaiSDK envUp exSdkOptions"

definition exEvent :: OlakaiEventParams where
  "exEvent = \<lparr> ev_prompt = ''hello'', ev_response = ''hi'', ev_userEmail = None, ev_userId = None,
                ev_chatId = None, ev_task = None, ev_subTask = None, ev_tokens = None,
                ev_requestTime = None, ev_shouldScore = None, ev_customData = None \<rparr>"

definition reportedText :: "world \<Rightarrow> string list" where
  "reportedText w = map (\<lambda>c. fst (snd c)) (llmCalls w)"

fun google_completes :: "GoogleOp \<Rightarrow> bool" where
  "google_completes (GNext (Inr (IteratorResult d v))) = d"
| "google_completes GReturn = True"
| "google_completes (GResponse (Inr r)) = True"
| "google_completes op = False"

fun anthropic_completes :: "AnthropicOp \<Rightarrow> bool" where
  "anthropic_completes (Next (Inr (IteratorResult d v))) = d"
| "anthropic_completes Return = True"
| "anthropic_completes (FinalMessage (Inr m)) = True"
| "anthropic_completes (GetFinalMessage (Inr m)) = True"
| "anthropic_completes (Text (Inr t)) = True"
| "anthropic_completes (OnTerminal m) = True"
| "anthropic_completes op = False"

definition google_iterate :: "GoogleChunk option list \<Rightarrow> GoogleOp list" where
  "google_iterate vs = map (\<lambda>v. GNext (Inr (IteratorResult False v))) vs @ [GNext (Inr (IteratorResult True None))]"

definition anthropic_iterate :: "AnthropicEvent option list \<Rightarrow> AnthropicOp list" where
  "anthropic_iterate vs = map (\<lambda>v. Next (Inr (IteratorResult False v))) vs @ [Next (Inr (IteratorResult True None))]"

definition google_delta :: "GoogleChunk option \<Rightarrow> string" where
  "google_delta v = (case v of None \<Rightarrow> [] | Some c \<Rightarrow> google_extractTextFromChunk c)"

definition anthropic_delta :: "AnthropicEvent option \<Rightarrow> string" where
  "anthropic_delta v = (case v of None \<Rightarrow> [] | Some ev \<Rightarrow> anthropic_extractTextFromEvent ev)"

definition payload_response :: "payload \<Rightarrow> jsval option" where
  "payload_response p = (case p of MonPayload m \<Rightarrow> Some (mp_response m) | CtlPayload c \<Rightarrow> None)"

definition controlEnabled :: "providerInstance \<Rightarrow> OlakaiSDK \<Rightarrow> bool" where
  "controlEnabled pv sdk = nullish (wc_enableControl (pv_config pv)) (enableControl (sdk_config sdk))"

definition exPlainConfig :: LLMWrapperConfig where
  "exPlainConfig = exWrapperConfig \<lparr> wc_enableControl := Some False \<rparr>"

definition exPlainProvider :: providerInstance where
  "exPlainProvider = \<lparr> pv_kind = google, pv_config = exPlainConfig, pv_sdk = Some exSdk \<rparr>"

definition exGoogleArgs :: GoogleStreamArgs where
  "exGoogleArgs = \<lparr> ga_request = \<lparr> gq_model = Some ''gemini-2.0-flash'', gq_contents = JStr ''hello'' \<rparr>,
                     ga_apiKey = None,
                     ga_requestMetadata = emptyPartial \<lparr> pm_streamMode := Some True \<rparr>,
                     ga_startTime = 1000 \<rparr>"

definition exAnthropicArgs :: AnthropicStreamArgs where
  "exAnthropicArgs =
     \<lparr> sa_request = \<lparr> aq_model = Some ''claude-3-haiku-20240307'',
                       aq_messages = Some [\<lparr> im_role = ''user'', im_content = ContentString ''hello'' \<rparr>] \<rparr>,
       sa_apiKey = None,
       sa_requestMetadata = emptyPartial \<lparr> pm_streamMode := Some True \<rparr>,
       sa_startTime = 1000 \<rparr>"

definition exPartsChunk :: "string \<Rightarrow> GoogleChunk" where
  "exPartsChunk t = \<lparr> gc_candidates = Some [\<lparr> finishReason = None, parts = Some [\<lparr> part_text = Some t \<rparr>] \<rparr>],
                      gc_text = NoText \<rparr>"

definition exFailingChunk :: GoogleChunk where
  "exFailingChunk = \<lparr> gc_candidates = None, gc_text = TextFunction (Inl (Error ''no text'')) \<rparr>"

definition exChunks :: "GoogleChunk option list" where
  "exChunks = [Some (exPartsChunk ''a''), Some exFailingChunk,
               Some \<lparr> gc_candidates = None, gc_text = TextString ''b'' \<rparr>, Some (exPartsChunk ''c'')]"

definition exDeltaEvent :: "string \<Rightarrow> AnthropicEvent" where
  "exDeltaEvent t = \<lparr> ae_type = ''content_block_delta'',
                      ae_delta = Some \<lparr> dl_type = ''text_delta'', dl_text = Some t \<rparr>,
                      ae_text = None, ae_message = None \<rparr>"

definition exEvents :: "AnthropicEvent option list" where
  "exEvents = [Some \<lparr> ae_type = ''message_start'', ae_delta = None, ae_text = None, ae_message = None \<rparr>,
               Some (exDeltaEvent ''a''), Some (exDeltaEvent ''b''), Some (exDeltaEvent ''c'')]"

definition exFinalResponse :: GoogleResponse where
  "exFinalResponse = \<lparr> gr_response = None,
                        gr_usageMetadata = Some \<lparr> promptTokenCount = Some 10, candidatesTokenCount = Some 5,
                                                  totalTokenCount = Some 15 \<rparr>,
                        gr_candidates = None, gr_text = TextString ''abc'' \<rparr>"

text \<open>A response that carries its usage under \<^verbatim>\<open>response.response\<close>.\<close>

definition exInnerResponse :: GoogleResponse where
  "exInnerResponse = \<lparr> gr_response = Some \<lparr> in_usageMetadata =
                                                 Some \<lparr> promptTokenCount = Some 7,
                                                        candidatesTokenCount = Some 3,
                                                        totalTokenCount = None \<rparr>,
                                               in_candidates = None \<rparr>,
                        gr_usageMetadata = None,
                        gr_candidates = None, gr_text = NoText \<rparr>"

definition exMessage :: AnthropicMessage where
  "exMessage = \<lparr> am_usage = Some \<lparr> input_tokens = Some 10, output_tokens = Some 5 \<rparr>,
                  stop_reason = Some ''end_turn'', am_model = Some ''claude-3-haiku-20240307'',
                  am_content = Some [\<lparr> cb_type = ''text'', cb_text = Some ''abc'', cb_name = None,
                                       cb_input = None \<rparr>],
                  am_text = None \<rparr>"

definition exMixedGoogle :: "GoogleOp list" where
  "exMixedGoogle = google_iterate exChunks @ [GResponse (Inr (Some exFinalResponse)), GReturn]"

definition exMixedAnthropic :: "AnthropicOp list" where
  "exMixedAnthropic = [OnText ''a'', Next (Inr (IteratorResult False (Some (exDeltaEvent ''b'')))), Return,
                       GetFinalMessage (Inr (Some exMessage)), OnTerminal (Some exMessage),
                       Text (Inr ''ab''), FinalMessage (Inr (Some exMessage)),
                       Next (Inr (IteratorResult True None))]"

section \<open>Properties of the call-interception wrapper\<close>

lemma olakaiLogger_fields [simp]:
  "sent (olakaiLogger m l w) = sent w"
  "invoked (olakaiLogger m l w) = invoked w"
  "clock (olakaiLogger m l w) = clock w"
  "llmCalls (olakaiLogger m l w) = llmCalls w"
  "llmErrors (olakaiLogger m l w) = llmErrors w"
  by (simp_all add: olakaiLogger_def)

lemma olakaiLogger_logged [simp]:
  "lvl \<noteq> info \<Longrightarrow> logged (olakaiLogger m lvl w) = logged w @ [(lvl, m)]"
  by (simp add: olakaiLogger_def)

lemma world0_fields [simp]:
  "sent world0 = []" "invoked world0 = []" "logged world0 = []" "clock world0 = 0"
  "llmCalls world0 = []" "llmErrors world0 = []"
  by (simp_all add: world0_def)

lemma interpolate_simps [simp]:
  "interpolate e (Error m) = Inr (errorString ''Error'' m)"
  "interpolate e (TypeError m) = Inr (errorString ''TypeError'' m)"
  "interpolate e (OlakaiBlockedError m d) = Inr (errorString (blockedErrorName e) m)"
  "interpolate e (Thrown (JSymbol s)) = Inl symbolToString"
  by (simp_all add: interpolate_def stringOf_def)

lemma interpolate_symbolToString [simp]:
  "interpolate e symbolToString = Inr (errorString ''TypeError'' ''Cannot convert a Symbol value to a string'')"
  by (simp add: symbolToString_def)

lemma stringOf_interpolate:
  "interpolate e x = Inr s \<Longrightarrow> stringOf e x = Inr s"
  by (simp add: interpolate_def split: exn.splits jsval.splits)

lemma send_fields [simp]:
  "sent (snd (send e p k w)) = sent w @ [(p, k)]"
  "invoked (snd (send e p k w)) = invoked w"
  "clock (snd (send e p k w)) = clock w"
  "logged (snd (send e p k w)) = logged w"
  "llmCalls (snd (send e p k w)) = llmCalls w"
  "llmErrors (snd (send e p k w)) = llmErrors w"
  by (simp_all add: send_def)

lemma send_outcome:
  "fst (send e p k w) =
     (case sendToAPI e p k (length (sent w)) of Inl m \<Rightarrow> Inl (Error m) | Inr resp \<Rightarrow> Inr resp)"
  by (simp add: send_def)

lemma resolveIdentifiers_fields [simp]:
  "sent (snd (resolveIdentifiers e options args w)) = sent w"
  "invoked (snd (resolveIdentifiers e options args w)) = invoked w"
  "clock (snd (resolveIdentifiers e options args w)) = clock w"
  "llmCalls (snd (resolveIdentifiers e options args w)) = llmCalls w"
  "llmErrors (snd (resolveIdentifiers e options args w)) = llmErrors w"
  by (simp_all add: resolveIdentifiers_def Let_def case_prod_beta
        split: option.splits dynamicId.splits sum.splits)

lemma olakaiLogger_keeps:
  "x \<in> set (logged w) \<Longrightarrow> x \<in> set (logged (olakaiLogger m l w))"
  by (simp add: olakaiLogger_def)

lemma resolveIdentifiers_logged:
  "x \<in> set (logged w) \<Longrightarrow> x \<in> set (logged (snd (resolveIdentifiers e options args w)))"
  by (simp add: resolveIdentifiers_def olakaiLogger_def Let_def case_prod_beta
        split: option.splits dynamicId.splits sum.splits)

lemma resolveIdentifiers_ids [simp]:
  "fst (resolveIdentifiers e options args w) = identifiersOf e options args"
  by (simp add: identifiersOf_def resolveIdentifiers_def Let_def case_prod_beta
        split: option.splits dynamicId.splits sum.splits)

lemma identifiersOf_chatId:
  "identifiersOf e options args = Inr ids \<Longrightarrow>
   id_chatId ids =
     (case chatId options of
        Some (Resolver f) \<Rightarrow> (case f args of Inr v \<Rightarrow> v | Inl x \<Rightarrow> ''123'')
      | Some (Static s) \<Rightarrow> (if s = [] then ''123'' else s)
      | None \<Rightarrow> ''123'')"
  by (auto simp add: identifiersOf_def resolveIdentifiers_def str_or_def Let_def case_prod_beta
        split: option.splits dynamicId.splits sum.splits)

lemma identifiersOf_email:
  "identifiersOf e options args = Inr ids \<Longrightarrow>
   id_email ids =
     (case email options of
        Some (Resolver f) \<Rightarrow> (case f args of Inr v \<Rightarrow> v | Inl x \<Rightarrow> ''anonymous@olakai.ai'')
      | Some (Static s) \<Rightarrow> (if s = [] then ''anonymous@olakai.ai'' else s)
      | None \<Rightarrow> ''anonymous@olakai.ai'')"
  by (auto simp add: identifiersOf_def resolveIdentifiers_def str_or_def Let_def case_prod_beta
        split: option.splits dynamicId.splits sum.splits)

text \<open>
  Identifier resolution throws exactly when a resolver throws a value that \<^verbatim>\<open>${error}\<close>
  cannot convert.
\<close>

lemma identifiersOf_throws:
  "identifiersOf e options args = Inl t \<longleftrightarrow>
     (\<exists>f x. chatId options = Some (Resolver f) \<and> f args = Inl x \<and> interpolate e x = Inl t) \<or>
     ((\<forall>f x. chatId options = Some (Resolver f) \<and> f args = Inl x \<longrightarrow> (\<exists>s. interpolate e x = Inr s)) \<and>
      (\<exists>g y. email options = Some (Resolver g) \<and> g args = Inl y \<and> interpolate e y = Inl t))"
  by (auto simp add: identifiersOf_def resolveIdentifiers_def Let_def case_prod_beta
        split: option.splits dynamicId.splits sum.splits)

lemma shouldAllowCall_fields [simp]:
  "invoked (snd (shouldAllowCall e options args w)) = invoked w"
  "clock (snd (shouldAllowCall e options args w)) = clock w"
  by (simp_all add: shouldAllowCall_def shouldAllowCall_catch_def Let_def case_prod_beta
        split: sum.splits)

lemma shouldAllowCall_resolved:
  assumes "identifiersOf e options args = Inr ids"
  shows "sent (snd (shouldAllowCall e options args w)) = sent w @ [(controlRequest e options args ids, control)]"
    and "fst (shouldAllowCall e options args w) =
           (case sendToAPI e (controlRequest e options args ids) control (length (sent w)) of
              Inr resp \<Rightarrow> Resolved \<lparr> allowed = True, details = \<lparr> detectedSensitivity = [], isAllowedPersona = True \<rparr>, message = None \<rparr>
            | Inl m \<Rightarrow> Resolved \<lparr> allowed = False, details = \<lparr> detectedSensitivity = [], isAllowedPersona = False \<rparr>, message = None \<rparr>)"
  using assms
  by (simp_all add: shouldAllowCall_def shouldAllowCall_catch_def controlRequest_def send_outcome
        Let_def case_prod_beta split: sum.splits)

lemma shouldAllowCall_unresolved:
  assumes "identifiersOf e options args = Inl t"
  shows "sent (snd (shouldAllowCall e options args w)) = sent w"
    and "fst (shouldAllowCall e options args w) =
           (case interpolate e t of
              Inl t' \<Rightarrow> Rejected t'
            | Inr s \<Rightarrow> Resolved \<lparr> allowed = False, details = \<lparr> detectedSensitivity = [], isAllowedPersona = False \<rparr>, message = None \<rparr>)"
  using assms
  by (simp_all add: shouldAllowCall_def shouldAllowCall_catch_def Let_def case_prod_beta split: sum.splits)

lemma shouldAllowCall_logs:
  assumes "identifiersOf e options args = Inr ids"
      and "sendToAPI e (controlRequest e options args ids) control (length (sent w)) = Inl m"
  shows "logged (snd (shouldAllowCall e options args w)) =
           logged (snd (resolveIdentifiers e options args w)) @
           [(error, ''Control call failed, disallowing execution'')]"
  using assms
  by (simp add: shouldAllowCall_def shouldAllowCall_catch_def controlRequest_def send_outcome
        Let_def case_prod_beta)

lemma makeMonitoringCall_effect:
  assumes "identifiersOf e options args = Inr ids"
  shows "\<exists>mp. sent (snd (makeMonitoringCall e result pa args options sens config start w)) = sent w @ [(MonPayload mp, monitoring)]
     \<and> mp_chatId mp = Some (id_chatId ids)
     \<and> mp_email mp = Some (id_email ids)
     \<and> mp_blocked mp = Some False \<and> mp_sensitivity mp = Some sens
     \<and> mp_response mp = toJsonValue e result (sanitize options)"
  and "fst (makeMonitoringCall e result pa args options sens config start w) = Resolved ()"
  using assms
  by (simp_all add: makeMonitoringCall_def send_outcome date_now_def Let_def emptyMonitorPayload_def
        case_prod_beta split: sum.splits)

lemma makeMonitoringCall_invoked [simp]:
  "invoked (snd (makeMonitoringCall e result pa args options sens config start w)) = invoked w"
  by (simp add: makeMonitoringCall_def date_now_def Let_def case_prod_beta split: sum.splits)

lemma reportError_effect:
  assumes "identifiersOf e options args = Inr ids"
  shows "onMonitoredFunctionError options \<noteq> Some False \<Longrightarrow>
   \<exists>mp. sent (snd (reportError e x args options config sens w)) = sent w @ [(MonPayload mp, monitoring)]
     \<and> mp_chatId mp = Some (id_chatId ids)
     \<and> mp_email mp = Some (id_email ids)
     \<and> mp_errorMessage mp \<noteq> None \<and> mp_sensitivity mp = Some sens"
  and "fst (reportError e x args options config sens w) = Resolved ()"
  using assms
  by (auto simp add: reportError_def reportError_catch_def send_outcome Let_def emptyMonitorPayload_def
        case_prod_beta split: sum.splits option.splits)

lemma reportError_off:
  "onMonitoredFunctionError options = Some False \<Longrightarrow>
   sent (snd (reportError e x args options config sens w)) = sent w"
  by (simp add: reportError_def)

lemma reportError_invoked [simp]:
  "invoked (snd (reportError e x args options config sens w)) = invoked w"
  by (simp add: reportError_def reportError_catch_def Let_def case_prod_beta split: sum.splits)

lemma monitor_unconfigured:
  assumes "getConfig e = Inl m"
  shows "fst (monitor e options fn args w) = (case fn args of Inr r \<Rightarrow> Resolved r | Inl x \<Rightarrow> Rejected x)"
    and "sent (snd (monitor e options fn args w)) = sent w"
    and "invoked (snd (monitor e options fn args w)) = invoked w @ [args]"
  using assms
  by (simp_all add: monitor_def invoke_def Let_def case_prod_beta split: sum.splits)

text \<open>
  With the SDK configured, an invocation whose identifiers do not resolve dispatches nothing,
  does not run the callable and rejects with the exception of the conversion.
\<close>

lemma monitor_unresolved:
  assumes "getConfig e = Inr config"
      and "identifiersOf e options args = Inl t"
  shows "fst (monitor e options fn args w) =
           Rejected (case interpolate e t of Inl t' \<Rightarrow> t' | Inr s \<Rightarrow> t)"
    and "invoked (snd (monitor e options fn args w)) = invoked w"
    and "sent (snd (monitor e options fn args w)) = sent w"
  using assms
  by (simp_all add: monitor_def shouldAllowCall_unresolved date_now_def Let_def case_prod_beta
        split: sum.splits)

lemma monitor_control_failed:
  assumes "getConfig e = Inr config"
      and "identifiersOf e options args = Inr ids"
      and "sendToAPI e (controlRequest e options args ids) control (length (sent w)) = Inl m"
  shows "fst (monitor e options fn args w) =
           Rejected (OlakaiBlockedError blockedMessage \<lparr> detectedSensitivity = [], isAllowedPersona = False \<rparr>)"
    and "invoked (snd (monitor e options fn args w)) = invoked w"
    and "\<exists>mp. sent (snd (monitor e options fn args w)) =
                 sent w @ [(controlRequest e options args ids, control), (MonPayload mp, monitoring)]
             \<and> mp_blocked mp = Some True \<and> mp_sensitivity mp = Some []
             \<and> mp_chatId mp = Some (id_chatId ids)
             \<and> mp_email mp = Some (id_email ids)"
  using assms
  by (simp_all add: monitor_def shouldAllowCall_resolved date_now_def
        Let_def case_prod_beta emptyMonitorPayload_def)

lemma monitor_control_failed_logs:
  assumes "getConfig e = Inr config"
      and "identifiersOf e options args = Inr ids"
      and "sendToAPI e (controlRequest e options args ids) control (length (sent w)) = Inl m"
  shows "(error, ''Control call failed, disallowing execution'') \<in> set (logged (snd (monitor e options fn args w)))"
proof -
  have "(error, ''Control call failed, disallowing execution'') \<in>
          set (logged (snd (shouldAllowCall e options args (w\<lparr>clock := Suc (clock w)\<rparr>))))"
    using shouldAllowCall_logs [OF assms(2), of "w\<lparr>clock := Suc (clock w)\<rparr>" m] assms(3) by simp
  then have "(error, ''Control call failed, disallowing execution'') \<in>
          set (logged (snd (resolveIdentifiers e options args
                 (olakaiLogger blockedMessage error
                    (snd (shouldAllowCall e options args (w\<lparr>clock := Suc (clock w)\<rparr>)))))))"
    by (intro resolveIdentifiers_logged olakaiLogger_keeps)
  with assms show ?thesis
    by (simp add: monitor_def shouldAllowCall_resolved date_now_def Let_def case_prod_beta)
qed

lemma monitor_delivered_unfold:
  assumes "getConfig e = Inr config"
      and "identifiersOf e options args = Inr ids"
      and "sendToAPI e (controlRequest e options args ids) control (length (sent w)) = Inr resp"
  shows "\<exists>w3. sent w3 = sent w @ [(controlRequest e options args ids, control)] \<and> invoked w3 = invoked w @ [args] \<and>
           monitor e options fn args w =
             (case fn args of
                Inl x \<Rightarrow>
                  (case interpolate e x of
                     Inl t \<Rightarrow> (Rejected t, w3)
                   | Inr s \<Rightarrow> (Rejected x, snd (reportError e x args options config [] (olakaiLogger ''Original function failed'' error w3))))
              | Inr result \<Rightarrow> (Resolved result, snd (makeMonitoringCall e result args args options [] config (now e (clock w)) w3)))"
  using assms
  by (intro exI [where x = "(snd (shouldAllowCall e options args (w\<lparr>clock := Suc (clock w)\<rparr>)))
                              \<lparr>invoked := invoked w @ [args]\<rparr>"])
     (simp add: monitor_def shouldAllowCall_resolved date_now_def invoke_def Let_def case_prod_beta
           split: sum.splits)

lemma monitor_delivered_success:
  assumes "getConfig e = Inr config"
      and "identifiersOf e options args = Inr ids"
      and "sendToAPI e (controlRequest e options args ids) control (length (sent w)) = Inr resp"
      and "fn args = Inr result"
  shows "fst (monitor e options fn args w) = Resolved result"
    and "invoked (snd (monitor e options fn args w)) = invoked w @ [args]"
    and "\<exists>mp. sent (snd (monitor e options fn args w)) =
                 sent w @ [(controlRequest e options args ids, control), (MonPayload mp, monitoring)]
             \<and> mp_blocked mp = Some False
             \<and> mp_response mp = toJsonValue e result (sanitize options)
             \<and> mp_chatId mp = Some (id_chatId ids)
             \<and> mp_email mp = Some (id_email ids)"
proof -
  from monitor_delivered_unfold [OF assms(1,2,3), of fn] assms(4)
  obtain w3 where w3: "sent w3 = sent w @ [(controlRequest e options args ids, control)]"
      "invoked w3 = invoked w @ [args]"
      "monitor e options fn args w =
         (Resolved result, snd (makeMonitoringCall e result args args options [] config (now e (clock w)) w3))"
    by auto
  show "fst (monitor e options fn args w) = Resolved result" by (simp add: w3)
  show "invoked (snd (monitor e options fn args w)) = invoked w @ [args]"
    by (simp add: w3)
  from makeMonitoringCall_effect(1) [OF assms(2), of result args "[]" config "now e (clock w)" w3]
  show "\<exists>mp. sent (snd (monitor e options fn args w)) =
                 sent w @ [(controlRequest e options args ids, control), (MonPayload mp, monitoring)]
             \<and> mp_blocked mp = Some False
             \<and> mp_response mp = toJsonValue e result (sanitize options)
             \<and> mp_chatId mp = Some (id_chatId ids)
             \<and> mp_email mp = Some (id_email ids)"
    by (auto simp add: w3)
qed

lemma monitor_delivered_failure:
  assumes "getConfig e = Inr config"
      and "identifiersOf e options args = Inr ids"
      and "sendToAPI e (controlRequest e options args ids) control (length (sent w)) = Inr resp"
      and "fn args = Inl x"
      and "interpolate e x = Inr s"
  shows "fst (monitor e options fn args w) = Rejected x"
    and "invoked (snd (monitor e options fn args w)) = invoked w @ [args]"
    and "onMonitoredFunctionError options = Some False \<Longrightarrow>
           sent (snd (monitor e options fn args w)) = sent w @ [(controlRequest e options args ids, control)]"
    and "onMonitoredFunctionError options \<noteq> Some False \<Longrightarrow>
         \<exists>mp. sent (snd (monitor e options fn args w)) =
                 sent w @ [(controlRequest e options args ids, control), (MonPayload mp, monitoring)]
             \<and> mp_errorMessage mp \<noteq> None
             \<and> mp_chatId mp = Some (id_chatId ids)
             \<and> mp_email mp = Some (id_email ids)"
proof -
  from monitor_delivered_unfold [OF assms(1,2,3), of fn] assms(4,5)
  obtain w3 where w3: "sent w3 = sent w @ [(controlRequest e options args ids, control)]"
      "invoked w3 = invoked w @ [args]"
      "monitor e options fn args w =
         (Rejected x, snd (reportError e x args options config [] (olakaiLogger ''Original function failed'' error w3)))"
    by auto
  show "fst (monitor e options fn args w) = Rejected x" by (simp add: w3)
  show "invoked (snd (monitor e options fn args w)) = invoked w @ [args]"
    by (simp add: w3)
  show "onMonitoredFunctionError options = Some False \<Longrightarrow>
           sent (snd (monitor e options fn args w)) = sent w @ [(controlRequest e options args ids, control)]"
    by (simp add: w3 reportError_off)
  assume en: "onMonitoredFunctionError options \<noteq> Some False"
  from reportError_effect(1) [OF assms(2) en, of x config "[]" "olakaiLogger ''Original function failed'' error w3"]
  show "\<exists>mp. sent (snd (monitor e options fn args w)) =
                 sent w @ [(controlRequest e options args ids, control), (MonPayload mp, monitoring)]
             \<and> mp_errorMessage mp \<noteq> None
             \<and> mp_chatId mp = Some (id_chatId ids)
             \<and> mp_email mp = Some (id_email ids)"
    by (auto simp add: w3)
qed

text \<open>
  When the callable throws a value that \<^verbatim>\<open>${error}\<close> cannot convert, the \<^verbatim>\<open>catch\<close> block
  itself throws: the call rejects with that exception and no error report is sent.
\<close>

lemma monitor_delivered_failure_unprintable:
  assumes "getConfig e = Inr config"
      and "identifiersOf e options args = Inr ids"
      and "sendToAPI e (controlRequest e options args ids) control (length (sent w)) = Inr resp"
      and "fn args = Inl x"
      and "interpolate e x = Inl t"
  shows "fst (monitor e options fn args w) = Rejected t"
    and "invoked (snd (monitor e options fn args w)) = invoked w @ [args]"
    and "sent (snd (monitor e options fn args w)) = sent w @ [(controlRequest e options args ids, control)]"
proof -
  from monitor_delivered_unfold [OF assms(1,2,3), of fn] assms(4,5)
  obtain w3 where w3: "sent w3 = sent w @ [(controlRequest e options args ids, control)]"
      "invoked w3 = invoked w @ [args]"
      "monitor e options fn args w = (Rejected t, w3)"
    by auto
  show "fst (monitor e options fn args w) = Rejected t" by (simp add: w3)
  show "invoked (snd (monitor e options fn args w)) = invoked w @ [args]" by (simp add: w3)
  show "sent (snd (monitor e options fn args w)) = sent w @ [(controlRequest e options args ids, control)]"
    by (simp add: w3)
qed

lemma controlRequest_ids [simp]:
  "payload_chatId (controlRequest e options args ids) = Some (id_chatId ids)"
  "payload_email (controlRequest e options args ids) = Some (id_email ids)"
  by (simp_all add: controlRequest_def controlPayloadOf_def payload_chatId_def payload_email_def)

lemma payload_ids_simps [simp]:
  "payload_chatId (MonPayload m) = mp_chatId m"
  "payload_chatId (CtlPayload c) = cp_chatId c"
  "payload_email (MonPayload m) = mp_email m"
  "payload_email (CtlPayload c) = cp_email c"
  by (simp_all add: payload_chatId_def payload_email_def)

text \<open>
  With the SDK configured, the invocation dispatches a request exactly when the identifiers
  resolve, and the callable is run only then.
\<close>

lemma monitor_dispatches_iff:
  assumes "getConfig e = Inr config"
  shows "dispatched w (snd (monitor e options fn args w)) \<noteq> [] \<longleftrightarrow>
           (\<exists>ids. identifiersOf e options args = Inr ids)"
proof (cases "identifiersOf e options args")
  case (Inl t)
  from monitor_unresolved(3) [OF assms Inl, of fn w] Inl show ?thesis by (simp add: dispatched_def)
next
  case ids: (Inr ids)
  show ?thesis
  proof (cases "sendToAPI e (controlRequest e options args ids) control (length (sent w))")
    case (Inl m)
    from monitor_control_failed(3) [OF assms ids Inl, of fn] ids show ?thesis
      by (auto simp add: dispatched_def)
  next
    case delivered: (Inr resp)
    from monitor_delivered_unfold [OF assms ids delivered, of fn]
    obtain w3 where w3: "sent w3 = sent w @ [(controlRequest e options args ids, control)]"
      and m: "monitor e options fn args w =
             (case fn args of
                Inl x \<Rightarrow>
                  (case interpolate e x of
                     Inl t \<Rightarrow> (Rejected t, w3)
                   | Inr s \<Rightarrow> (Rejected x, snd (reportError e x args options config [] (olakaiLogger ''Original function failed'' error w3))))
              | Inr result \<Rightarrow> (Resolved result, snd (makeMonitoringCall e result args args options [] config (now e (clock w)) w3)))"
      by blast
    have "length (sent w) < length (sent (snd (monitor e options fn args w)))"
    proof (cases "fn args")
      case (Inr result)
      from monitor_delivered_success(3) [where fn = fn and args = args, OF assms ids delivered Inr]
      show ?thesis by auto
    next
      case (Inl x)
      show ?thesis
      proof (cases "interpolate e x")
        case t: (Inl t)
        from monitor_delivered_failure_unprintable(3) [where fn = fn and args = args, OF assms ids delivered Inl t]
        show ?thesis by simp
      next
        case s: (Inr s)
        show ?thesis
        proof (cases "onMonitoredFunctionError options = Some False")
          case True
          from monitor_delivered_failure(3) [where fn = fn and args = args, OF assms ids delivered Inl s True]
          show ?thesis by simp
        next
          case False
          from monitor_delivered_failure(4) [where fn = fn and args = args, OF assms ids delivered Inl s False]
          show ?thesis by auto
        qed
      qed
    qed
    with ids show ?thesis by (simp add: dispatched_def)
  qed
qed

lemma monitor_dispatched_ids:
  assumes "p \<in> set (dispatched w (snd (monitor e options fn args w)))"
  shows "\<exists>ids. identifiersOf e options args = Inr ids \<and>
               payload_chatId (fst p) = Some (id_chatId ids) \<and>
               payload_email (fst p) = Some (id_email ids)"
proof (cases "getConfig e")
  case (Inl m)
  with assms show ?thesis by (simp add: dispatched_def monitor_unconfigured)
next
  case (Inr config)
  show ?thesis
  proof (cases "identifiersOf e options args")
    case (Inl t)
    from monitor_unresolved(3) [OF Inr Inl, of fn w] assms show ?thesis by (simp add: dispatched_def)
  next
    case ids: (Inr ids)
    show ?thesis
    proof (cases "sendToAPI e (controlRequest e options args ids) control (length (sent w))")
      case (Inl m)
      from monitor_control_failed(3) [OF Inr ids Inl, of fn] assms ids show ?thesis
        by (auto simp add: dispatched_def)
    next
      case delivered: (Inr resp)
      show ?thesis
      proof (cases "fn args")
        case r: (Inr result)
        from monitor_delivered_success(3) [where fn = fn and args = args, OF \<open>getConfig e = Inr config\<close> ids delivered r]
          assms ids show ?thesis
          by (auto simp add: dispatched_def)
      next
        case (Inl x)
        show ?thesis
        proof (cases "interpolate e x")
          case t: (Inl t)
          from monitor_delivered_failure_unprintable(3) [where fn = fn and args = args,
              OF \<open>getConfig e = Inr config\<close> ids delivered Inl t] assms ids
          show ?thesis by (auto simp add: dispatched_def)
        next
          case s: (Inr s)
          show ?thesis
          proof (cases "onMonitoredFunctionError options = Some False")
            case True
            from monitor_delivered_failure(3) [where fn = fn and args = args,
                OF \<open>getConfig e = Inr config\<close> ids delivered Inl s True] assms ids
            show ?thesis by (auto simp add: dispatched_def)
          next
            case False
            from monitor_delivered_failure(4) [where fn = fn and args = args,
                OF \<open>getConfig e = Inr config\<close> ids delivered Inl s False] assms ids
            show ?thesis by (auto simp add: dispatched_def)
          qed
        qed
      qed
    qed
  qed
qed

lemma envs_simps [simp]:
  "getConfig envUp = Inr exConfig" "getConfig envDown = Inr exConfig"
  "getConfig envDeny = Inr exConfig" "getConfig envNoMonitoring = Inr exConfig"
  "sendToAPI envUp p k n = (if k = control then Inr exAllow else Inr exAccepted)"
  "sendToAPI envDown p k n = Inl ''network error''"
  "sendToAPI envDeny p k n = (if k = control then Inr exDeny else Inr exAccepted)"
  "sendToAPI envNoMonitoring p k n = (if k = control then Inr exAllow else Inl ''network error'')"
  by (simp_all add: envUp_def envDown_def envDeny_def envNoMonitoring_def)

lemma envs_ToString [simp]:
  "ToString envUp (JStr s) = Inr s" "ToString envUp (JNum n) = Inr ''value''"
  "ToString envDown v = ToString envUp v" "ToString envDeny v = ToString envUp v"
  "ToString envNoMonitoring v = ToString envUp v"
  by (simp_all add: envUp_def envDown_def envDeny_def envNoMonitoring_def)

lemma interpolate_Thrown_simps [simp]:
  "interpolate e (Thrown (JStr s)) = ToString e (JStr s)"
  "interpolate e (Thrown (JNum n)) = ToString e (JNum n)"
  by (simp_all add: interpolate_def stringOf_def)

lemma exOptions_ids [simp]:
  "identifiersOf e exOptions args = Inr \<lparr> id_chatId = ''123'', id_email = ''anonymous@olakai.ai'' \<rparr>"
  "identifiersOf e exSilent args = Inr \<lparr> id_chatId = ''123'', id_email = ''anonymous@olakai.ai'' \<rparr>"
  "identifiersOf e exEmptyIds args = Inr \<lparr> id_chatId = ''123'', id_email = ''anonymous@olakai.ai'' \<rparr>"
  "identifiersOf envUp exThrowingIds args = Inr \<lparr> id_chatId = ''123'', id_email = ''anonymous@olakai.ai'' \<rparr>"
  "identifiersOf e exSymbolIds args = Inl symbolToString"
  by (simp_all add: identifiersOf_def resolveIdentifiers_def exOptions_def exSilent_def exEmptyIds_def
        exThrowingIds_def exSymbolIds_def str_or_def Let_def)

text \<open>
  What \<^verbatim>\<open>resolveIdentifiers\<close> attempts, and achieves for the thrown values its log line can
  convert: when the \<^verbatim>\<open>chatId\<close> resolver throws, the identifier falls back to \<^verbatim>\<open>"123"\<close> (a
  throwing \<^verbatim>\<open>email\<close> resolver to \<^verbatim>\<open>"anonymous@olakai.ai"\<close>), both dispatched payloads carry it
  and the call resolves with the callable's result.
\<close>

lemma printable_resolver_error_falls_back:
  assumes "getConfig e = Inr config"
      and "fst (resolveIdentifiers e options args w) = Inr ids"
      and "sendToAPI e (controlRequest e options args ids) control (length (sent w)) = Inr resp"
      and "fn args = Inr result"
  shows "(chatId options = Some (Resolver f) \<and> f args = Inl x \<longrightarrow>
            id_chatId ids = ''123'' \<and>
            fst (monitor e options fn args w) = Resolved result \<and>
            map (payload_chatId \<circ> fst) (dispatched w (snd (monitor e options fn args w)))
              = [Some ''123'', Some ''123'']) \<and>
         (email options = Some (Resolver g) \<and> g args = Inl y \<longrightarrow>
            id_email ids = ''anonymous@olakai.ai'' \<and>
            fst (monitor e options fn args w) = Resolved result \<and>
            map (payload_email \<circ> fst) (dispatched w (snd (monitor e options fn args w)))
              = [Some ''anonymous@olakai.ai'', Some ''anonymous@olakai.ai''])"
proof -
  from assms(2) have ids: "identifiersOf e options args = Inr ids" by simp
  from monitor_delivered_success(3) [where fn = fn and args = args, OF assms(1) ids assms(3,4)]
  obtain mp where mp:
    "sent (snd (monitor e options fn args w)) =
       sent w @ [(controlRequest e options args ids, control), (MonPayload mp, monitoring)]"
    "mp_chatId mp = Some (id_chatId ids)"
    "mp_email mp = Some (id_email ids)"
    by auto
  have res: "fst (monitor e options fn args w) = Resolved result"
    by (rule monitor_delivered_success(1) [where fn = fn and args = args, OF assms(1) ids assms(3,4)])
  show ?thesis
    by (simp add: res mp dispatched_def identifiersOf_chatId [OF ids] identifiersOf_email [OF ids])
qed

lemma printable_resolver_error_falls_back_example:
  "fst (monitor envUp exThrowingIds exFnOk [JStr ''hello''] world0) = Resolved (JStr ''done'') \<and>
   map (payload_chatId \<circ> fst)
     (dispatched world0 (snd (monitor envUp exThrowingIds exFnOk [JStr ''hello''] world0)))
     = [Some ''123'', Some ''123''] \<and>
   map (payload_email \<circ> fst)
     (dispatched world0 (snd (monitor envUp exThrowingIds exFnOk [JStr ''hello''] world0)))
     = [Some ''anonymous@olakai.ai'', Some ''anonymous@olakai.ai'']"
proof -
  let ?ids = "\<lparr> id_chatId = ''123'', id_email = ''anonymous@olakai.ai'' \<rparr>"
  have cfg: "getConfig envUp = Inr exConfig" by simp
  have ids: "fst (resolveIdentifiers envUp exThrowingIds [JStr ''hello''] world0) = Inr ?ids" by simp
  have ctl: "sendToAPI envUp (controlRequest envUp exThrowingIds [JStr ''hello''] ?ids) control (length (sent world0))
               = Inr exAllow"
    by simp
  have ok: "exFnOk [JStr ''hello''] = Inr (JStr ''done'')" by (simp add: exFnOk_def)
  have c: "chatId exThrowingIds = Some (Resolver (\<lambda>args. Inl (Error ''no chat'')))"
    and m: "email exThrowingIds = Some (Resolver (\<lambda>args. Inl (Thrown (JStr ''no user''))))"
    by (simp_all add: exThrowingIds_def)
  from printable_resolver_error_falls_back [where fn = exFnOk and args = "[JStr ''hello'']", OF cfg ids ctl ok,
      of "\<lambda>args. Inl (Error ''no chat'')" "Error ''no chat''"
         "\<lambda>args. Inl (Thrown (JStr ''no user''))" "Thrown (JStr ''no user'')"] c m
  show ?thesis by simp
qed

text \<open>
  C8 fails on the code. The \<^verbatim>\<open>chatId\<close> option is
  \<^verbatim>\<open>(args) => { throw Symbol("no chat") }\<close>, the SDK is configured and the delivery client
  delivers every request. The \<^verbatim>\<open>catch\<close> block of \<^verbatim>\<open>resolveIdentifiers\<close> throws a
  \<^verbatim>\<open>TypeError\<close> while it composes its log line, so \<^verbatim>\<open>resolveIdentifiers\<close> throws instead of
  falling back to \<^verbatim>\<open>"123"\<close>; the monitored call rejects with that \<^verbatim>\<open>TypeError\<close>, the callable
  is never run and no payload is dispatched.
\<close>

theorem symbol_thrown_by_resolver_aborts_call:
  "fst (resolveIdentifiers envUp exSymbolIds [JStr ''hello''] world0) =
     Inl (TypeError ''Cannot convert a Symbol value to a string'') \<and>
   fst (monitor envUp exSymbolIds exFnOk [JStr ''hello''] world0) =
     Rejected (TypeError ''Cannot convert a Symbol value to a string'') \<and>
   invoked (snd (monitor envUp exSymbolIds exFnOk [JStr ''hello''] world0)) = [] \<and>
   dispatched world0 (snd (monitor envUp exSymbolIds exFnOk [JStr ''hello''] world0)) = [] \<and>
   exFnOk [JStr ''hello''] = Inr (JStr ''done'')"
proof -
  have cfg: "getConfig envUp = Inr exConfig" by simp
  have ids: "identifiersOf envUp exSymbolIds [JStr ''hello''] = Inl symbolToString" by simp
  from monitor_unresolved [OF cfg ids, of exFnOk world0]
  show ?thesis by (simp add: dispatched_def symbolToString_def exFnOk_def)
qed

text \<open>
  C10: a static \<^verbatim>\<open>chatId\<close> or \<^verbatim>\<open>email\<close> that is the empty string is falsy, so the
  identifier resolves to the default and every payload the invocation dispatches carries
  \<^verbatim>\<open>"123"\<close>, respectively \<^verbatim>\<open>"anonymous@olakai.ai"\<close>, not the empty string.
\<close>

theorem empty_static_identifier_defaults:
  "(chatId options = Some (Static []) \<longrightarrow>
      (\<forall>ids. fst (resolveIdentifiers e options args w) = Inr ids \<longrightarrow> id_chatId ids = ''123'') \<and>
      (\<forall>p \<in> set (dispatched w (snd (monitor e options fn args w))). payload_chatId (fst p) = Some ''123'')) \<and>
   (email options = Some (Static []) \<longrightarrow>
      (\<forall>ids. fst (resolveIdentifiers e options args w) = Inr ids \<longrightarrow> id_email ids = ''anonymous@olakai.ai'') \<and>
      (\<forall>p \<in> set (dispatched w (snd (monitor e options fn args w))).
         payload_email (fst p) = Some ''anonymous@olakai.ai''))"
proof (intro conjI impI allI ballI)
  fix ids assume "chatId options = Some (Static [])" "fst (resolveIdentifiers e options args w) = Inr ids"
  then show "id_chatId ids = ''123''" by (simp add: identifiersOf_chatId)
next
  fix p assume c: "chatId options = Some (Static [])"
    and p: "p \<in> set (dispatched w (snd (monitor e options fn args w)))"
  from monitor_dispatched_ids [OF p] c show "payload_chatId (fst p) = Some ''123''"
    by (auto simp add: identifiersOf_chatId)
next
  fix ids assume "email options = Some (Static [])" "fst (resolveIdentifiers e options args w) = Inr ids"
  then show "id_email ids = ''anonymous@olakai.ai''" by (simp add: identifiersOf_email)
next
  fix p assume c: "email options = Some (Static [])"
    and p: "p \<in> set (dispatched w (snd (monitor e options fn args w)))"
  from monitor_dispatched_ids [OF p] c show "payload_email (fst p) = Some ''anonymous@olakai.ai''"
    by (auto simp add: identifiersOf_email)
qed

theorem empty_static_identifier_defaults_witness:
  "fst (resolveIdentifiers envUp exEmptyIds [JStr ''hello''] world0) =
     Inr \<lparr> id_chatId = ''123'', id_email = ''anonymous@olakai.ai'' \<rparr> \<and>
   map (payload_chatId \<circ> fst)
     (dispatched world0 (snd (monitor envUp exEmptyIds exFnOk [JStr ''hello''] world0)))
     = [Some ''123'', Some ''123''] \<and>
   map (payload_email \<circ> fst)
     (dispatched world0 (snd (monitor envUp exEmptyIds exFnOk [JStr ''hello''] world0)))
     = [Some ''anonymous@olakai.ai'', Some ''anonymous@olakai.ai'']"
proof -
  let ?fn = "exFnOk"
  let ?ids = "\<lparr> id_chatId = ''123'', id_email = ''anonymous@olakai.ai'' \<rparr>"
  let ?d = "dispatched world0 (snd (monitor envUp exEmptyIds ?fn [JStr ''hello''] world0))"
  have c: "chatId exEmptyIds = Some (Static [])" and m: "email exEmptyIds = Some (Static [])"
    by (simp_all add: exEmptyIds_def)
  have cfg: "getConfig envUp = Inr exConfig" by simp
  have ids: "identifiersOf envUp exEmptyIds [JStr ''hello''] = Inr ?ids" by simp
  have ctl: "sendToAPI envUp (controlRequest envUp exEmptyIds [JStr ''hello''] ?ids) control (length (sent world0))
               = Inr exAllow"
    by simp
  have ok: "?fn [JStr ''hello''] = Inr (JStr ''done'')" by (simp add: exFnOk_def)
  from monitor_delivered_success(3) [where fn = ?fn and args = "[JStr ''hello'']", OF cfg ids ctl ok]
  obtain mp where d: "?d = [(controlRequest envUp exEmptyIds [JStr ''hello''] ?ids, control), (MonPayload mp, monitoring)]"
    by (auto simp add: dispatched_def)
  from empty_static_identifier_defaults [of exEmptyIds envUp "[JStr ''hello'']" world0 ?fn] c m
  have all: "\<forall>p \<in> set ?d. payload_chatId (fst p) = Some ''123'' \<and> payload_email (fst p) = Some ''anonymous@olakai.ai''"
    by simp
  then show ?thesis unfolding d by simp
qed

section \<open>Properties of the SDK class and the client wrappers\<close>

lemma sendMonitoring_resolves [simp]:
  "fst (sendMonitoring e sdk prompt response metadata cfg blocked errMsg w) = Resolved ()"
  by (simp add: sendMonitoring_def send_outcome Let_def case_prod_beta split: sum.splits)

lemma sendMonitoring_fields [simp]:
  "invoked (snd (sendMonitoring e sdk prompt response metadata cfg blocked errMsg w)) = invoked w"
  "clock (snd (sendMonitoring e sdk prompt response metadata cfg blocked errMsg w)) = clock w"
  "llmCalls (snd (sendMonitoring e sdk prompt response metadata cfg blocked errMsg w)) = llmCalls w"
  "llmErrors (snd (sendMonitoring e sdk prompt response metadata cfg blocked errMsg w)) = llmErrors w"
  by (simp_all add: sendMonitoring_def send_outcome Let_def case_prod_beta split: sum.splits)

lemma sendMonitoring_sent:
  "\<exists>mp. sent (snd (sendMonitoring e sdk prompt response metadata cfg blocked errMsg w)) =
           sent w @ [(MonPayload mp, monitoring)]
       \<and> mp_blocked mp = Some blocked \<and> mp_errorMessage mp = errMsg
       \<and> mp_response mp = toJsonValue e (JStr response) None
       \<and> mp_sensitivity mp = None \<and> mp_llmMetadata mp = Some metadata"
  by (simp add: sendMonitoring_def send_outcome Let_def case_prod_beta emptyMonitorPayload_def split: sum.splits)

lemma checkControlAPI_catch_fields [simp]:
  "sent (snd (checkControlAPI_catch e x w)) = sent w"
  "invoked (snd (checkControlAPI_catch e x w)) = invoked w"
  "clock (snd (checkControlAPI_catch e x w)) = clock w"
  "llmCalls (snd (checkControlAPI_catch e x w)) = llmCalls w"
  "llmErrors (snd (checkControlAPI_catch e x w)) = llmErrors w"
  by (simp_all add: checkControlAPI_catch_def split: exn.splits sum.splits)

lemma handleLLMCall_catch_fields [simp]:
  "sent (snd (handleLLMCall_catch e x w)) = sent w"
  "invoked (snd (handleLLMCall_catch e x w)) = invoked w"
  "clock (snd (handleLLMCall_catch e x w)) = clock w"
  "llmCalls (snd (handleLLMCall_catch e x w)) = llmCalls w"
  "llmErrors (snd (handleLLMCall_catch e x w)) = llmErrors w"
  by (simp_all add: handleLLMCall_catch_def split: exn.splits sum.splits)

lemma handleLLMError_catch_fields [simp]:
  "sent (snd (handleLLMError_catch e x w)) = sent w"
  "invoked (snd (handleLLMError_catch e x w)) = invoked w"
  "clock (snd (handleLLMError_catch e x w)) = clock w"
  "llmCalls (snd (handleLLMError_catch e x w)) = llmCalls w"
  "llmErrors (snd (handleLLMError_catch e x w)) = llmErrors w"
  by (simp_all add: handleLLMError_catch_def split: sum.splits)

lemma checkControlAPI_fields [simp]:
  "invoked (snd (checkControlAPI e sdk prompt metadata cfg w)) = invoked w"
  "clock (snd (checkControlAPI e sdk prompt metadata cfg w)) = clock w"
  "llmCalls (snd (checkControlAPI e sdk prompt metadata cfg w)) = llmCalls w"
  "llmErrors (snd (checkControlAPI e sdk prompt metadata cfg w)) = llmErrors w"
  by (simp_all add: checkControlAPI_def Let_def case_prod_beta
        split: sum.splits api_response.splits outcome.splits)

lemma handleLLMCall_fields [simp]:
  "invoked (snd (handleLLMCall e sdk prompt response metadata cfg w)) = invoked w"
  "clock (snd (handleLLMCall e sdk prompt response metadata cfg w)) = clock w"
  "llmCalls (snd (handleLLMCall e sdk prompt response metadata cfg w)) = llmCalls w"
  "llmErrors (snd (handleLLMCall e sdk prompt response metadata cfg w)) = llmErrors w"
  by (simp_all add: handleLLMCall_def Let_def case_prod_beta split: outcome.splits)

lemma handleLLMError_fields [simp]:
  "invoked (snd (handleLLMError e sdk prompt err metadata cfg w)) = invoked w"
  "clock (snd (handleLLMError e sdk prompt err metadata cfg w)) = clock w"
  "llmCalls (snd (handleLLMError e sdk prompt err metadata cfg w)) = llmCalls w"
  "llmErrors (snd (handleLLMError e sdk prompt err metadata cfg w)) = llmErrors w"
  by (simp_all add: handleLLMError_def Let_def case_prod_beta split: outcome.splits sum.splits)

lemma handleLLMError_sent:
  assumes "interpolate e err = Inr s"
  shows "\<exists>mp. sent (snd (handleLLMError e sdk prompt err metadata cfg w)) = sent w @ [(MonPayload mp, monitoring)]
       \<and> mp_blocked mp = Some False \<and> mp_errorMessage mp \<noteq> None"
proof -
  let ?m = "if truthy (messageOf err) then messageOf err else JStr s"
  from sendMonitoring_sent [of e sdk prompt "[]" metadata cfg False "Some ?m" w]
  show ?thesis
    by (auto simp add: handleLLMError_def stringOf_interpolate [OF assms] Let_def case_prod_beta
          split: outcome.splits)
qed

lemma onLLMCall_calls:
  "llmCalls (onLLMCall e pv prompt response metadata w) =
     llmCalls w @ (case pv_sdk pv of None \<Rightarrow> [] | Some sdk \<Rightarrow> [(prompt, response, metadata)])"
  "invoked (onLLMCall e pv prompt response metadata w) = invoked w"
  by (simp_all add: onLLMCall_def split: option.splits)

lemma onLLMError_fields:
  "invoked (onLLMError e pv prompt err metadata w) = invoked w"
  "llmCalls (onLLMError e pv prompt err metadata w) = llmCalls w"
  by (simp_all add: onLLMError_def split: option.splits)

lemma checkControlAPI_delivery_failure:
  assumes "\<And>p. \<exists>x. sendToAPI e p control (length (sent w)) = Inl x"
  shows "fst (checkControlAPI e sdk prompt metadata cfg w) = Resolved ()"
    and "\<exists>cp. sent (snd (checkControlAPI e sdk prompt metadata cfg w)) = sent w @ [(CtlPayload cp, control)]"
    and "logged (snd (checkControlAPI e sdk prompt metadata cfg w)) =
           logged w @ [(warn, ''Control API error (allowing execution)'')]"
proof -
  let ?cp = "\<lparr> cp_prompt = toJsonValue e prompt None, cp_email = ctx userEmail cfg,
               cp_chatId = Some (sessionId sdk), cp_task = ctx dc_task cfg,
               cp_subTask = ctx dc_subTask cfg,
               cp_tokens = (case md_tokens metadata of None \<Rightarrow> None | Some t \<Rightarrow> tk_total t),
               cp_overrideControlCriteria = None \<rparr>"
  from assms obtain x where x: "sendToAPI e (CtlPayload ?cp) control (length (sent w)) = Inl x" by blast
  show "fst (checkControlAPI e sdk prompt metadata cfg w) = Resolved ()"
    by (simp add: checkControlAPI_def checkControlAPI_catch_def send_outcome x Let_def case_prod_beta)
  show "\<exists>cp. sent (snd (checkControlAPI e sdk prompt metadata cfg w)) = sent w @ [(CtlPayload cp, control)]"
    by (simp add: checkControlAPI_def send_outcome x Let_def case_prod_beta)
  show "logged (snd (checkControlAPI e sdk prompt metadata cfg w)) =
           logged w @ [(warn, ''Control API error (allowing execution)'')]"
    by (simp add: checkControlAPI_def checkControlAPI_catch_def send_outcome x Let_def case_prod_beta)
qed

lemma checkControlAPI_denied:
  assumes "\<And>p. sendToAPI e p control (length (sent w)) = Inr (ControlResponse r)" and "\<not> allowed r"
  shows "fst (checkControlAPI e sdk prompt metadata cfg w) = Rejected (OlakaiBlockedError llmBlockedMessage (details r))"
    and "\<exists>cp mp. sent (snd (checkControlAPI e sdk prompt metadata cfg w)) =
            sent w @ [(CtlPayload cp, control), (MonPayload mp, monitoring)]
          \<and> mp_blocked mp = Some True \<and> mp_sensitivity mp = None"
proof -
  show "fst (checkControlAPI e sdk prompt metadata cfg w) = Rejected (OlakaiBlockedError llmBlockedMessage (details r))"
    using assms
    by (simp add: checkControlAPI_def checkControlAPI_catch_def send_outcome Let_def case_prod_beta
          split: outcome.splits)
  let ?cp = "\<lparr> cp_prompt = toJsonValue e prompt None, cp_email = ctx userEmail cfg,
               cp_chatId = Some (sessionId sdk), cp_task = ctx dc_task cfg,
               cp_subTask = ctx dc_subTask cfg,
               cp_tokens = (case md_tokens metadata of None \<Rightarrow> None | Some t \<Rightarrow> tk_total t),
               cp_overrideControlCriteria = None \<rparr>"
  from sendMonitoring_sent [of e sdk prompt "[]" metadata cfg True None "snd (send e (CtlPayload ?cp) control w)"]
  show "\<exists>cp mp. sent (snd (checkControlAPI e sdk prompt metadata cfg w)) =
            sent w @ [(CtlPayload cp, control), (MonPayload mp, monitoring)]
          \<and> mp_blocked mp = Some True \<and> mp_sensitivity mp = None"
    using assms
    by (auto simp add: checkControlAPI_def send_outcome Let_def case_prod_beta split: outcome.splits)
qed

lemma openai_wrapCreateMethod_outcome:
  "fst (openai_wrapCreateMethod e pv originalMethod client arg w) =
     (case originalMethod arg of
        Inr response \<Rightarrow> Resolved response
      | Inl x \<Rightarrow> (case interpolate e x of Inl t \<Rightarrow> Rejected t | Inr s \<Rightarrow> Rejected x))"
  by (simp add: openai_wrapCreateMethod_def Let_def case_prod_beta split: sum.splits)

text \<open>
  C1, as the code has it: when the delivery of the control request fails, a function
  wrapped by \<^verbatim>\<open>monitor\<close> is not executed and the call rejects, with
  \<^verbatim>\<open>OlakaiBlockedError\<close> once the control request was dispatched, and the failure is logged;
  the control check of the LLM client wrappers (\<^verbatim>\<open>OlakaiSDK.checkControlAPI\<close>, and
  \<^verbatim>\<open>handleLLMCall\<close> around it) logs the failure as a warning and resolves, so that
  execution is allowed.
\<close>

theorem control_delivery_failure_blocks_monitored_function:
  assumes "getConfig e = Inr config"
      and "\<And>p. \<exists>x. sendToAPI e p control (length (sent w)) = Inl x"
  shows "invoked (snd (monitor e options fn args w)) = invoked w \<and>
         (\<exists>x. fst (monitor e options fn args w) = Rejected x) \<and>
         (dispatched w (snd (monitor e options fn args w)) \<noteq> [] \<longrightarrow>
            fst (monitor e options fn args w) =
              Rejected (OlakaiBlockedError blockedMessage \<lparr> detectedSensitivity = [], isAllowedPersona = False \<rparr>) \<and>
            (error, ''Control call failed, disallowing execution'') \<in>
              set (logged (snd (monitor e options fn args w)))) \<and>
         fst (checkControlAPI e sdk prompt metadata cfg w) = Resolved () \<and>
         (warn, ''Control API error (allowing execution)'') \<in>
           set (logged (snd (checkControlAPI e sdk prompt metadata cfg w))) \<and>
         fst (handleLLMCall e sdk prompt response metadata cfg w) = Resolved ()"
proof -
  have c: "fst (checkControlAPI e sdk prompt metadata cfg w) = Resolved ()"
    by (rule checkControlAPI_delivery_failure(1) [OF assms(2)])
  have l: "(warn, ''Control API error (allowing execution)'') \<in>
             set (logged (snd (checkControlAPI e sdk prompt metadata cfg w)))"
    by (simp add: checkControlAPI_delivery_failure(3) [OF assms(2)])
  have h: "fst (handleLLMCall e sdk prompt response metadata cfg w) = Resolved ()"
    using c sendMonitoring_resolves
    by (cases "checkControlAPI e sdk prompt metadata cfg w")
       (simp add: handleLLMCall_def Let_def case_prod_beta split: outcome.splits)
  have m: "invoked (snd (monitor e options fn args w)) = invoked w \<and>
         (\<exists>x. fst (monitor e options fn args w) = Rejected x) \<and>
         (dispatched w (snd (monitor e options fn args w)) \<noteq> [] \<longrightarrow>
            fst (monitor e options fn args w) =
              Rejected (OlakaiBlockedError blockedMessage \<lparr> detectedSensitivity = [], isAllowedPersona = False \<rparr>) \<and>
            (error, ''Control call failed, disallowing execution'') \<in>
              set (logged (snd (monitor e options fn args w))))"
  proof (cases "identifiersOf e options args")
    case (Inl t)
    from monitor_unresolved [OF assms(1) Inl, of fn w] show ?thesis
      by (simp add: dispatched_def)
  next
    case (Inr ids)
    from assms(2) obtain x where x: "sendToAPI e (controlRequest e options args ids) control (length (sent w)) = Inl x"
      by blast
    from monitor_control_failed(1,2) [OF assms(1) Inr x, of fn]
      monitor_control_failed_logs [OF assms(1) Inr x, of fn]
    show ?thesis by simp
  qed
  from m c l h show ?thesis by simp
qed

theorem control_delivery_failure_blocks_monitored_function_witness:
  "dispatched world0 (snd (monitor envDown exOptions exFnOk [JStr ''hello''] world0)) \<noteq> [] \<and>
   fst (monitor envDown exOptions exFnOk [JStr ''hello''] world0) =
     Rejected (OlakaiBlockedError blockedMessage \<lparr> detectedSensitivity = [], isAllowedPersona = False \<rparr>) \<and>
   invoked (snd (monitor envDown exOptions exFnOk [JStr ''hello''] world0)) = [] \<and>
   fst (checkControlAPI envDown exSdk (JStr ''hello'') exMetadata exWrapperConfig world0) = Resolved ()"
proof -
  have a: "getConfig envDown = Inr exConfig" by simp
  have b: "\<And>p. \<exists>x. sendToAPI envDown p control (length (sent world0)) = Inl x" by simp
  have d: "dispatched world0 (snd (monitor envDown exOptions exFnOk [JStr ''hello''] world0)) \<noteq> []"
    by (simp add: monitor_dispatches_iff [OF a])
  from control_delivery_failure_blocks_monitored_function [OF a b, of exOptions exFnOk "[JStr ''hello'']"
         exSdk "JStr ''hello''" exMetadata exWrapperConfig] d
  show ?thesis by simp
qed

lemma openai_extractApiKey_fields [simp]:
  "sent (snd (openai_extractApiKey client w)) = sent w"
  "invoked (snd (openai_extractApiKey client w)) = invoked w"
  "llmCalls (snd (openai_extractApiKey client w)) = llmCalls w"
  "llmErrors (snd (openai_extractApiKey client w)) = llmErrors w"
  by (simp_all add: openai_extractApiKey_def)

lemma openai_wrapCreateMethod_success:
  assumes "originalMethod arg = Inr response"
  shows "\<exists>w' p t md. sent w' = sent w \<and>
           snd (openai_wrapCreateMethod e pv originalMethod client arg w) = onLLMCall e pv p t md w'"
  using assms
  by (intro exI [where x = "snd (openai_extractApiKey client (w\<lparr>clock := Suc (clock w)\<rparr>))
                              \<lparr>clock := Suc (clock (snd (openai_extractApiKey client (w\<lparr>clock := Suc (clock w)\<rparr>))))\<rparr>"]
            exI [where x = "JStr (openai_extractPrompt (nullish arg emptyOpenAIRequest))"]
            exI [where x = "openai_extractResponse response"])
     (auto simp add: openai_wrapCreateMethod_def date_now_def Let_def case_prod_beta)

lemma openai_wrapCreateMethod_failure:
  assumes "originalMethod arg = Inl x" and "interpolate e x = Inr s"
  shows "\<exists>w' p md. sent w' = sent w \<and>
           snd (openai_wrapCreateMethod e pv originalMethod client arg w) = onLLMError e pv p x md w'"
  using assms
  by (intro exI [where x = "olakaiLogger ''[OpenAI Wrapper] Error during call'' error
                              (snd (openai_extractApiKey client (w\<lparr>clock := Suc (clock w)\<rparr>))
                               \<lparr>clock := Suc (clock (snd (openai_extractApiKey client (w\<lparr>clock := Suc (clock w)\<rparr>))))\<rparr>)"]
            exI [where x = "JStr (openai_extractPrompt (nullish arg emptyOpenAIRequest))"])
     (auto simp add: openai_wrapCreateMethod_def date_now_def Let_def case_prod_beta)

lemma openai_wrapCreateMethod_failure_unprintable:
  assumes "originalMethod arg = Inl x" and "interpolate e x = Inl t"
  shows "sent (snd (openai_wrapCreateMethod e pv originalMethod client arg w)) = sent w"
  using assms
  by (simp add: openai_wrapCreateMethod_def date_now_def Let_def case_prod_beta)

lemma dispatched_cong: "sent w' = sent w \<Longrightarrow> dispatched w' v = dispatched w v"
  by (simp add: dispatched_def)

lemma handleLLMCall_allows_on_delivery_failure:
  assumes "\<And>p. \<exists>x. sendToAPI e p control (length (sent w)) = Inl x"
      and "nullish (wc_enableControl cfg) (enableControl (sdk_config sdk))"
  shows "fst (handleLLMCall e sdk prompt response metadata cfg w) = Resolved ()"
    and "map snd (dispatched w (snd (handleLLMCall e sdk prompt response metadata cfg w))) = [control, monitoring]"
proof -
  have 2: "handleLLMCall e sdk prompt response metadata cfg w =
           sendMonitoring e sdk prompt response metadata cfg False None
             (snd (checkControlAPI e sdk prompt metadata cfg w))"
    using assms(2) checkControlAPI_delivery_failure(1) [OF assms(1), of sdk prompt metadata cfg]
    by (simp add: handleLLMCall_def Let_def case_prod_beta prod_eq_iff split: outcome.splits)
  from checkControlAPI_delivery_failure(2) [OF assms(1), of sdk prompt metadata cfg]
  obtain cp where cp: "sent (snd (checkControlAPI e sdk prompt metadata cfg w)) = sent w @ [(CtlPayload cp, control)]"
    by auto
  from sendMonitoring_sent [of e sdk prompt response metadata cfg False None
         "snd (checkControlAPI e sdk prompt metadata cfg w)"]
  obtain mp where mp: "sent (snd (handleLLMCall e sdk prompt response metadata cfg w))
      = sent w @ [(CtlPayload cp, control), (MonPayload mp, monitoring)]"
    by (auto simp add: 2 cp)
  show "fst (handleLLMCall e sdk prompt response metadata cfg w) = Resolved ()" by (simp add: 2)
  show "map snd (dispatched w (snd (handleLLMCall e sdk prompt response metadata cfg w))) = [control, monitoring]"
    by (simp add: dispatched_def mp)
qed

lemma exSdk_simps [simp]:
  "initialized exSdk" "enableControl (sdk_config exSdk)" "sessionId exSdk = ''session-1''"
  by (simp_all add: exSdk_def init_def newOlakaiSDK_def exSdkOptions_def nullish_def envUp_def Let_def)

text \<open>
  C1 as stated fails for a wrapped client: with control enabled and every request to the
  delivery client rejected, the wrapped \<^verbatim>\<open>create\<close> resolves with the provider's response,
  after a control request and a monitoring request were dispatched.
\<close>

theorem client_wrapper_allows_on_control_delivery_failure:
  "fst (openai_wrapCreateMethod envDown exProvider exCreate exClient (Some exRequest) world0) = Resolved exResponse \<and>
   map snd (dispatched world0 (snd (openai_wrapCreateMethod envDown exProvider exCreate exClient (Some exRequest) world0)))
     = [control, monitoring]"
proof -
  have 1: "fst (openai_wrapCreateMethod envDown exProvider exCreate exClient (Some exRequest) world0) = Resolved exResponse"
    by (simp add: openai_wrapCreateMethod_outcome exCreate_def)
  have cr: "exCreate (Some exRequest) = Inr exResponse" by (simp add: exCreate_def)
  from openai_wrapCreateMethod_success [where originalMethod = exCreate and arg = "Some exRequest", OF cr, of world0 envDown exProvider exClient]
  obtain w' p t md where w': "sent w' = sent world0"
    "snd (openai_wrapCreateMethod envDown exProvider exCreate exClient (Some exRequest) world0)
       = onLLMCall envDown exProvider p t md w'" by blast
  let ?w = "w'\<lparr>llmCalls := llmCalls w' @ [(p, t, md)]\<rparr>"
  have s: "sent ?w = sent world0" by (simp add: w')
  have f: "\<And>q. \<exists>x. sendToAPI envDown q control (length (sent ?w)) = Inl x" by simp
  have en: "nullish (wc_enableControl exWrapperConfig) (enableControl (sdk_config exSdk))"
    by (simp add: exWrapperConfig_def nullish_def)
  from handleLLMCall_allows_on_delivery_failure(2) [OF f en, of p t md]
  have "map snd (dispatched world0 (snd (handleLLMCall envDown exSdk p t md exWrapperConfig ?w))) = [control, monitoring]"
    by (simp add: dispatched_cong [OF s])
  moreover have "pv_sdk exProvider = Some exSdk" "pv_config exProvider = exWrapperConfig"
    by (simp_all add: exProvider_def)
  ultimately show ?thesis by (simp add: 1 w' onLLMCall_def)
qed

lemma monitor_executed_resolved:
  assumes "getConfig e = Inr config"
      and "invoked (snd (monitor e options fn args w)) = invoked w @ [args]"
  shows "\<exists>ids resp. identifiersOf e options args = Inr ids \<and>
           sendToAPI e (controlRequest e options args ids) control (length (sent w)) = Inr resp"
proof (cases "identifiersOf e options args")
  case (Inl t)
  from monitor_unresolved(2) [OF assms(1) Inl, of fn w] assms(2) show ?thesis by simp
next
  case (Inr ids)
  show ?thesis
  proof (cases "sendToAPI e (controlRequest e options args ids) control (length (sent w))")
    case (Inl m)
    from monitor_control_failed(2) [OF assms(1) \<open>identifiersOf e options args = Inr ids\<close> Inl, of fn] assms(2)
    show ?thesis by simp
  next
    case resp: (Inr resp)
    with Inr show ?thesis by simp
  qed
qed

lemma monitor_executed_outcome:
  assumes "invoked (snd (monitor e options fn args w)) = invoked w @ [args]"
  shows "fn args = Inr r \<Longrightarrow> fst (monitor e options fn args w) = Resolved r"
    and "fn args = Inl x \<Longrightarrow> interpolate e x = Inr s \<Longrightarrow> fst (monitor e options fn args w) = Rejected x"
proof -
  show "fst (monitor e options fn args w) = Resolved r" if r: "fn args = Inr r"
  proof (cases "getConfig e")
    case (Inl m)
    with r show ?thesis by (simp add: monitor_unconfigured)
  next
    case (Inr config)
    from monitor_executed_resolved [OF Inr assms] obtain ids resp
      where "identifiersOf e options args = Inr ids"
        "sendToAPI e (controlRequest e options args ids) control (length (sent w)) = Inr resp" by blast
    from monitor_delivered_success(1) [where fn = fn and args = args, OF Inr this r] show ?thesis .
  qed
  show "fst (monitor e options fn args w) = Rejected x" if x: "fn args = Inl x" and s: "interpolate e x = Inr s"
  proof (cases "getConfig e")
    case (Inl m)
    with x show ?thesis by (simp add: monitor_unconfigured)
  next
    case (Inr config)
    from monitor_executed_resolved [OF Inr assms] obtain ids resp
      where "identifiersOf e options args = Inr ids"
        "sendToAPI e (controlRequest e options args ids) control (length (sent w)) = Inr resp" by blast
    from monitor_delivered_failure(1) [where fn = fn and args = args, OF Inr this x s] show ?thesis .
  qed
qed

lemma makeMonitoringCall_logs:
  assumes "\<And>p. \<exists>x. sendToAPI e p monitoring (length (sent w)) = Inl x"
      and "identifiersOf e options args = Inr ids"
  shows "(error, ''Error during api call'') \<in> set (logged (snd (makeMonitoringCall e result pa args options sens config start w)))"
proof -
  let ?p = "fst (last (sent (snd (makeMonitoringCall e result pa args options sens config start w))))"
  from assms(1) obtain x where "sendToAPI e ?p monitoring (length (sent w)) = Inl x" by blast
  with assms(2) show ?thesis
    by (simp add: makeMonitoringCall_def send_def date_now_def Let_def case_prod_beta
          split: sum.splits split del: if_split cong: if_cong)
qed

lemma sendMonitoring_logs:
  assumes "\<And>p. \<exists>x. sendToAPI e p monitoring (length (sent w)) = Inl x"
  shows "(error, ''Failed to send monitoring data'') \<in>
           set (logged (snd (sendMonitoring e sdk prompt response metadata cfg blocked errMsg w)))"
proof -
  let ?p = "fst (last (sent (snd (sendMonitoring e sdk prompt response metadata cfg blocked errMsg w))))"
  from assms obtain x where "sendToAPI e ?p monitoring (length (sent w)) = Inl x" by blast
  then show ?thesis
    by (simp add: sendMonitoring_def send_def Let_def case_prod_beta
          split: sum.splits split del: if_split cong: if_cong)
qed

text \<open>
  C4: when the wrapped callable ran and succeeded, the caller receives its result whatever
  the delivery client does with the monitoring request; the reporting functions
  (\<^verbatim>\<open>makeMonitoringCall\<close>, called with the configuration \<^verbatim>\<open>monitor\<close> read, and
  \<^verbatim>\<open>sendMonitoring\<close>) resolve, and when the monitoring request fails they log the error
  instead of raising it. A wrapped client method likewise resolves with the provider's
  response.
\<close>

theorem reporting_failure_never_reaches_caller:
  assumes "fn args = Inr result"
      and "invoked (snd (monitor e options fn args w)) = invoked w @ [args]"
  shows "fst (monitor e options fn args w) = Resolved result \<and>
         (getConfig e = Inr config \<longrightarrow>
            fst (makeMonitoringCall e result pa args options sens config start w) = Resolved ()) \<and>
         fst (sendMonitoring e sdk prompt response metadata cfg blocked errMsg w) = Resolved () \<and>
         (originalMethod arg = Inr r \<longrightarrow>
            fst (openai_wrapCreateMethod e pv originalMethod client arg w) = Resolved r) \<and>
         ((\<forall>p. \<exists>x. sendToAPI e p monitoring (length (sent w)) = Inl x) \<longrightarrow>
            (getConfig e = Inr config \<longrightarrow>
               (error, ''Error during api call'') \<in>
                 set (logged (snd (makeMonitoringCall e result pa args options sens config start w)))) \<and>
            (error, ''Failed to send monitoring data'') \<in>
              set (logged (snd (sendMonitoring e sdk prompt response metadata cfg blocked errMsg w))))"
proof (intro conjI impI)
  show "fst (monitor e options fn args w) = Resolved result"
    by (rule monitor_executed_outcome(1) [OF assms(2) assms(1)])
next
  assume cfg: "getConfig e = Inr config"
  from monitor_executed_resolved [OF cfg assms(2)] obtain ids where "identifiersOf e options args = Inr ids"
    by blast
  then show "fst (makeMonitoringCall e result pa args options sens config start w) = Resolved ()"
    by (rule makeMonitoringCall_effect(2))
next
  show "fst (sendMonitoring e sdk prompt response metadata cfg blocked errMsg w) = Resolved ()" by simp
next
  assume "originalMethod arg = Inr r"
  then show "fst (openai_wrapCreateMethod e pv originalMethod client arg w) = Resolved r"
    by (simp add: openai_wrapCreateMethod_outcome)
next
  assume f: "\<forall>p. \<exists>x. sendToAPI e p monitoring (length (sent w)) = Inl x" and cfg: "getConfig e = Inr config"
  from monitor_executed_resolved [OF cfg assms(2)] obtain ids where ids: "identifiersOf e options args = Inr ids"
    by blast
  from f have "\<And>p. \<exists>x. sendToAPI e p monitoring (length (sent w)) = Inl x" by simp
  from makeMonitoringCall_logs [OF this ids]
  show "(error, ''Error during api call'') \<in>
          set (logged (snd (makeMonitoringCall e result pa args options sens config start w)))" .
next
  assume f: "\<forall>p. \<exists>x. sendToAPI e p monitoring (length (sent w)) = Inl x"
  then have "\<And>p. \<exists>x. sendToAPI e p monitoring (length (sent w)) = Inl x" by simp
  from sendMonitoring_logs [OF this]
  show "(error, ''Failed to send monitoring data'') \<in>
          set (logged (snd (sendMonitoring e sdk prompt response metadata cfg blocked errMsg w)))" .
qed

theorem reporting_failure_never_reaches_caller_witness:
  "fst (monitor envNoMonitoring exOptions exFnOk [JStr ''hello''] world0) = Resolved (JStr ''done'') \<and>
   map snd (dispatched world0 (snd (monitor envNoMonitoring exOptions exFnOk [JStr ''hello''] world0)))
     = [control, monitoring] \<and>
   fst (makeMonitoringCall envNoMonitoring (JStr ''done'') [JStr ''hello''] [JStr ''hello''] exOptions []
          exConfig 1000 world0) = Resolved () \<and>
   (error, ''Error during api call'') \<in>
     set (logged (snd (makeMonitoringCall envNoMonitoring (JStr ''done'') [JStr ''hello''] [JStr ''hello'']
                         exOptions [] exConfig 1000 world0))) \<and>
   fst (openai_wrapCreateMethod envNoMonitoring exProvider exCreate exClient (Some exRequest) world0)
     = Resolved exResponse"
proof -
  let ?ids = "\<lparr> id_chatId = ''123'', id_email = ''anonymous@olakai.ai'' \<rparr>"
  have cfg: "getConfig envNoMonitoring = Inr exConfig" by simp
  have ids: "identifiersOf envNoMonitoring exOptions [JStr ''hello''] = Inr ?ids" by simp
  have ctl: "sendToAPI envNoMonitoring (controlRequest envNoMonitoring exOptions [JStr ''hello''] ?ids) control
               (length (sent world0)) = Inr exAllow" by simp
  have ok: "exFnOk [JStr ''hello''] = Inr (JStr ''done'')" by (simp add: exFnOk_def)
  have cr: "exCreate (Some exRequest) = Inr exResponse" by (simp add: exCreate_def)
  have f: "\<forall>p. \<exists>x. sendToAPI envNoMonitoring p monitoring (length (sent world0)) = Inl x" by simp
  note ex = monitor_delivered_success(2,3) [where fn = exFnOk and args = "[JStr ''hello'']", OF cfg ids ctl ok]
  from ex(2) obtain mp where mp:
    "sent (snd (monitor envNoMonitoring exOptions exFnOk [JStr ''hello''] world0)) =
       sent world0 @ [(controlRequest envNoMonitoring exOptions [JStr ''hello''] ?ids, control), (MonPayload mp, monitoring)]"
    by auto
  from reporting_failure_never_reaches_caller [where fn = exFnOk and args = "[JStr ''hello'']"
         and originalMethod = exCreate and arg = "Some exRequest" and config = exConfig
         and pa = "[JStr ''hello'']" and sens = "[]" and start = 1000 and sdk = exSdk
         and prompt = "JStr ''hello''" and response = "''hi''" and metadata = exMetadata
         and cfg = exWrapperConfig and blocked = False and errMsg = None and r = exResponse
         and pv = exProvider and client = exClient, OF ok ex(1)] cr cfg f
  show ?thesis by (simp add: dispatched_def mp)
qed

lemma onLLMError_sent:
  assumes "pv_sdk pv = Some sdk" and "interpolate e x = Inr s"
  shows "\<exists>mp. sent (onLLMError e pv prompt x metadata w) = sent w @ [(MonPayload mp, monitoring)]
            \<and> mp_blocked mp = Some False \<and> mp_errorMessage mp \<noteq> None"
  using assms(1) handleLLMError_sent [OF assms(2), of sdk prompt metadata "pv_config pv"
          "w\<lparr>llmErrors := llmErrors w @ [(prompt, x, metadata)]\<rparr>"]
  by (simp add: onLLMError_def)

text \<open>
  C3, as the code has it, for the thrown values \<^verbatim>\<open>${error}\<close> converts to a string (every
  value but a Symbol and a value whose own conversion throws): when the wrapped callable
  ran and raised \<open>x\<close>, the wrapper rejects with exactly \<open>x\<close>. The error report is dispatched
  before that when the SDK is configured and \<^verbatim>\<open>onMonitoredFunctionError\<close> is not \<^verbatim>\<open>false\<close>;
  a wrapped client method rejects with the provider's error and, with the SDK's callbacks
  installed, dispatches the error report.
\<close>

theorem callable_error_passes_through:
  assumes "fn args = Inl x"
      and "invoked (snd (monitor e options fn args w)) = invoked w @ [args]"
      and "interpolate e x = Inr s"
  shows "fst (monitor e options fn args w) = Rejected x \<and>
         ((\<exists>config. getConfig e = Inr config) \<and> onMonitoredFunctionError options \<noteq> Some False \<longrightarrow>
            (\<exists>ids mp. fst (resolveIdentifiers e options args w) = Inr ids \<and>
                 dispatched w (snd (monitor e options fn args w)) =
                     [(controlRequest e options args ids, control), (MonPayload mp, monitoring)]
                 \<and> mp_errorMessage mp \<noteq> None)) \<and>
         (originalMethod arg = Inl y \<and> interpolate e y = Inr t \<longrightarrow>
            fst (openai_wrapCreateMethod e pv originalMethod client arg w) = Rejected y \<and>
            (pv_sdk pv \<noteq> None \<longrightarrow>
               (\<exists>mp. dispatched w (snd (openai_wrapCreateMethod e pv originalMethod client arg w)) =
                        [(MonPayload mp, monitoring)]
                    \<and> mp_errorMessage mp \<noteq> None)))"
proof (intro conjI impI)
  show "fst (monitor e options fn args w) = Rejected x"
    by (rule monitor_executed_outcome(2) [OF assms(2) assms(1) assms(3)])
next
  assume h: "(\<exists>config. getConfig e = Inr config) \<and> onMonitoredFunctionError options \<noteq> Some False"
  then obtain config where cfg: "getConfig e = Inr config" by blast
  from monitor_executed_resolved [OF cfg assms(2)] obtain ids resp
    where ids: "identifiersOf e options args = Inr ids"
      and resp: "sendToAPI e (controlRequest e options args ids) control (length (sent w)) = Inr resp" by blast
  from monitor_delivered_failure(4) [where fn = fn and args = args, OF cfg ids resp assms(1) assms(3)] h ids
  show "\<exists>ids mp. fst (resolveIdentifiers e options args w) = Inr ids \<and>
                 dispatched w (snd (monitor e options fn args w)) =
                     [(controlRequest e options args ids, control), (MonPayload mp, monitoring)]
                 \<and> mp_errorMessage mp \<noteq> None"
    by (auto simp add: dispatched_def)
next
  assume "originalMethod arg = Inl y \<and> interpolate e y = Inr t"
  then show "fst (openai_wrapCreateMethod e pv originalMethod client arg w) = Rejected y"
    by (simp add: openai_wrapCreateMethod_outcome)
next
  assume y: "originalMethod arg = Inl y \<and> interpolate e y = Inr t" and "pv_sdk pv \<noteq> None"
  then obtain sdk where sdk: "pv_sdk pv = Some sdk" by blast
  from y have y1: "originalMethod arg = Inl y" and y2: "interpolate e y = Inr t" by simp_all
  from openai_wrapCreateMethod_failure [where originalMethod = originalMethod and arg = arg, OF y1 y2, of w pv client]
  obtain w' p md where w': "sent w' = sent w"
    "snd (openai_wrapCreateMethod e pv originalMethod client arg w) = onLLMError e pv p y md w'" by blast
  from onLLMError_sent [OF sdk y2, of p md w']
  show "\<exists>mp. dispatched w (snd (openai_wrapCreateMethod e pv originalMethod client arg w)) =
                [(MonPayload mp, monitoring)] \<and> mp_errorMessage mp \<noteq> None"
    by (auto simp add: w' dispatched_def)
qed

theorem callable_error_passes_through_witness:
  "interpolate envUp (Thrown (JNum 7)) = Inr ''value'' \<and>
   fst (monitor envUp exOptions exFnThrows [JStr ''hello''] world0) = Rejected (Thrown (JNum 7)) \<and>
   map snd (dispatched world0 (snd (monitor envUp exOptions exFnThrows [JStr ''hello''] world0)))
     = [control, monitoring] \<and>
   fst (openai_wrapCreateMethod envUp exProvider exCreateThrows exClient (Some exRequest) world0)
     = Rejected (Thrown (JStr ''rate limited'')) \<and>
   map snd (dispatched world0
              (snd (openai_wrapCreateMethod envUp exProvider exCreateThrows exClient (Some exRequest) world0)))
     = [monitoring]"
proof -
  let ?ids = "\<lparr> id_chatId = ''123'', id_email = ''anonymous@olakai.ai'' \<rparr>"
  have cfg: "getConfig envUp = Inr exConfig" by simp
  have ids: "identifiersOf envUp exOptions [JStr ''hello''] = Inr ?ids" by simp
  have ctl: "sendToAPI envUp (controlRequest envUp exOptions [JStr ''hello''] ?ids) control
               (length (sent world0)) = Inr exAllow" by simp
  have th: "exFnThrows [JStr ''hello''] = Inl (Thrown (JNum 7))" by (simp add: exFnThrows_def)
  have pr: "interpolate envUp (Thrown (JNum 7)) = Inr ''value''" by simp
  have cr: "exCreateThrows (Some exRequest) = Inl (Thrown (JStr ''rate limited''))"
    by (simp add: exCreateThrows_def)
  have pr2: "interpolate envUp (Thrown (JStr ''rate limited'')) = Inr ''rate limited''" by simp
  have en: "onMonitoredFunctionError exOptions \<noteq> Some False" by (simp add: exOptions_def)
  have pv: "pv_sdk exProvider \<noteq> None" by (simp add: exProvider_def)
  note inv = monitor_delivered_failure(2) [where fn = exFnThrows and args = "[JStr ''hello'']", OF cfg ids ctl th pr]
  from callable_error_passes_through [where fn = exFnThrows and args = "[JStr ''hello'']"
         and originalMethod = exCreateThrows and arg = "Some exRequest"
         and y = "Thrown (JStr ''rate limited'')" and t = "''rate limited''"
         and pv = exProvider and client = exClient and options = exOptions, OF th inv pr] cfg en cr pr2 pv
  show ?thesis by auto
qed

text \<open>
  C3 as stated fails: with \<^verbatim>\<open>onMonitoredFunctionError: false\<close> the wrapper rejects with the
  callable's error after dispatching the control request only; no error report is sent.
\<close>

theorem no_error_report_when_switched_off:
  "fst (monitor envUp exSilent exFnThrows [JStr ''hello''] world0) = Rejected (Thrown (JNum 7)) \<and>
   map snd (dispatched world0 (snd (monitor envUp exSilent exFnThrows [JStr ''hello''] world0))) = [control]"
proof -
  let ?ids = "\<lparr> id_chatId = ''123'', id_email = ''anonymous@olakai.ai'' \<rparr>"
  have cfg: "getConfig envUp = Inr exConfig" by simp
  have ids: "identifiersOf envUp exSilent [JStr ''hello''] = Inr ?ids" by simp
  have ctl: "sendToAPI envUp (controlRequest envUp exSilent [JStr ''hello''] ?ids) control
               (length (sent world0)) = Inr exAllow" by simp
  have th: "exFnThrows [JStr ''hello''] = Inl (Thrown (JNum 7))" by (simp add: exFnThrows_def)
  have pr: "interpolate envUp (Thrown (JNum 7)) = Inr ''value''" by simp
  have off: "onMonitoredFunctionError exSilent = Some False" by (simp add: exSilent_def)
  from monitor_delivered_failure(1,3) [where fn = exFnThrows and args = "[JStr ''hello'']", OF cfg ids ctl th pr] off
  show ?thesis by (simp add: dispatched_def)
qed

text \<open>
  A callable that throws a Symbol is outside those thrown values. The \<^verbatim>\<open>catch\<close> block of
  \<^verbatim>\<open>monitor\<close> throws a \<^verbatim>\<open>TypeError\<close> while it composes its log line, before \<^verbatim>\<open>reportError\<close>
  and the re-throw: the call rejects with the \<^verbatim>\<open>TypeError\<close> and only the control request was
  dispatched.
\<close>

lemma symbol_thrown_by_callable_is_replaced:
  "fst (monitor envUp exOptions exFnThrowsSymbol [JStr ''hello''] world0) =
     Rejected (TypeError ''Cannot convert a Symbol value to a string'') \<and>
   invoked (snd (monitor envUp exOptions exFnThrowsSymbol [JStr ''hello''] world0)) = [[JStr ''hello'']] \<and>
   map snd (dispatched world0 (snd (monitor envUp exOptions exFnThrowsSymbol [JStr ''hello''] world0))) = [control]"
proof -
  let ?ids = "\<lparr> id_chatId = ''123'', id_email = ''anonymous@olakai.ai'' \<rparr>"
  have cfg: "getConfig envUp = Inr exConfig" by simp
  have ids: "identifiersOf envUp exOptions [JStr ''hello''] = Inr ?ids" by simp
  have ctl: "sendToAPI envUp (controlRequest envUp exOptions [JStr ''hello''] ?ids) control
               (length (sent world0)) = Inr exAllow" by simp
  have th: "exFnThrowsSymbol [JStr ''hello''] = Inl (Thrown (JSymbol ''stop''))"
    by (simp add: exFnThrowsSymbol_def)
  have pr: "interpolate envUp (Thrown (JSymbol ''stop'')) = Inl symbolToString" by simp
  from monitor_delivered_failure_unprintable [where fn = exFnThrowsSymbol and args = "[JStr ''hello'']",
      OF cfg ids ctl th pr]
  show ?thesis by (simp add: dispatched_def symbolToString_def)
qed

text \<open>
  C5 fails on the code. The SDK is configured and the control endpoint answers the control
  request of a function wrapped by \<^verbatim>\<open>monitor\<close> with \<^verbatim>\<open>allowed: false\<close> and the detected
  sensitivity \<^verbatim>\<open>["PII"]\<close>. \<^verbatim>\<open>shouldAllowCall\<close> awaits \<^verbatim>\<open>sendToAPI\<close> and does not read what it
  resolves to, so the callable is executed, the call resolves with its result, and the
  monitoring request that follows is not a blocked one.
\<close>

theorem monitor_ignores_denying_response:
  "sendToAPI envDeny (controlRequest envDeny exOptions [JStr ''hello'']
                        \<lparr> id_chatId = ''123'', id_email = ''anonymous@olakai.ai'' \<rparr>) control 0
     = Inr (ControlResponse \<lparr> allowed = False,
                               details = \<lparr> detectedSensitivity = [''PII''], isAllowedPersona = False \<rparr>,
                               message = None \<rparr>) \<and>
   fst (monitor envDeny exOptions exFnOk [JStr ''hello''] world0) = Resolved (JStr ''done'') \<and>
   invoked (snd (monitor envDeny exOptions exFnOk [JStr ''hello''] world0)) = [[JStr ''hello'']] \<and>
   map snd (dispatched world0 (snd (monitor envDeny exOptions exFnOk [JStr ''hello''] world0)))
     = [control, monitoring] \<and>
   map (payload_blocked \<circ> fst)
     (dispatched world0 (snd (monitor envDeny exOptions exFnOk [JStr ''hello''] world0)))
     = [None, Some False]"
proof -
  let ?ids = "\<lparr> id_chatId = ''123'', id_email = ''anonymous@olakai.ai'' \<rparr>"
  have cfg: "getConfig envDeny = Inr exConfig" by simp
  have ids: "identifiersOf envDeny exOptions [JStr ''hello''] = Inr ?ids" by simp
  have ctl: "sendToAPI envDeny (controlRequest envDeny exOptions [JStr ''hello''] ?ids) control
               (length (sent world0)) = Inr exDeny" by simp
  have ok: "exFnOk [JStr ''hello''] = Inr (JStr ''done'')" by (simp add: exFnOk_def)
  from monitor_delivered_success [where fn = exFnOk and args = "[JStr ''hello'']", OF cfg ids ctl ok]
  show ?thesis by (auto simp add: dispatched_def exDeny_def controlRequest_def payload_blocked_def)
qed

text \<open>
  C9, as the code has it: before \<^verbatim>\<open>init()\<close> has completed (the state the constructor
  leaves), \<^verbatim>\<open>wrap\<close> throws a plain \<^verbatim>\<open>Error\<close> with the not-initialised message and wraps
  nothing; \<^verbatim>\<open>event\<close> raises nothing: it logs a warning and returns, and no request is
  dispatched.
\<close>

theorem operations_before_init:
  assumes "\<not> initialized sdk"
  shows "wrap sdk client cfg = Inl (Error notInitializedMessage) \<and>
         event e sdk params w = (Inr (), w\<lparr>logged := logged w @ [(warn, ''SDK not initialized. Call init() first.'')]\<rparr>) \<and>
         \<not> initialized (newOlakaiSDK e opts)"
  using assms by (simp add: wrap_def event_def olakaiLogger_def newOlakaiSDK_def Let_def)

theorem operations_before_init_witness:
  "wrap exUninitialized exClient exWrapperConfig = Inl (Error notInitializedMessage) \<and>
   fst (event envUp exUninitialized exEvent world0) = Inr () \<and>
   sent (snd (event envUp exUninitialized exEvent world0)) = []"
proof -
  have u: "\<not> initialized exUninitialized" by (simp add: exUninitialized_def newOlakaiSDK_def Let_def)
  from operations_before_init [OF u, of exClient exWrapperConfig envUp exEvent world0]
  show ?thesis by simp
qed

text \<open>
  C9 as stated fails: on an SDK that was constructed and never initialised, \<^verbatim>\<open>event\<close>
  returns normally, and the error \<^verbatim>\<open>wrap\<close> throws is a plain \<^verbatim>\<open>Error\<close>.
\<close>

theorem event_before_init_returns_silently:
  "fst (event envUp exUninitialized exEvent world0) = Inr () \<and>
   wrap exUninitialized exClient exWrapperConfig =
     Inl (Error ''[Olakai SDK] SDK not initialized. Call init() first.'')"
  by (simp add: event_def wrap_def exUninitialized_def newOlakaiSDK_def notInitializedMessage_def Let_def)

section \<open>Properties of the streaming accumulators\<close>

lemma reportedText_clock [simp]:
  "reportedText (w\<lparr>clock := c\<rparr>) = reportedText w"
  by (simp add: reportedText_def)

lemma onLLMCall_reportedText:
  "pv_sdk pv = Some sdk \<Longrightarrow>
   reportedText (onLLMCall e pv prompt response metadata w) = reportedText w @ [response]"
  by (simp add: reportedText_def onLLMCall_calls)

lemma google_fireCallback_effect:
  assumes "pv_sdk pv = Some sdk"
  shows "callbackFired (fst (google_fireCallback e pv a fr (st, w)))"
    and "accumulatedText (fst (google_fireCallback e pv a fr (st, w))) = accumulatedText st"
    and "reportedText (snd (google_fireCallback e pv a fr (st, w))) =
           reportedText w @ (if callbackFired st then [] else [accumulatedText st])"
  using assms
  by (simp_all add: google_fireCallback_def date_now_def Let_def case_prod_beta onLLMCall_reportedText)

lemma google_step_effect:
  assumes "pv_sdk pv = Some sdk"
  shows "callbackFired (fst (google_step e pv a op (st, w))) = (callbackFired st \<or> google_completes op)"
    and "length (reportedText (snd (google_step e pv a op (st, w)))) =
           length (reportedText w) + (if \<not> callbackFired st \<and> google_completes op then 1 else 0)"
proof -
  note f = google_fireCallback_effect [OF assms]
  show "callbackFired (fst (google_step e pv a op (st, w))) = (callbackFired st \<or> google_completes op)"
    by (cases "(e, pv, a, op, (st, w))" rule: google_step.cases)
       (auto simp add: f Let_def split: option.splits)
  show "length (reportedText (snd (google_step e pv a op (st, w)))) =
           length (reportedText w) + (if \<not> callbackFired st \<and> google_completes op then 1 else 0)"
    by (cases "(e, pv, a, op, (st, w))" rule: google_step.cases)
       (auto simp add: f Let_def split: option.splits)
qed

lemma google_consume_effect:
  assumes "pv_sdk pv = Some sdk"
  shows "callbackFired (fst (google_consume e pv a ops (st, w))) =
           (callbackFired st \<or> (\<exists>op \<in> set ops. google_completes op)) \<and>
         length (reportedText (snd (google_consume e pv a ops (st, w)))) =
           length (reportedText w) + (if \<not> callbackFired st \<and> (\<exists>op \<in> set ops. google_completes op) then 1 else 0)"
proof (induction ops arbitrary: st w)
  case Nil
  then show ?case by (simp add: google_consume_def)
next
  case (Cons op ops)
  obtain st1 w1 where s: "google_step e pv a op (st, w) = (st1, w1)" by (cases "google_step e pv a op (st, w)")
  from google_step_effect [OF assms, of e a op st w] s
  have 1: "callbackFired st1 = (callbackFired st \<or> google_completes op)"
    and 2: "length (reportedText w1) = length (reportedText w) + (if \<not> callbackFired st \<and> google_completes op then 1 else 0)"
    by simp_all
  have c: "google_consume e pv a (op # ops) (st, w) = google_consume e pv a ops (st1, w1)"
    by (simp add: google_consume_def s)
  from Cons.IH [of st1 w1] show ?case unfolding c 1 2 by auto
qed

lemma anthropic_fireCallback_effect:
  assumes "pv_sdk pv = Some sdk"
  shows "callbackFired (fst (anthropic_fireCallback e pv a (st, w)))"
    and "accumulatedText (fst (anthropic_fireCallback e pv a (st, w))) = accumulatedText st"
    and "reportedText (snd (anthropic_fireCallback e pv a (st, w))) =
           reportedText w @ (if callbackFired st then [] else [accumulatedText st])"
  using assms
  by (simp_all add: anthropic_fireCallback_def date_now_def Let_def case_prod_beta onLLMCall_reportedText)

lemma takeFinal_callbackFired [simp]:
  "callbackFired (takeFinal e msg st) = callbackFired st"
  by (simp add: takeFinal_def Let_def split: option.splits)

lemma anthropic_step_effect:
  assumes "pv_sdk pv = Some sdk"
  shows "callbackFired (fst (anthropic_step e pv a op (st, w))) = (callbackFired st \<or> anthropic_completes op)"
    and "length (reportedText (snd (anthropic_step e pv a op (st, w)))) =
           length (reportedText w) + (if \<not> callbackFired st \<and> anthropic_completes op then 1 else 0)"
proof -
  note f = anthropic_fireCallback_effect [OF assms]
  show "callbackFired (fst (anthropic_step e pv a op (st, w))) = (callbackFired st \<or> anthropic_completes op)"
    by (cases "(e, pv, a, op, (st, w))" rule: anthropic_step.cases)
       (auto simp add: f Let_def split: option.splits)
  show "length (reportedText (snd (anthropic_step e pv a op (st, w)))) =
           length (reportedText w) + (if \<not> callbackFired st \<and> anthropic_completes op then 1 else 0)"
    by (cases "(e, pv, a, op, (st, w))" rule: anthropic_step.cases)
       (auto simp add: f Let_def split: option.splits)
qed

lemma anthropic_consume_effect:
  assumes "pv_sdk pv = Some sdk"
  shows "callbackFired (fst (anthropic_consume e pv a ops (st, w))) =
           (callbackFired st \<or> (\<exists>op \<in> set ops. anthropic_completes op)) \<and>
         length (reportedText (snd (anthropic_consume e pv a ops (st, w)))) =
           length (reportedText w) +
             (if \<not> callbackFired st \<and> (\<exists>op \<in> set ops. anthropic_completes op) then 1 else 0)"
proof (induction ops arbitrary: st w)
  case Nil
  then show ?case by (simp add: anthropic_consume_def)
next
  case (Cons op ops)
  obtain st1 w1 where s: "anthropic_step e pv a op (st, w) = (st1, w1)"
    by (cases "anthropic_step e pv a op (st, w)")
  from anthropic_step_effect [OF assms, of e a op st w] s
  have 1: "callbackFired st1 = (callbackFired st \<or> anthropic_completes op)"
    and 2: "length (reportedText w1) =
              length (reportedText w) + (if \<not> callbackFired st \<and> anthropic_completes op then 1 else 0)"
    by simp_all
  have c: "anthropic_consume e pv a (op # ops) (st, w) = anthropic_consume e pv a ops (st1, w1)"
    by (simp add: anthropic_consume_def s)
  from Cons.IH [of st1 w1] show ?case unfolding c 1 2 by auto
qed

lemma google_consume_append:
  "google_consume e pv a (xs @ ys) sw = google_consume e pv a ys (google_consume e pv a xs sw)"
  by (simp add: google_consume_def)

lemma anthropic_consume_append:
  "anthropic_consume e pv a (xs @ ys) sw = anthropic_consume e pv a ys (anthropic_consume e pv a xs sw)"
  by (simp add: anthropic_consume_def)

lemma google_step_chunk:
  "snd (google_step e pv a (GNext (Inr (IteratorResult False v))) (st, w)) = w"
  "accumulatedText (fst (google_step e pv a (GNext (Inr (IteratorResult False v))) (st, w)))
     = accumulatedText st @ google_delta v"
  "callbackFired (fst (google_step e pv a (GNext (Inr (IteratorResult False v))) (st, w))) = callbackFired st"
  by (cases v; simp add: google_delta_def Let_def)+

lemma anthropic_step_event:
  "snd (anthropic_step e pv a (Next (Inr (IteratorResult False v))) (st, w)) = w"
  "accumulatedText (fst (anthropic_step e pv a (Next (Inr (IteratorResult False v))) (st, w)))
     = accumulatedText st @ anthropic_delta v"
  "callbackFired (fst (anthropic_step e pv a (Next (Inr (IteratorResult False v))) (st, w))) = callbackFired st"
  by (cases v; simp add: anthropic_delta_def Let_def)+

lemma google_consume_chunks:
  "accumulatedText (fst (google_consume e pv a (map (\<lambda>v. GNext (Inr (IteratorResult False v))) vs) (st, w)))
     = accumulatedText st @ concat (map google_delta vs) \<and>
   callbackFired (fst (google_consume e pv a (map (\<lambda>v. GNext (Inr (IteratorResult False v))) vs) (st, w)))
     = callbackFired st \<and>
   snd (google_consume e pv a (map (\<lambda>v. GNext (Inr (IteratorResult False v))) vs) (st, w)) = w"
proof (induction vs arbitrary: st)
  case Nil
  then show ?case by (simp add: google_consume_def)
next
  case (Cons v vs)
  obtain st1 w1 where s: "google_step e pv a (GNext (Inr (IteratorResult False v))) (st, w) = (st1, w1)"
    by (cases "google_step e pv a (GNext (Inr (IteratorResult False v))) (st, w)")
  from google_step_chunk [of e pv a v st w] s
  have w1: "w1 = w" and a: "accumulatedText st1 = accumulatedText st @ google_delta v"
    and f: "callbackFired st1 = callbackFired st" by simp_all
  have c: "google_consume e pv a (map (\<lambda>v. GNext (Inr (IteratorResult False v))) (v # vs)) (st, w)
           = google_consume e pv a (map (\<lambda>v. GNext (Inr (IteratorResult False v))) vs) (st1, w)"
    unfolding google_consume_def using s w1 by simp
  from Cons.IH [of st1] show ?case unfolding c by (simp add: a f)
qed

lemma anthropic_consume_events:
  "accumulatedText (fst (anthropic_consume e pv a (map (\<lambda>v. Next (Inr (IteratorResult False v))) vs) (st, w)))
     = accumulatedText st @ concat (map anthropic_delta vs) \<and>
   callbackFired (fst (anthropic_consume e pv a (map (\<lambda>v. Next (Inr (IteratorResult False v))) vs) (st, w)))
     = callbackFired st \<and>
   snd (anthropic_consume e pv a (map (\<lambda>v. Next (Inr (IteratorResult False v))) vs) (st, w)) = w"
proof (induction vs arbitrary: st)
  case Nil
  then show ?case by (simp add: anthropic_consume_def)
next
  case (Cons v vs)
  obtain st1 w1 where s: "anthropic_step e pv a (Next (Inr (IteratorResult False v))) (st, w) = (st1, w1)"
    by (cases "anthropic_step e pv a (Next (Inr (IteratorResult False v))) (st, w)")
  from anthropic_step_event [of e pv a v st w] s
  have w1: "w1 = w" and a: "accumulatedText st1 = accumulatedText st @ anthropic_delta v"
    and f: "callbackFired st1 = callbackFired st" by simp_all
  have c: "anthropic_consume e pv a (map (\<lambda>v. Next (Inr (IteratorResult False v))) (v # vs)) (st, w)
           = anthropic_consume e pv a (map (\<lambda>v. Next (Inr (IteratorResult False v))) vs) (st1, w)"
    unfolding anthropic_consume_def using s w1 by simp
  from Cons.IH [of st1] show ?case unfolding c by (simp add: a f)
qed

lemma google_iterate_report:
  assumes "pv_sdk pv = Some sdk" and "\<not> callbackFired st"
  shows "reportedText (snd (google_consume e pv a (google_iterate vs) (st, w))) =
           reportedText w @ [accumulatedText st @ concat (map google_delta vs)]"
proof -
  obtain st1 w1 where s:
    "google_consume e pv a (map (\<lambda>v. GNext (Inr (IteratorResult False v))) vs) (st, w) = (st1, w1)"
    by (cases "google_consume e pv a (map (\<lambda>v. GNext (Inr (IteratorResult False v))) vs) (st, w)")
  from google_consume_chunks [of e pv a vs st w] s assms(2)
  have w1: "w1 = w" and a: "accumulatedText st1 = accumulatedText st @ concat (map google_delta vs)"
    and f: "\<not> callbackFired st1" by simp_all
  have "google_consume e pv a (google_iterate vs) (st, w) = google_fireCallback e pv a None (st1, w)"
    unfolding google_iterate_def google_consume_append s w1 by (simp add: google_consume_def)
  then show ?thesis
    by (simp add: google_fireCallback_effect(3) [OF assms(1)] a f)
qed

lemma anthropic_iterate_report:
  assumes "pv_sdk pv = Some sdk" and "\<not> callbackFired st"
  shows "reportedText (snd (anthropic_consume e pv a (anthropic_iterate vs) (st, w))) =
           reportedText w @ [accumulatedText st @ concat (map anthropic_delta vs)]"
proof -
  obtain st1 w1 where s:
    "anthropic_consume e pv a (map (\<lambda>v. Next (Inr (IteratorResult False v))) vs) (st, w) = (st1, w1)"
    by (cases "anthropic_consume e pv a (map (\<lambda>v. Next (Inr (IteratorResult False v))) vs) (st, w)")
  from anthropic_consume_events [of e pv a vs st w] s assms(2)
  have w1: "w1 = w" and a: "accumulatedText st1 = accumulatedText st @ concat (map anthropic_delta vs)"
    and f: "\<not> callbackFired st1" by simp_all
  have "anthropic_consume e pv a (anthropic_iterate vs) (st, w) = anthropic_fireCallback e pv a (st1, w)"
    unfolding anthropic_iterate_def anthropic_consume_append s w1 by (simp add: anthropic_consume_def)
  then show ?thesis
    by (simp add: anthropic_fireCallback_effect(3) [OF assms(1)] a f)
qed

lemma payload_response_simps [simp]:
  "payload_response (MonPayload m) = Some (mp_response m)"
  "payload_response (CtlPayload c) = None"
  by (simp_all add: payload_response_def)

lemma onLLMCall_uncontrolled:
  assumes "pv_sdk pv = Some sdk" and "\<not> controlEnabled pv sdk"
  shows "map (payload_response \<circ> fst) (dispatched w (onLLMCall e pv prompt response metadata w))
           = [Some (toJsonValue e (JStr response) None)]"
proof -
  let ?w = "w\<lparr>llmCalls := llmCalls w @ [(prompt, response, metadata)]\<rparr>"
  have h: "handleLLMCall e sdk prompt response metadata (pv_config pv) ?w =
           sendMonitoring e sdk prompt response metadata (pv_config pv) False None ?w"
    using assms(2)
    by (simp add: handleLLMCall_def controlEnabled_def Let_def case_prod_beta prod_eq_iff split: outcome.splits)
  from sendMonitoring_sent [of e sdk prompt response metadata "pv_config pv" False None ?w]
  show ?thesis
    by (auto simp add: onLLMCall_def assms(1) h dispatched_def)
qed

lemma dispatched_clock [simp]: "dispatched (w\<lparr>clock := c\<rparr>) v = dispatched w v"
  by (simp add: dispatched_def)

lemma google_fireCallback_dispatch:
  assumes "pv_sdk pv = Some sdk" and "\<not> controlEnabled pv sdk" and "\<not> callbackFired st"
  shows "map (payload_response \<circ> fst) (dispatched w (snd (google_fireCallback e pv a fr (st, w))))
           = [Some (toJsonValue e (JStr (accumulatedText st)) None)]"
  using assms(3) onLLMCall_uncontrolled [OF assms(1,2), of "w\<lparr>clock := Suc (clock w)\<rparr>" e]
  by (simp add: google_fireCallback_def date_now_def Let_def case_prod_beta)

lemma anthropic_fireCallback_dispatch:
  assumes "pv_sdk pv = Some sdk" and "\<not> controlEnabled pv sdk" and "\<not> callbackFired st"
  shows "map (payload_response \<circ> fst) (dispatched w (snd (anthropic_fireCallback e pv a (st, w))))
           = [Some (toJsonValue e (JStr (accumulatedText st)) None)]"
  using assms(3) onLLMCall_uncontrolled [OF assms(1,2), of "w\<lparr>clock := Suc (clock w)\<rparr>" e]
  by (simp add: anthropic_fireCallback_def date_now_def Let_def case_prod_beta)

lemma google_iterate_dispatch:
  assumes "pv_sdk pv = Some sdk" and "\<not> controlEnabled pv sdk" and "\<not> callbackFired st"
  shows "map (payload_response \<circ> fst) (dispatched w (snd (google_consume e pv a (google_iterate vs) (st, w))))
           = [Some (toJsonValue e (JStr (accumulatedText st @ concat (map google_delta vs))) None)]"
proof -
  obtain st1 w1 where s:
    "google_consume e pv a (map (\<lambda>v. GNext (Inr (IteratorResult False v))) vs) (st, w) = (st1, w1)"
    by (cases "google_consume e pv a (map (\<lambda>v. GNext (Inr (IteratorResult False v))) vs) (st, w)")
  from google_consume_chunks [of e pv a vs st w] s assms(3)
  have w1: "w1 = w" and a: "accumulatedText st1 = accumulatedText st @ concat (map google_delta vs)"
    and f: "\<not> callbackFired st1" by simp_all
  have "google_consume e pv a (google_iterate vs) (st, w) = google_fireCallback e pv a None (st1, w)"
    unfolding google_iterate_def google_consume_append s w1 by (simp add: google_consume_def)
  then show ?thesis
    by (simp add: google_fireCallback_dispatch [OF assms(1,2) f] a)
qed

lemma anthropic_iterate_dispatch:
  assumes "pv_sdk pv = Some sdk" and "\<not> controlEnabled pv sdk" and "\<not> callbackFired st"
  shows "map (payload_response \<circ> fst) (dispatched w (snd (anthropic_consume e pv a (anthropic_iterate vs) (st, w))))
           = [Some (toJsonValue e (JStr (accumulatedText st @ concat (map anthropic_delta vs))) None)]"
proof -
  obtain st1 w1 where s:
    "anthropic_consume e pv a (map (\<lambda>v. Next (Inr (IteratorResult False v))) vs) (st, w) = (st1, w1)"
    by (cases "anthropic_consume e pv a (map (\<lambda>v. Next (Inr (IteratorResult False v))) vs) (st, w)")
  from anthropic_consume_events [of e pv a vs st w] s assms(3)
  have w1: "w1 = w" and a: "accumulatedText st1 = accumulatedText st @ concat (map anthropic_delta vs)"
    and f: "\<not> callbackFired st1" by simp_all
  have "anthropic_consume e pv a (anthropic_iterate vs) (st, w) = anthropic_fireCallback e pv a (st1, w)"
    unfolding anthropic_iterate_def anthropic_consume_append s w1 by (simp add: anthropic_consume_def)
  then show ?thesis
    by (simp add: anthropic_fireCallback_dispatch [OF assms(1,2) f] a)
qed

lemma wrapStream_initial [simp]:
  "\<not> callbackFired google_wrapStreamResponse" "accumulatedText google_wrapStreamResponse = []"
  "\<not> callbackFired anthropic_wrapStream" "accumulatedText anthropic_wrapStream = []"
  by (simp_all add: google_wrapStreamResponse_def anthropic_wrapStream_def)

text \<open>
  C7: when the wrapped iterator is consumed to exhaustion, the text of the completion
  report (the \<^verbatim>\<open>response\<close> argument of \<^verbatim>\<open>onLLMCall\<close>, and the \<^verbatim>\<open>response\<close> of the
  \<^verbatim>\<open>MonitorPayload\<close> dispatched from it when the control check is off) is the concatenation,
  in order, of the text extracted from each chunk; a chunk whose text accessor throws
  contributes the empty string.
\<close>

theorem iteration_reports_concatenated_deltas:
  assumes "pv_sdk pv = Some sdk"
  shows "reportedText (snd (google_consume e pv ga (google_iterate gvs) (google_wrapStreamResponse, w)))
           = reportedText w @ [concat (map google_delta gvs)] \<and>
         reportedText (snd (anthropic_consume e pv aa (anthropic_iterate avs) (anthropic_wrapStream, w)))
           = reportedText w @ [concat (map anthropic_delta avs)] \<and>
         google_delta (Some \<lparr> gc_candidates = None, gc_text = TextFunction (Inl x) \<rparr>) = [] \<and>
         (\<not> controlEnabled pv sdk \<longrightarrow>
            map (payload_response \<circ> fst)
              (dispatched w (snd (google_consume e pv ga (google_iterate gvs) (google_wrapStreamResponse, w))))
              = [Some (toJsonValue e (JStr (concat (map google_delta gvs))) None)] \<and>
            map (payload_response \<circ> fst)
              (dispatched w (snd (anthropic_consume e pv aa (anthropic_iterate avs) (anthropic_wrapStream, w))))
              = [Some (toJsonValue e (JStr (concat (map anthropic_delta avs))) None)])"
  using google_iterate_report [where st = google_wrapStreamResponse and e = e and a = ga and vs = gvs and w = w, OF assms]
    anthropic_iterate_report [where st = anthropic_wrapStream and e = e and a = aa and vs = avs and w = w, OF assms]
    google_iterate_dispatch [where st = google_wrapStreamResponse and e = e and a = ga and vs = gvs and w = w, OF assms]
    anthropic_iterate_dispatch [where st = anthropic_wrapStream and e = e and a = aa and vs = avs and w = w, OF assms]
  by (simp add: google_delta_def google_extractTextFromChunk_def firstParts_def)

lemma exDeltas:
  "concat (map google_delta exChunks) = ''abc''" "concat (map anthropic_delta exEvents) = ''abc''"
  by (simp_all add: exChunks_def exEvents_def google_delta_def anthropic_delta_def
        google_extractTextFromChunk_def anthropic_extractTextFromEvent_def firstParts_def partsText_def
        exPartsChunk_def exFailingChunk_def exDeltaEvent_def str_or_def)

theorem iteration_reports_concatenated_deltas_witness:
  "reportedText (snd (google_consume envUp exPlainProvider exGoogleArgs (google_iterate exChunks)
                        (google_wrapStreamResponse, world0))) = [''abc''] \<and>
   reportedText (snd (anthropic_consume envUp exPlainProvider exAnthropicArgs (anthropic_iterate exEvents)
                        (anthropic_wrapStream, world0))) = [''abc''] \<and>
   map (payload_response \<circ> fst)
     (dispatched world0 (snd (google_consume envUp exPlainProvider exGoogleArgs (google_iterate exChunks)
                                (google_wrapStreamResponse, world0)))) = [Some (JStr ''abc'')]"
proof -
  have pv: "pv_sdk exPlainProvider = Some exSdk" by (simp add: exPlainProvider_def)
  have off: "\<not> controlEnabled exPlainProvider exSdk"
    by (simp add: controlEnabled_def exPlainProvider_def exPlainConfig_def nullish_def)
  have j: "toJsonValue envUp (JStr ''abc'') None = JStr ''abc''" by (simp add: envUp_def)
  have r0: "reportedText world0 = []" by (simp add: reportedText_def)
  from iteration_reports_concatenated_deltas [where e = envUp and ga = exGoogleArgs and gvs = exChunks
         and w = world0 and aa = exAnthropicArgs and avs = exEvents, OF pv] off
  show ?thesis by (simp add: exDeltas j r0)
qed

text \<open>
  C2: for every sequence of operations a consumer performs on a wrapped stream, the
  completion flag is set exactly when a completing operation has occurred (the iterator
  reporting \<^verbatim>\<open>done\<close>, \<^verbatim>\<open>return()\<close> on early termination, a final-result promise or accessor
  resolving, a terminal event delivered) and never returns to false, and the number of
  completion reports is one if the sequence contains a completing operation, in any
  number and any combination, and zero otherwise.
\<close>

theorem completion_report_fires_exactly_once:
  assumes "pv_sdk pv = Some sdk"
  shows "callbackFired (fst (google_consume e pv ga gops (google_wrapStreamResponse, w)))
           = (\<exists>op \<in> set gops. google_completes op) \<and>
         length (reportedText (snd (google_consume e pv ga gops (google_wrapStreamResponse, w))))
           = length (reportedText w) + (if \<exists>op \<in> set gops. google_completes op then 1 else 0) \<and>
         (callbackFired (fst (google_consume e pv ga gops (google_wrapStreamResponse, w))) \<longrightarrow>
            callbackFired (fst (google_consume e pv ga (gops @ gmore) (google_wrapStreamResponse, w)))) \<and>
         callbackFired (fst (anthropic_consume e pv aa aops (anthropic_wrapStream, w)))
           = (\<exists>op \<in> set aops. anthropic_completes op) \<and>
         length (reportedText (snd (anthropic_consume e pv aa aops (anthropic_wrapStream, w))))
           = length (reportedText w) + (if \<exists>op \<in> set aops. anthropic_completes op then 1 else 0) \<and>
         (callbackFired (fst (anthropic_consume e pv aa aops (anthropic_wrapStream, w))) \<longrightarrow>
            callbackFired (fst (anthropic_consume e pv aa (aops @ amore) (anthropic_wrapStream, w))))"
  using google_consume_effect [OF assms, of e ga gops google_wrapStreamResponse w]
    google_consume_effect [OF assms, of e ga "gops @ gmore" google_wrapStreamResponse w]
    anthropic_consume_effect [OF assms, of e aa aops anthropic_wrapStream w]
    anthropic_consume_effect [OF assms, of e aa "aops @ amore" anthropic_wrapStream w]
  by auto

theorem completion_report_fires_exactly_once_witness:
  "length (reportedText (snd (google_consume envUp exProvider exGoogleArgs exMixedGoogle
                                (google_wrapStreamResponse, world0)))) = 1 \<and>
   length (reportedText (snd (anthropic_consume envUp exProvider exAnthropicArgs exMixedAnthropic
                                (anthropic_wrapStream, world0)))) = 1 \<and>
   callbackFired (fst (google_consume envUp exProvider exGoogleArgs exMixedGoogle
                         (google_wrapStreamResponse, world0))) \<and>
   callbackFired (fst (anthropic_consume envUp exProvider exAnthropicArgs exMixedAnthropic
                         (anthropic_wrapStream, world0)))"
proof -
  have pv: "pv_sdk exProvider = Some exSdk" by (simp add: exProvider_def)
  have g: "\<exists>op \<in> set exMixedGoogle. google_completes op"
    by (simp add: exMixedGoogle_def google_iterate_def)
  have a: "\<exists>op \<in> set exMixedAnthropic. anthropic_completes op"
    by (simp add: exMixedAnthropic_def)
  have r0: "reportedText world0 = []" by (simp add: reportedText_def)
  from completion_report_fires_exactly_once [where e = envUp and ga = exGoogleArgs and gops = exMixedGoogle
         and w = world0 and aa = exAnthropicArgs and aops = exMixedAnthropic, OF pv] g a
  show ?thesis by (simp add: r0)
qed

section \<open>Properties of the metadata normalisers\<close>

lemma roundDouble_exact:
  "\<bar>n\<bar> \<le> 2 ^ 53 \<Longrightarrow> roundDouble n = n"
  by (simp add: roundDouble_def)

text \<open>Beyond \<open>2 ^ 53\<close> the sum of two numbers is rounded: \<^verbatim>\<open>9007199254740992 + 1\<close> is \<^verbatim>\<open>9007199254740992\<close>.\<close>

lemma bitlen_0: "bitlen 0 = 0"
  by (simp add: bitlen.simps)

lemma bitlen_pos: "0 < n \<Longrightarrow> bitlen n = Suc (bitlen (n div 2))"
  by (subst bitlen.simps) simp

lemma bitlen_Suc0: "bitlen (Suc 0) = Suc 0"
  by (simp add: bitlen_pos bitlen_0)

lemma bitlen_numeral: "bitlen (numeral k) = Suc (bitlen (numeral k div 2))"
  by (rule bitlen_pos) simp

lemma js_add_rounds:
  "js_add 9007199254740992 1 = 9007199254740992"
  "js_add 9007199254740992 3 = 9007199254740996"
  "js_add 10 5 = 15"
  by (simp_all add: js_add_def roundDouble_def bitlen_0 bitlen_Suc0 bitlen_numeral Let_def)

text \<open>
  C6, as the code has it: the Anthropic normaliser computes \<^verbatim>\<open>tokens.total\<close> as the sum
  of the prompt and completion counts, a sum of JavaScript numbers and so the exact sum
  whenever that is at most \<open>2 ^ 53\<close>; the OpenAI and Google normalisers copy the provider's
  own total field, so the total is absent when the provider supplies none.
\<close>

theorem anthropic_total_is_prompt_plus_completion:
  assumes "am_usage response = Some u" and "input_tokens u = Some p" and "output_tokens u = Some c"
  shows "md_tokens (spread (anthropic_extractResponseMetadata response) m)
           = Some \<lparr> tk_prompt = Some p, tk_completion = Some c, tk_total = Some (js_add p c) \<rparr> \<and>
         (\<bar>p + c\<bar> \<le> 2 ^ 53 \<longrightarrow> js_add p c = p + c) \<and>
         (usage oresp = Some ou \<longrightarrow>
            md_tokens (spread (openai_extractResponseMetadata oresp) m)
              = Some \<lparr> tk_prompt = prompt_tokens ou, tk_completion = completion_tokens ou,
                       tk_total = total_tokens ou \<rparr>) \<and>
         (gr_response gresp = Some inner \<and> in_usageMetadata inner = Some gu \<longrightarrow>
            md_tokens (spread (google_extractResponseMetadata gresp) m)
              = Some \<lparr> tk_prompt = promptTokenCount gu, tk_completion = candidatesTokenCount gu,
                       tk_total = totalTokenCount gu \<rparr>) \<and>
         ((\<forall>r. gr_response gresp' = Some r \<longrightarrow> in_usageMetadata r = None) \<and>
          gr_usageMetadata gresp' = Some gu' \<longrightarrow>
            md_tokens (spread (google_extractResponseMetadata gresp') m)
              = Some \<lparr> tk_prompt = promptTokenCount gu', tk_completion = candidatesTokenCount gu',
                       tk_total = totalTokenCount gu' \<rparr>)"
proof (intro conjI impI)
  show "md_tokens (spread (anthropic_extractResponseMetadata response) m)
           = Some \<lparr> tk_prompt = Some p, tk_completion = Some c, tk_total = Some (js_add p c) \<rparr>"
    using assms
    by (simp add: spread_def override_def anthropic_extractResponseMetadata_def emptyPartial_def num_or0_def)
next
  assume "\<bar>p + c\<bar> \<le> 2 ^ 53"
  then show "js_add p c = p + c" by (simp add: js_add_def roundDouble_exact)
next
  assume "usage oresp = Some ou"
  then show "md_tokens (spread (openai_extractResponseMetadata oresp) m)
              = Some \<lparr> tk_prompt = prompt_tokens ou, tk_completion = completion_tokens ou,
                       tk_total = total_tokens ou \<rparr>"
    by (simp add: spread_def override_def openai_extractResponseMetadata_def emptyPartial_def)
next
  assume "gr_response gresp = Some inner \<and> in_usageMetadata inner = Some gu"
  then show "md_tokens (spread (google_extractResponseMetadata gresp) m)
              = Some \<lparr> tk_prompt = promptTokenCount gu, tk_completion = candidatesTokenCount gu,
                       tk_total = totalTokenCount gu \<rparr>"
    by (simp add: spread_def override_def google_extractResponseMetadata_def emptyPartial_def Let_def)
next
  assume "(\<forall>r. gr_response gresp' = Some r \<longrightarrow> in_usageMetadata r = None) \<and>
          gr_usageMetadata gresp' = Some gu'"
  then show "md_tokens (spread (google_extractResponseMetadata gresp') m)
              = Some \<lparr> tk_prompt = promptTokenCount gu', tk_completion = candidatesTokenCount gu',
                       tk_total = totalTokenCount gu' \<rparr>"
    by (cases "gr_response gresp'")
       (simp_all add: spread_def override_def google_extractResponseMetadata_def emptyPartial_def Let_def)
qed

theorem anthropic_total_is_prompt_plus_completion_witness:
  "md_tokens (spread (anthropic_extractResponseMetadata exMessage) exMetadata)
     = Some \<lparr> tk_prompt = Some 10, tk_completion = Some 5, tk_total = Some 15 \<rparr> \<and>
   md_tokens (spread (openai_extractResponseMetadata exResponse) exMetadata)
     = Some \<lparr> tk_prompt = Some 10, tk_completion = Some 5, tk_total = None \<rparr> \<and>
   md_tokens (spread (google_extractResponseMetadata exInnerResponse) exMetadata)
     = Some \<lparr> tk_prompt = Some 7, tk_completion = Some 3, tk_total = None \<rparr> \<and>
   md_tokens (spread (google_extractResponseMetadata exFinalResponse) exMetadata)
     = Some \<lparr> tk_prompt = Some 10, tk_completion = Some 5, tk_total = Some 15 \<rparr>"
proof -
  have u: "am_usage exMessage = Some \<lparr> input_tokens = Some 10, output_tokens = Some 5 \<rparr>"
    by (simp add: exMessage_def)
  have o: "usage exResponse = Some \<lparr> prompt_tokens = Some 10, completion_tokens = Some 5, total_tokens = None \<rparr>"
    by (simp add: exResponse_def)
  have g: "gr_response exInnerResponse =
             Some \<lparr> in_usageMetadata = Some \<lparr> promptTokenCount = Some 7, candidatesTokenCount = Some 3,
                                              totalTokenCount = None \<rparr>, in_candidates = None \<rparr>"
    by (simp add: exInnerResponse_def)
  have g': "\<forall>r. gr_response exFinalResponse = Some r \<longrightarrow> in_usageMetadata r = None"
    "gr_usageMetadata exFinalResponse =
       Some \<lparr> promptTokenCount = Some 10, candidatesTokenCount = Some 5, totalTokenCount = Some 15 \<rparr>"
    by (simp_all add: exFinalResponse_def)
  have i: "input_tokens \<lparr> input_tokens = Some 10, output_tokens = Some 5 \<rparr> = Some 10"
    and c: "output_tokens \<lparr> input_tokens = Some 10, output_tokens = Some 5 \<rparr> = Some 5"
    by simp_all
  have gi: "in_usageMetadata \<lparr> in_usageMetadata = Some \<lparr> promptTokenCount = Some 7, candidatesTokenCount = Some 3,
                                                            totalTokenCount = None \<rparr>, in_candidates = None \<rparr>
              = Some \<lparr> promptTokenCount = Some 7, candidatesTokenCount = Some 3, totalTokenCount = None \<rparr>"
    by simp
  note T = anthropic_total_is_prompt_plus_completion [where m = exMetadata
         and oresp = exResponse and gresp = exInnerResponse and gresp' = exFinalResponse, OF u i c]
  note a1 = T [THEN conjunct1]
  note a2 = T [THEN conjunct2, THEN conjunct1]
  note a3 = T [THEN conjunct2, THEN conjunct2, THEN conjunct1, THEN mp, OF o]
  note a4 = T [THEN conjunct2, THEN conjunct2, THEN conjunct2, THEN conjunct1, THEN mp, OF conjI [OF g gi]]
  note a5 = T [THEN conjunct2, THEN conjunct2, THEN conjunct2, THEN conjunct2, THEN mp, OF conjI [OF g']]
  from a2 have s: "js_add 10 5 = 15" by simp
  show ?thesis
    unfolding a1 a3 a4 a5 s by simp
qed

text \<open>
  C6 as stated fails for OpenAI: a response with \<^verbatim>\<open>prompt_tokens: 10\<close>,
  \<^verbatim>\<open>completion_tokens: 5\<close> and no \<^verbatim>\<open>total_tokens\<close> yields metadata without a total.
\<close>

theorem openai_total_is_not_derived:
  "md_tokens (spread (openai_extractResponseMetadata exResponse) exMetadata)
     = Some \<lparr> tk_prompt = Some 10, tk_completion = Some 5, tk_total = None \<rparr>"
  by (simp add: spread_def override_def openai_extractResponseMetadata_def emptyPartial_def exResponse_def)

end
